theory Spec2Isabelle
  imports Complex_Main "HOL-Library.AList" "HOL-Library.Monad_Syntax"
begin

section \<open>Values of the platform\<close>

text \<open>
  A Go \<open>float64\<close>: the finite values are read as the rationals they denote, next to the
  two infinities and NaN (form binding goes through \<open>strconv.ParseFloat\<close>, which accepts
  them). Only the comparisons with zero that the handlers make are needed.
\<close>

datatype float64 = Fin rat | PosInf | NegInf | NaN

fun gt_zero :: "float64 \<Rightarrow> bool" where
  "gt_zero (Fin r) = (0 < r)"
| "gt_zero PosInf = True"
| "gt_zero NegInf = False"
| "gt_zero NaN = False"

fun le_zero :: "float64 \<Rightarrow> bool" where
  "le_zero (Fin r) = (r \<le> 0)"
| "le_zero PosInf = False"
| "le_zero NegInf = True"
| "le_zero NaN = False"

text \<open>\<open>time.Time\<close>, as the milliseconds since the epoch that a BSON date keeps.\<close>

type_synonym time = int

text \<open>
  \<open>primitive.ObjectID\<close>: twelve bytes, represented by their canonical rendering, the 24
  lowercase hexadecimal digits that \<open>Hex()\<close> prints. \<open>ObjectIDFromHex\<close> accepts both
  letter cases and nothing but 24 hexadecimal digits.
\<close>

type_synonym oid = string

definition is_hex :: "char \<Rightarrow> bool" where
  "is_hex c = (c \<in> set ''0123456789abcdefABCDEF'')"

definition lower_hex :: "char \<Rightarrow> char" where
  "lower_hex c =
     (if c = CHR ''A'' then CHR ''a'' else if c = CHR ''B'' then CHR ''b''
      else if c = CHR ''C'' then CHR ''c'' else if c = CHR ''D'' then CHR ''d''
      else if c = CHR ''E'' then CHR ''e'' else if c = CHR ''F'' then CHR ''f'' else c)"

definition ObjectIDFromHex :: "string \<Rightarrow> oid option" where
  "ObjectIDFromHex s =
     (if length s = 24 \<and> list_all is_hex s then Some (map lower_hex s) else None)"

definition Hex :: "oid \<Rightarrow> string" where
  "Hex i = i"

definition NilObjectID :: oid where
  "NilObjectID = ''000000000000000000000000''"

definition IsZero :: "oid \<Rightarrow> bool" where
  "IsZero i = (i = NilObjectID)"

section \<open>BSON documents and the document store\<close>

datatype bson =
    BNull
  | BString string
  | BDouble float64
  | BInt int
  | BTime time
  | BOid oid
  | BArray "bson list"
  | BDoc "(string \<times> bson) list"

type_synonym doc = "(string \<times> bson) list"

text \<open>
  A Go \<open>bson.M\<close> is a map from field names to values: \<open>m[k] = v\<close> is \<open>AList.update k v m\<close>
  and \<open>len(m)\<close> the length of the list, whose keys stay distinct.
\<close>

text \<open>A filter \<open>bson.M{k: v, ...}\<close> of exact matches on top-level fields.\<close>

definition matches :: "doc \<Rightarrow> doc \<Rightarrow> bool" where
  "matches flt d = list_all (\<lambda>(k, v). map_of d k = Some v) flt"

text \<open>
  \<open>{"$set": update}\<close>: each key of the update names a top-level field (no key of this
  program contains a dot), whose value is replaced by the staged one, or added; every
  other field of the document is left as it is.
\<close>

definition apply_set :: "doc \<Rightarrow> doc \<Rightarrow> doc" where
  "apply_set upd d = foldl (\<lambda>acc (k, v). AList.update k v acc) d upd"

datatype collection_name = Events | Contributions | Hubs | Reviews | Favorites | Users

datatype store_op = Find | All | FindOne | CountDocuments | InsertOne | UpdateOne | DeleteOne

text \<open>
  The world a handler runs in: the collections (in natural order), the calls made to
  the store so far, the public IDs destroyed at the asset host, and the transport faults
  to come: each call to the store consumes the head of \<open>faults\<close> and fails on \<open>True\<close>;
  with no fault left, calls succeed.
\<close>

record world =
  db :: "collection_name \<Rightarrow> doc list"
  calls :: "(store_op \<times> collection_name) list"
  faults :: "bool list"
  destroyed :: "string list"

definition call :: "store_op \<Rightarrow> collection_name \<Rightarrow> world \<Rightarrow> bool \<times> world" where
  "call operation c w =
     (let w1 = w\<lparr>calls := calls w @ [(operation, c)]\<rparr>
      in case faults w of
           [] \<Rightarrow> (False, w1)
         | b # bs \<Rightarrow> (b, w1\<lparr>faults := bs\<rparr>))"

text \<open>\<open>col.Find(ctx, filter)\<close>: the cursor over the matching documents, or an error.\<close>

definition store_Find ::
  "collection_name \<Rightarrow> (doc \<Rightarrow> bool) \<Rightarrow> world \<Rightarrow> doc list option \<times> world" where
  "store_Find c flt w =
     (case call Find c w of
        (True, w1) \<Rightarrow> (None, w1)
      | (False, w1) \<Rightarrow> (Some (filter flt (db w1 c)), w1))"

text \<open>
  \<open>cursor.All(ctx, &xs)\<close>: decodes every document of the cursor; a document that does
  not decode, or a fault, is an error.
\<close>

fun decode_all :: "(doc \<Rightarrow> 'a option) \<Rightarrow> doc list \<Rightarrow> 'a list option" where
  "decode_all dec [] = Some []"
| "decode_all dec (d # ds) =
     (case dec d of
        None \<Rightarrow> None
      | Some x \<Rightarrow> (case decode_all dec ds of None \<Rightarrow> None | Some xs \<Rightarrow> Some (x # xs)))"

definition cursor_All ::
  "collection_name \<Rightarrow> (doc \<Rightarrow> 'a option) \<Rightarrow> doc list \<Rightarrow> world \<Rightarrow> 'a list option \<times> world" where
  "cursor_All c dec ds w =
     (case call All c w of
        (True, w1) \<Rightarrow> (None, w1)
      | (False, w1) \<Rightarrow> (decode_all dec ds, w1))"

text \<open>
  \<open>col.FindOne(ctx, filter)\<close>: the first matching document; \<open>None\<close> stands for every
  error (no document, or a fault), which no handler tells apart.
\<close>

definition store_FindOne ::
  "collection_name \<Rightarrow> (doc \<Rightarrow> bool) \<Rightarrow> world \<Rightarrow> doc option \<times> world" where
  "store_FindOne c flt w =
     (case call FindOne c w of
        (True, w1) \<Rightarrow> (None, w1)
      | (False, w1) \<Rightarrow> (find flt (db w1 c), w1))"

definition store_CountDocuments ::
  "collection_name \<Rightarrow> (doc \<Rightarrow> bool) \<Rightarrow> world \<Rightarrow> nat option \<times> world" where
  "store_CountDocuments c flt w =
     (case call CountDocuments c w of
        (True, w1) \<Rightarrow> (None, w1)
      | (False, w1) \<Rightarrow> (Some (length (filter flt (db w1 c))), w1))"

text \<open>
  \<open>col.InsertOne(ctx, doc)\<close>: appends the document; the store's unique index on \<open>_id\<close>
  refuses an identifier already present. \<open>True\<close> is success. The handlers insert
  documents whose \<open>_id\<close> comes from \<open>primitive.NewObjectID()\<close>; a document without one
  is stored as it is.
\<close>

definition store_InsertOne :: "collection_name \<Rightarrow> doc \<Rightarrow> world \<Rightarrow> bool \<times> world" where
  "store_InsertOne c d w =
     (case call InsertOne c w of
        (True, w1) \<Rightarrow> (False, w1)
      | (False, w1) \<Rightarrow>
          (if map_of d ''_id'' \<noteq> None \<and> list_ex (\<lambda>d'. map_of d' ''_id'' = map_of d ''_id'') (db w1 c)
           then (False, w1)
           else (True, w1\<lparr>db := (db w1)(c := db w1 c @ [d])\<rparr>)))"

text \<open>\<open>col.UpdateOne(ctx, filter, {"$set": update})\<close>: the matched count, or an error.\<close>

fun update_first :: "(doc \<Rightarrow> bool) \<Rightarrow> doc \<Rightarrow> doc list \<Rightarrow> doc list" where
  "update_first flt upd [] = []"
| "update_first flt upd (d # ds) =
     (if flt d then apply_set upd d # ds else d # update_first flt upd ds)"

definition store_UpdateOne ::
  "collection_name \<Rightarrow> (doc \<Rightarrow> bool) \<Rightarrow> doc \<Rightarrow> world \<Rightarrow> nat option \<times> world" where
  "store_UpdateOne c flt upd w =
     (case call UpdateOne c w of
        (True, w1) \<Rightarrow> (None, w1)
      | (False, w1) \<Rightarrow>
          (if list_ex flt (db w1 c)
           then (Some 1, w1\<lparr>db := (db w1)(c := update_first flt upd (db w1 c))\<rparr>)
           else (Some 0, w1)))"

text \<open>\<open>col.DeleteOne(ctx, filter)\<close>: removes the first match; the deleted count, or an error.\<close>

fun delete_first :: "(doc \<Rightarrow> bool) \<Rightarrow> doc list \<Rightarrow> doc list" where
  "delete_first flt [] = []"
| "delete_first flt (d # ds) = (if flt d then ds else d # delete_first flt ds)"

definition store_DeleteOne ::
  "collection_name \<Rightarrow> (doc \<Rightarrow> bool) \<Rightarrow> world \<Rightarrow> nat option \<times> world" where
  "store_DeleteOne c flt w =
     (case call DeleteOne c w of
        (True, w1) \<Rightarrow> (None, w1)
      | (False, w1) \<Rightarrow>
          (if list_ex flt (db w1 c)
           then (Some 1, w1\<lparr>db := (db w1)(c := delete_first flt (db w1 c))\<rparr>)
           else (Some 0, w1)))"

subsection \<open>Decoding documents into structs\<close>

text \<open>
  The driver's decoding of one field: a missing field or a null leaves the zero value,
  a value of another type is an error (\<open>None\<close>); a 64-bit float also reads an integer.
\<close>

fun as_string :: "bson option \<Rightarrow> string option" where
  "as_string None = Some []"
| "as_string (Some BNull) = Some []"
| "as_string (Some (BString s)) = Some s"
| "as_string (Some _) = None"

fun as_float :: "bson option \<Rightarrow> float64 option" where
  "as_float None = Some (Fin 0)"
| "as_float (Some BNull) = Some (Fin 0)"
| "as_float (Some (BDouble x)) = Some x"
| "as_float (Some (BInt i)) = Some (Fin (of_int i))"
| "as_float (Some _) = None"

fun as_int :: "bson option \<Rightarrow> int option" where
  "as_int None = Some 0"
| "as_int (Some BNull) = Some 0"
| "as_int (Some (BInt i)) = Some i"
| "as_int (Some _) = None"

fun as_time :: "bson option \<Rightarrow> time option" where
  "as_time None = Some 0"
| "as_time (Some BNull) = Some 0"
| "as_time (Some (BTime t)) = Some t"
| "as_time (Some _) = None"

fun as_time_ptr :: "bson option \<Rightarrow> time option option" where
  "as_time_ptr None = Some None"
| "as_time_ptr (Some BNull) = Some None"
| "as_time_ptr (Some (BTime t)) = Some (Some t)"
| "as_time_ptr (Some _) = None"

fun as_oid :: "bson option \<Rightarrow> oid option" where
  "as_oid None = Some NilObjectID"
| "as_oid (Some BNull) = Some NilObjectID"
| "as_oid (Some (BOid i)) = Some i"
| "as_oid (Some _) = None"

fun as_strings :: "bson list \<Rightarrow> string list option" where
  "as_strings [] = Some []"
| "as_strings (BString s # vs) =
     (case as_strings vs of None \<Rightarrow> None | Some ss \<Rightarrow> Some (s # ss))"
| "as_strings (BNull # vs) =
     (case as_strings vs of None \<Rightarrow> None | Some ss \<Rightarrow> Some ([] # ss))"
| "as_strings (_ # vs) = None"

text \<open>A \<open>[]string\<close> field: \<open>None\<close> inside is the nil slice.\<close>

fun as_string_slice :: "bson option \<Rightarrow> string list option option" where
  "as_string_slice None = Some None"
| "as_string_slice (Some BNull) = Some None"
| "as_string_slice (Some (BArray vs)) =
     (case as_strings vs of None \<Rightarrow> None | Some ss \<Rightarrow> Some (Some ss))"
| "as_string_slice (Some _) = None"

section \<open>The models\<close>

record Contribution =
  ctn_ID :: oid
  ctn_EventID :: oid
  ctn_ContributorName :: string
  ctn_ContributorContact :: string
  ctn_Amount :: float64
  ctn_Currency :: string
  ctn_Method :: string
  ctn_PaymentRef :: string
  ctn_Status :: string
  ctn_ReceiptURL :: string
  ctn_CreatedAt :: time
  ctn_UpdatedAt :: time

record Event =
  ev_ID :: oid
  ev_UserID :: oid
  ev_Title :: string
  ev_Description :: string
  ev_Location :: string
  ev_TargetAmount :: float64
  ev_Deadline :: "time option"
  ev_Status :: string
  ev_Images :: "string list option"
  ev_CreatedAt :: time
  ev_UpdatedAt :: time

record Coordinates =
  Lat :: float64
  Lng :: float64

text \<open>The persisted fields of \<open>models.Hub\<close>; \<open>IsFavorite\<close> and \<open>Reviews\<close> are not stored.\<close>

record Hub =
  hub_ID :: oid
  hub_UserID :: oid
  hub_Title :: string
  hub_Description :: string
  hub_Coordinates :: Coordinates
  hub_LocationName :: string
  hub_Rating :: float64
  hub_Images :: "string list option"
  hub_CreatedAt :: time
  hub_UpdatedAt :: time

record Review =
  rev_ID :: oid
  rev_UserID :: oid
  rev_HubID :: oid
  rev_Rating :: int
  rev_Comment :: string
  rev_CreatedAt :: time
  rev_UpdatedAt :: time

record Favorite =
  fav_ID :: oid
  fav_UserID :: oid
  fav_HubID :: oid
  fav_CreatedAt :: time

record ReviewResponse =
  rr_ID :: oid
  rr_UserID :: oid
  rr_UserName :: string
  rr_HubID :: oid
  rr_Rating :: int
  rr_Comment :: string
  rr_CreatedAt :: time

text \<open>Decoding follows the \<open>bson\<close> tags of each struct.\<close>

definition decode_Contribution :: "doc \<Rightarrow> Contribution option" where
  "decode_Contribution d = do {
     i \<leftarrow> as_oid (map_of d ''_id'');
     ev \<leftarrow> as_oid (map_of d ''event_id'');
     name \<leftarrow> as_string (map_of d ''contributor_name'');
     contact \<leftarrow> as_string (map_of d ''contributor_contact'');
     amount \<leftarrow> as_float (map_of d ''amount'');
     currency \<leftarrow> as_string (map_of d ''currency'');
     method \<leftarrow> as_string (map_of d ''method'');
     payref \<leftarrow> as_string (map_of d ''payment_reference'');
     st \<leftarrow> as_string (map_of d ''status'');
     receipt \<leftarrow> as_string (map_of d ''receipt_url'');
     created \<leftarrow> as_time (map_of d ''created_at'');
     updated \<leftarrow> as_time (map_of d ''updated_at'');
     Some \<lparr>ctn_ID = i, ctn_EventID = ev, ctn_ContributorName = name,
       ctn_ContributorContact = contact, ctn_Amount = amount, ctn_Currency = currency,
       ctn_Method = method, ctn_PaymentRef = payref, ctn_Status = st,
       ctn_ReceiptURL = receipt, ctn_CreatedAt = created, ctn_UpdatedAt = updated\<rparr>
   }"

definition decode_Event :: "doc \<Rightarrow> Event option" where
  "decode_Event d = do {
     i \<leftarrow> as_oid (map_of d ''_id'');
     u \<leftarrow> as_oid (map_of d ''user_id'');
     title \<leftarrow> as_string (map_of d ''title'');
     descr \<leftarrow> as_string (map_of d ''description'');
     loc \<leftarrow> as_string (map_of d ''location'');
     target \<leftarrow> as_float (map_of d ''target_amount'');
     deadline \<leftarrow> as_time_ptr (map_of d ''deadline'');
     st \<leftarrow> as_string (map_of d ''status'');
     images \<leftarrow> as_string_slice (map_of d ''images'');
     created \<leftarrow> as_time (map_of d ''created_at'');
     updated \<leftarrow> as_time (map_of d ''updated_at'');
     Some \<lparr>ev_ID = i, ev_UserID = u, ev_Title = title, ev_Description = descr,
       ev_Location = loc, ev_TargetAmount = target, ev_Deadline = deadline, ev_Status = st,
       ev_Images = images, ev_CreatedAt = created, ev_UpdatedAt = updated\<rparr>
   }"

fun as_Coordinates :: "bson option \<Rightarrow> Coordinates option" where
  "as_Coordinates None = Some \<lparr>Lat = Fin 0, Lng = Fin 0\<rparr>"
| "as_Coordinates (Some BNull) = Some \<lparr>Lat = Fin 0, Lng = Fin 0\<rparr>"
| "as_Coordinates (Some (BDoc cd)) = do {
     lat \<leftarrow> as_float (map_of cd ''lat'');
     lng \<leftarrow> as_float (map_of cd ''lng'');
     Some \<lparr>Lat = lat, Lng = lng\<rparr>
   }"
| "as_Coordinates (Some _) = None"

text \<open>
  \<open>models.Hub\<close> keeps \<open>LocationName\<close> under the field \<open>location\<close> and \<open>Rating\<close> under the
  field \<open>target_amount\<close>.
\<close>

definition decode_Hub :: "doc \<Rightarrow> Hub option" where
  "decode_Hub d = do {
     i \<leftarrow> as_oid (map_of d ''_id'');
     u \<leftarrow> as_oid (map_of d ''user_id'');
     title \<leftarrow> as_string (map_of d ''title'');
     descr \<leftarrow> as_string (map_of d ''description'');
     coords \<leftarrow> as_Coordinates (map_of d ''coordinates'');
     loc \<leftarrow> as_string (map_of d ''location'');
     rating \<leftarrow> as_float (map_of d ''target_amount'');
     images \<leftarrow> as_string_slice (map_of d ''images'');
     created \<leftarrow> as_time (map_of d ''created_at'');
     updated \<leftarrow> as_time (map_of d ''updated_at'');
     Some \<lparr>hub_ID = i, hub_UserID = u, hub_Title = title, hub_Description = descr,
       hub_Coordinates = coords, hub_LocationName = loc, hub_Rating = rating,
       hub_Images = images, hub_CreatedAt = created, hub_UpdatedAt = updated\<rparr>
   }"

definition decode_Review :: "doc \<Rightarrow> Review option" where
  "decode_Review d = do {
     i \<leftarrow> as_oid (map_of d ''_id'');
     u \<leftarrow> as_oid (map_of d ''user_id'');
     h \<leftarrow> as_oid (map_of d ''hub_id'');
     rating \<leftarrow> as_int (map_of d ''rating'');
     comment \<leftarrow> as_string (map_of d ''comment'');
     created \<leftarrow> as_time (map_of d ''created_at'');
     updated \<leftarrow> as_time (map_of d ''updated_at'');
     Some \<lparr>rev_ID = i, rev_UserID = u, rev_HubID = h, rev_Rating = rating,
       rev_Comment = comment, rev_CreatedAt = created, rev_UpdatedAt = updated\<rparr>
   }"

definition decode_Favorite :: "doc \<Rightarrow> Favorite option" where
  "decode_Favorite d = do {
     i \<leftarrow> as_oid (map_of d ''_id'');
     u \<leftarrow> as_oid (map_of d ''user_id'');
     h \<leftarrow> as_oid (map_of d ''hub_id'');
     created \<leftarrow> as_time (map_of d ''created_at'');
     Some \<lparr>fav_ID = i, fav_UserID = u, fav_HubID = h, fav_CreatedAt = created\<rparr>
   }"

text \<open>The inline \<open>struct { Name string `bson:"name"` }\<close> of \<open>ListHubs\<close>.\<close>

definition decode_Name :: "doc \<Rightarrow> string option" where
  "decode_Name d = as_string (map_of d ''name'')"

text \<open>Encoding for \<open>InsertOne\<close>: a field tagged \<open>omitempty\<close> is left out when it is zero.\<close>

definition omitempty :: "string \<Rightarrow> string \<Rightarrow> doc" where
  "omitempty k s = (if s = [] then [] else [(k, BString s)])"

definition encode_Contribution :: "Contribution \<Rightarrow> doc" where
  "encode_Contribution c =
     (if IsZero (ctn_ID c) then [] else [(''_id'', BOid (ctn_ID c))]) @
     [(''event_id'', BOid (ctn_EventID c)),
      (''contributor_name'', BString (ctn_ContributorName c))] @
     omitempty ''contributor_contact'' (ctn_ContributorContact c) @
     [(''amount'', BDouble (ctn_Amount c)),
      (''currency'', BString (ctn_Currency c)),
      (''method'', BString (ctn_Method c))] @
     omitempty ''payment_reference'' (ctn_PaymentRef c) @
     [(''status'', BString (ctn_Status c))] @
     omitempty ''receipt_url'' (ctn_ReceiptURL c) @
     [(''created_at'', BTime (ctn_CreatedAt c)),
      (''updated_at'', BTime (ctn_UpdatedAt c))]"

definition encode_Favorite :: "Favorite \<Rightarrow> doc" where
  "encode_Favorite f =
     (if IsZero (fav_ID f) then [] else [(''_id'', BOid (fav_ID f))]) @
     [(''user_id'', BOid (fav_UserID f)),
      (''hub_id'', BOid (fav_HubID f)),
      (''created_at'', BTime (fav_CreatedAt f))]"

section \<open>Requests, the environment and responses\<close>

text \<open>
  What a handler reads from the \<open>gin.Context\<close>: the identity and role the middleware
  left there, the \<open>:id\<close> parameter, the query string and the \<open>If-None-Match\<close> header.
\<close>

record request =
  user_id :: string
  role :: string
  param_id :: string
  query :: "string \<Rightarrow> string"
  if_none_match :: string

text \<open>
  What a handler takes from outside the repository: the clock, the fresh identifier of
  \<open>primitive.NewObjectID()\<close>, \<open>utils.GenerateETag\<close> (not among the sources),
  \<open>http.TimeFormat\<close>, \<open>time.Parse\<close> by layout, the store's case-insensitive \<open>$regex\<close>
  match, the path that \<open>url.Parse\<close> finds in a URL (\<open>Inl\<close> is its error), whether the
  asset host's client can be built, whether it destroys a given public ID, and the
  decoding of a document into \<open>models.User\<close> (not among the sources) followed by the
  reading of its \<open>Name\<close> (\<open>None\<close> is the decoding error).
\<close>

record env =
  now :: time
  NewObjectID :: oid
  GenerateETag :: "oid \<Rightarrow> time \<Rightarrow> string"
  TimeFormat :: "time \<Rightarrow> string"
  time_Parse :: "string \<Rightarrow> string \<Rightarrow> time option"
  regex_i :: "string \<Rightarrow> string \<Rightarrow> bool"
  url_Parse_Path :: "string \<Rightarrow> string + string"
  getCloudinaryInstance :: bool
  Destroy :: "string \<Rightarrow> bool"
  User_Name :: "doc \<Rightarrow> string option"

text \<open>A review as \<open>GetHub\<close> returns it (its local \<open>ReviewResponse\<close>).\<close>

record HubReview =
  hr_ID :: oid
  hr_UserName :: string
  hr_Comment :: string
  hr_Rating :: int
  hr_CreatedAt :: time

text \<open>A hub as \<open>ListHubs\<close> returns it: the stored hub and its two enriched fields.\<close>

record EnrichedHub =
  eh_hub :: Hub
  eh_Reviews :: "ReviewResponse list"
  eh_IsFavorite :: bool

datatype json_body =
    ErrorBody string
  | UploadErrorBody string string
  | MessageId string string
  | ContributionList "Contribution list"
  | EventList "Event list"
  | HubList "EnrichedHub list"
  | UpdatedEvent string Event
  | UpdatedHub string Hub
  | HubDetail Hub "HubReview list" bool
  | FavoriteToggled string bool

record response =
  status :: nat
  headers :: "(string \<times> string) list"
  body :: "json_body option"

definition JSON :: "nat \<Rightarrow> json_body \<Rightarrow> response" where
  "JSON code b = \<lparr>status = code, headers = [], body = Some b\<rparr>"

definition error_response :: "nat \<Rightarrow> string \<Rightarrow> response" where
  "error_response code msg = JSON code (ErrorBody msg)"

definition reliable :: "world \<Rightarrow> bool" where
  "reliable w = list_all (\<lambda>b. \<not> b) (faults w)"

section \<open>Contributions\<close>

text \<open>\<open>if present { update[k] = v }\<close>, the step every update handler repeats.\<close>

definition stage :: "bool \<Rightarrow> string \<Rightarrow> bson \<Rightarrow> doc \<Rightarrow> doc" where
  "stage present k v update = (if present then AList.update k v update else update)"

text \<open>The update document that \<open>UpdateContribution\<close> stages.\<close>

definition contribution_update :: "time \<Rightarrow> Contribution \<Rightarrow> doc" where
  "contribution_update t input =
     (let update = [(''updated_at'', BTime t)];
          update = stage (ctn_ContributorName input \<noteq> []) ''contributor_name''
                     (BString (ctn_ContributorName input)) update;
          update = stage (ctn_ContributorContact input \<noteq> []) ''contributor_contact''
                     (BString (ctn_ContributorContact input)) update;
          update = stage (gt_zero (ctn_Amount input)) ''amount''
                     (BDouble (ctn_Amount input)) update;
          update = stage (ctn_Currency input \<noteq> []) ''currency''
                     (BString (ctn_Currency input)) update;
          update = stage (ctn_Method input \<noteq> []) ''method''
                     (BString (ctn_Method input)) update;
          update = stage (ctn_PaymentRef input \<noteq> []) ''payment_reference''
                     (BString (ctn_PaymentRef input)) update;
          update = stage (ctn_Status input \<noteq> []) ''status''
                     (BString (ctn_Status input)) update;
          update = stage (ctn_ReceiptURL input \<noteq> []) ''receipt_url''
                     (BString (ctn_ReceiptURL input)) update
      in update)"

text \<open>
  \<open>UpdateContribution\<close>; the payload is what \<open>ShouldBindJSON\<close> made of the body: its
  error (\<open>Inl\<close>) or the bound struct.
\<close>

definition UpdateContribution ::
  "env \<Rightarrow> request \<Rightarrow> string + Contribution \<Rightarrow> world \<Rightarrow> response \<times> world" where
  "UpdateContribution e req payload w =
     (case ObjectIDFromHex (param_id req) of
        None \<Rightarrow> (error_response 400 ''invalid contribution id'', w)
      | Some oid \<Rightarrow>
     (case payload of
        Inl err \<Rightarrow> (error_response 400 err, w)
      | Inr input \<Rightarrow>
          (let update = contribution_update (now e) input in
           if length update = 1 then (error_response 400 ''no fields to update'', w)
           else
             (case store_UpdateOne Contributions (matches [(''_id'', BOid oid)]) update w of
                (None, w1) \<Rightarrow> (error_response 500 ''failed to update contribution'', w1)
              | (Some matched, w1) \<Rightarrow>
                  if matched = 0 then (error_response 404 ''contribution not found'', w1)
                  else (JSON 200 (MessageId ''contribution updated'' (Hex oid)), w1)))))"

definition CreateContribution ::
  "env \<Rightarrow> string + Contribution \<Rightarrow> world \<Rightarrow> response \<times> world" where
  "CreateContribution e payload w =
     (case payload of
        Inl err \<Rightarrow> (error_response 400 err, w)
      | Inr input \<Rightarrow>
          if IsZero (ctn_EventID input) then (error_response 400 ''event_id is required'', w)
          else
            (case store_FindOne Events (matches [(''_id'', BOid (ctn_EventID input))]) w of
               (found, w1) \<Rightarrow>
            (case Option.bind found decode_Event of
               None \<Rightarrow> (error_response 400 ''event not found'', w1)
             | Some event \<Rightarrow>
                 if le_zero (ctn_Amount input)
                 then (error_response 400 ''amount must be greater than 0'', w1)
                 else
                   (let contribution = \<lparr>ctn_ID = NewObjectID e,
                          ctn_EventID = ctn_EventID input,
                          ctn_ContributorName = ctn_ContributorName input,
                          ctn_ContributorContact = ctn_ContributorContact input,
                          ctn_Amount = ctn_Amount input,
                          ctn_Currency = ctn_Currency input,
                          ctn_Method = ctn_Method input,
                          ctn_PaymentRef = ctn_PaymentRef input,
                          ctn_Status = ''PENDING'',
                          ctn_ReceiptURL = ctn_ReceiptURL input,
                          ctn_CreatedAt = now e,
                          ctn_UpdatedAt = now e\<rparr>
                    in case store_InsertOne Contributions (encode_Contribution contribution) w1 of
                         (False, w2) \<Rightarrow> (error_response 500 ''could not create contribution'', w2)
                       | (True, w2) \<Rightarrow>
                           (JSON 201 (MessageId ''contribution created'' (Hex (ctn_ID contribution))), w2)))))"

text \<open>The loop that picks the most recently updated element, started at the first.\<close>

fun pick_latest :: "('a \<Rightarrow> time) \<Rightarrow> 'a \<Rightarrow> 'a list \<Rightarrow> 'a" where
  "pick_latest upd latest [] = latest"
| "pick_latest upd latest (x # xs) =
     pick_latest upd (if upd latest < upd x then x else latest) xs"

definition contributions_filter :: "request \<Rightarrow> doc" where
  "contributions_filter req =
     (let flt = [];
          flt = (if query req ''event_id'' \<noteq> []
                 then (case ObjectIDFromHex (query req ''event_id'') of
                         Some oid \<Rightarrow> AList.update ''event_id'' (BOid oid) flt
                       | None \<Rightarrow> flt)
                 else flt);
          flt = (if query req ''status'' \<noteq> []
                 then AList.update ''status'' (BString (query req ''status'')) flt else flt)
      in flt)"

definition NotModified :: response where
  "NotModified = \<lparr>status = 304, headers = [], body = None\<rparr>"

definition ListContributions :: "env \<Rightarrow> request \<Rightarrow> world \<Rightarrow> response \<times> world" where
  "ListContributions e req w =
     (case store_Find Contributions (matches (contributions_filter req)) w of
        (None, w1) \<Rightarrow> (error_response 500 ''could not fetch contributions'', w1)
      | (Some cursor, w1) \<Rightarrow>
     (case cursor_All Contributions decode_Contribution cursor w1 of
        (None, w2) \<Rightarrow> (error_response 500 ''could not decode contributions'', w2)
      | (Some contributions, w2) \<Rightarrow>
     (case contributions of
        [] \<Rightarrow> (JSON 200 (ContributionList []), w2)
      | first # _ \<Rightarrow>
          (let latest = pick_latest ctn_UpdatedAt first contributions;
               etag = GenerateETag e (ctn_ID latest) (ctn_UpdatedAt latest)
           in if if_none_match req \<noteq> [] \<and> if_none_match req = etag
              then (NotModified, w2)
              else (\<lparr>status = 200,
                      headers = [(''ETag'', etag),
                                 (''Last-Modified'', TimeFormat e (ctn_UpdatedAt latest))],
                      body = Some (ContributionList contributions)\<rparr>, w2)))))"

section \<open>Events\<close>

definition title_regex :: "env \<Rightarrow> string \<Rightarrow> doc \<Rightarrow> bool" where
  "title_regex e q d = (case map_of d ''title'' of Some (BString s) \<Rightarrow> regex_i e q s | _ \<Rightarrow> False)"

text \<open>
  The filter of \<open>ListEvents\<close>: the caller's events, and with a query \<open>q\<close> those whose
  title matches it.
\<close>

definition events_filter :: "env \<Rightarrow> request \<Rightarrow> oid \<Rightarrow> doc \<Rightarrow> bool" where
  "events_filter e req userID d =
     (matches [(''user_id'', BOid userID)] d \<and>
      (if query req ''q'' \<noteq> [] then title_regex e (query req ''q'') d else True))"

definition ListEvents :: "env \<Rightarrow> request \<Rightarrow> world \<Rightarrow> response \<times> world" where
  "ListEvents e req w =
     (case ObjectIDFromHex (user_id req) of
        None \<Rightarrow> (error_response 401 ''invalid user id'', w)
      | Some userID \<Rightarrow>
     (case store_Find Events (events_filter e req userID) w of
        (None, w1) \<Rightarrow> (error_response 500 ''could not fetch events'', w1)
      | (Some cursor, w1) \<Rightarrow>
     (case cursor_All Events decode_Event cursor w1 of
        (None, w2) \<Rightarrow> (error_response 500 ''could not decode events'', w2)
      | (Some events, w2) \<Rightarrow>
     (case events of
        [] \<Rightarrow> (JSON 200 (EventList []), w2)
      | first # _ \<Rightarrow>
          (let latest = pick_latest ev_UpdatedAt first events;
               etag = GenerateETag e (ev_ID latest) (ev_UpdatedAt latest)
           in if if_none_match req \<noteq> [] \<and> if_none_match req = etag
              then (NotModified, w2)
              else (\<lparr>status = 200,
                      headers = [(''ETag'', etag),
                                 (''Last-Modified'', TimeFormat e (ev_UpdatedAt latest))],
                      body = Some (EventList events)\<rparr>, w2))))))"

text \<open>The form that \<open>UpdateEvent\<close> binds; a nil pointer or slice is \<open>None\<close>.\<close>

record EventInput =
  ei_Title :: string
  ei_Description :: string
  ei_Location :: string
  ei_TargetAmount :: float64
  ei_Deadline :: "string option"
  ei_Status :: string
  ei_Images :: "string list option"

text \<open>
  A file attached under \<open>new_images\<close>, by what opening and uploading it comes to: the
  asset host is outside the repository, so the outcome of each upload is an input.
\<close>

datatype upload = OpenFails | UploadFails string | Uploaded string

fun upload_new_images :: "upload list \<Rightarrow> string list \<Rightarrow> response + string list" where
  "upload_new_images [] newImageURLs = Inr newImageURLs"
| "upload_new_images (OpenFails # files) newImageURLs =
     Inl (error_response 500 ''failed to open image'')"
| "upload_new_images (UploadFails details # files) newImageURLs =
     Inl (JSON 500 (UploadErrorBody ''image upload failed'' details))"
| "upload_new_images (Uploaded url # files) newImageURLs =
     upload_new_images files (newImageURLs @ [url])"

text \<open>\<open>append(input.Images, newImageURLs...)\<close>, where a nil slice has no element.\<close>

definition merge_images :: "string list option \<Rightarrow> string list \<Rightarrow> bson" where
  "merge_images images newImageURLs =
     BArray (map BString ((case images of None \<Rightarrow> [] | Some urls \<Rightarrow> urls) @ newImageURLs))"

fun try_layouts :: "env \<Rightarrow> string \<Rightarrow> string list \<Rightarrow> time option" where
  "try_layouts e s [] = None"
| "try_layouts e s (layout # layouts) =
     (case time_Parse e layout s of Some t \<Rightarrow> Some t | None \<Rightarrow> try_layouts e s layouts)"

definition parse_deadline :: "env \<Rightarrow> string \<Rightarrow> time option" where
  "parse_deadline e s =
     (case time_Parse e ''2006-01-02T15:04:05Z07:00'' s of
        Some t \<Rightarrow> Some t
      | None \<Rightarrow> try_layouts e s [''2006-01-02'', ''2006-01-02 15:04'', ''2006-01-02 15:04:05''])"

definition event_update :: "time \<Rightarrow> EventInput \<Rightarrow> doc" where
  "event_update t input =
     (let update = [(''updated_at'', BTime t)];
          update = stage (ei_Title input \<noteq> []) ''title'' (BString (ei_Title input)) update;
          update = stage (ei_Description input \<noteq> []) ''description''
                     (BString (ei_Description input)) update;
          update = stage (ei_Location input \<noteq> []) ''location''
                     (BString (ei_Location input)) update;
          update = stage (gt_zero (ei_TargetAmount input)) ''target_amount''
                     (BDouble (ei_TargetAmount input)) update;
          update = stage (ei_Status input \<noteq> []) ''status'' (BString (ei_Status input)) update
      in update)"

definition stage_deadline :: "env \<Rightarrow> EventInput \<Rightarrow> doc \<Rightarrow> response + doc" where
  "stage_deadline e input update =
     (case ei_Deadline input of
        None \<Rightarrow> Inr update
      | Some s \<Rightarrow>
          if s = [] then Inr update
          else (case parse_deadline e s of
                  None \<Rightarrow> Inl (error_response 400
                           ''invalid deadline format, use RFC3339 or YYYY-MM-DD'')
                | Some parsed \<Rightarrow> Inr (AList.update ''deadline'' (BTime parsed) update)))"

definition UpdateEvent ::
  "env \<Rightarrow> request \<Rightarrow> string + EventInput \<Rightarrow> upload list \<Rightarrow> world \<Rightarrow> response \<times> world" where
  "UpdateEvent e req payload new_images w =
     (if user_id req = [] then (error_response 401 ''unauthorized'', w)
      else
     (case ObjectIDFromHex (param_id req) of
        None \<Rightarrow> (error_response 400 ''Invalid event ID'', w)
      | Some objID \<Rightarrow>
     (case store_FindOne Events (matches [(''_id'', BOid objID)]) w of
        (found, w1) \<Rightarrow>
     (case Option.bind found decode_Event of
        None \<Rightarrow> (error_response 404 ''Event not found'', w1)
      | Some existing \<Rightarrow>
     (if role req \<noteq> ''admin'' \<and> Hex (ev_UserID existing) \<noteq> user_id req
      then (error_response 403 ''Access denied'', w1)
      else
     (case payload of
        Inl err \<Rightarrow> (error_response 400 err, w1)
      | Inr input \<Rightarrow>
     (case stage_deadline e input (event_update (now e) input) of
        Inl resp \<Rightarrow> (resp, w1)
      | Inr update \<Rightarrow>
     (case upload_new_images new_images [] of
        Inl resp \<Rightarrow> (resp, w1)
      | Inr newImageURLs \<Rightarrow>
     (let update = stage (ei_Images input \<noteq> None \<or> newImageURLs \<noteq> []) ''images''
                     (merge_images (ei_Images input) newImageURLs) update
      in if length update = 1 then (error_response 400 ''no fields to update'', w1)
         else
     (case store_UpdateOne Events (matches [(''_id'', BOid objID)]) update w1 of
        (None, w2) \<Rightarrow> (error_response 500 ''Could not update event'', w2)
      | (Some matched, w2) \<Rightarrow>
     (case store_FindOne Events (matches [(''_id'', BOid objID)]) w2 of
        (refetched, w3) \<Rightarrow>
     (case Option.bind refetched decode_Event of
        None \<Rightarrow> (error_response 500 ''Failed to retrieve updated event'', w3)
      | Some updated \<Rightarrow>
          (JSON 200 (UpdatedEvent ''Event updated successfully'' updated), w3)))))))))))))"

section \<open>Public IDs of stored images\<close>

datatype 'a result = Ok 'a | Err string | Panicked string

text \<open>\<open>strings.Split(s, "/")\<close>, with one separator character.\<close>

fun Split :: "string \<Rightarrow> char \<Rightarrow> string list" where
  "Split [] sep = [[]]"
| "Split (c # cs) sep =
     (if c = sep then [] # Split cs sep
      else (case Split cs sep of [] \<Rightarrow> [[c]] | part # parts \<Rightarrow> (c # part) # parts))"

definition HasPrefix :: "string \<Rightarrow> string \<Rightarrow> bool" where
  "HasPrefix s pre = (take (length pre) s = pre)"

definition TrimSuffix :: "string \<Rightarrow> string \<Rightarrow> string" where
  "TrimSuffix s suffix =
     (if length suffix \<le> length s \<and> drop (length s - length suffix) s = suffix
      then take (length s - length suffix) s else s)"

text \<open>
  \<open>path.Ext\<close>: the suffix from the last dot of the last slash-separated element, read
  from the end of the path as the source's loop does.
\<close>

fun Ext_scan :: "string \<Rightarrow> string \<Rightarrow> string" where
  "Ext_scan [] seen = []"
| "Ext_scan (c # front) seen =
     (if c = CHR ''/'' then []
      else if c = CHR ''.'' then c # seen
      else Ext_scan front (c # seen))"

definition Ext :: "string \<Rightarrow> string" where
  "Ext p = Ext_scan (rev p) []"

text \<open>
  \<open>path.Clean\<close>, on the slash-separated elements of the path: empty elements and \<open>.\<close> are
  dropped, \<open>..\<close> removes the element before it when there is one to remove, and stays
  otherwise in a path that is not rooted; \<open>dotdot\<close> counts the leading \<open>..\<close> kept.
\<close>

fun Clean_elems :: "bool \<Rightarrow> string list \<Rightarrow> string list \<Rightarrow> nat \<Rightarrow> string list" where
  "Clean_elems rooted [] out dotdot = out"
| "Clean_elems rooted (el # els) out dotdot =
     (if el = [] \<or> el = ''.'' then Clean_elems rooted els out dotdot
      else if el = ''..'' then
        (if dotdot < length out then Clean_elems rooted els (butlast out) dotdot
         else if \<not> rooted then Clean_elems rooted els (out @ [el]) (Suc dotdot)
         else Clean_elems rooted els out dotdot)
      else Clean_elems rooted els (out @ [el]) dotdot)"

fun join_slash :: "string list \<Rightarrow> string" where
  "join_slash [] = []"
| "join_slash [el] = el"
| "join_slash (el # els) = el @ ''/'' @ join_slash els"

definition Clean :: "string \<Rightarrow> string" where
  "Clean p =
     (if p = [] then ''.''
      else (let rooted = (hd p = CHR ''/'');
                out = join_slash (Clean_elems rooted (Split p (CHR ''/'')) [] 0)
            in if rooted then CHR ''/'' # out else if out = [] then ''.'' else out))"

text \<open>\<open>path.Join\<close>: the non-empty elements, joined by slashes and cleaned.\<close>

fun Join_buf :: "string \<Rightarrow> string list \<Rightarrow> string" where
  "Join_buf buf [] = buf"
| "Join_buf buf (el # els) =
     Join_buf (if buf \<noteq> [] \<or> el \<noteq> []
               then (if buf \<noteq> [] then buf @ ''/'' else buf) @ el
               else buf) els"

definition Join :: "string list \<Rightarrow> string" where
  "Join elem = (if concat elem = [] then [] else Clean (Join_buf [] elem))"

text \<open>
  \<open>extractPublicID\<close>. \<open>parts[3:]\<close> panics when the removal of the version element has
  left fewer than three elements.
\<close>

definition extractPublicID :: "env \<Rightarrow> string \<Rightarrow> string result" where
  "extractPublicID e imageURL =
     (case url_Parse_Path e imageURL of
        Inl err \<Rightarrow> Err err
      | Inr parsedPath \<Rightarrow>
          (let parts = Split parsedPath (CHR ''/'') in
           if length parts < 3 then Err ''invalid cloudinary URL format''
           else
             (let cleanPath = drop (length parts - 2) parts;
                  parts = (if HasPrefix (cleanPath ! 0) ''v''
                           then take (length parts - 2) parts @ [parts ! (length parts - 1)]
                           else parts)
              in if length parts < 3
                 then Panicked ''slice bounds out of range [3:2]''
                 else Ok (TrimSuffix (Join (drop 3 parts))
                            (Ext (parts ! (length parts - 1)))))))"

definition DeleteFromCloudinary :: "env \<Rightarrow> string \<Rightarrow> world \<Rightarrow> unit result \<times> world" where
  "DeleteFromCloudinary e imageURL w =
     (if \<not> getCloudinaryInstance e then (Err ''cloudinary config error'', w)
      else
        (case extractPublicID e imageURL of
           Panicked msg \<Rightarrow> (Panicked msg, w)
         | Err err \<Rightarrow> (Err (''could not extract public ID: '' @ err), w)
         | Ok publicID \<Rightarrow>
             if Destroy e publicID
             then (Ok (), w\<lparr>destroyed := destroyed w @ [publicID]\<rparr>)
             else (Err ''delete error'', w)))"

text \<open>
  The loop of the delete handlers over the stored image URLs: the error a deletion
  returns is dropped, a panic leaves the handler.
\<close>

fun delete_images :: "env \<Rightarrow> string list \<Rightarrow> world \<Rightarrow> string option \<times> world" where
  "delete_images e [] w = (None, w)"
| "delete_images e (img # imgs) w =
     (case DeleteFromCloudinary e img w of
        (Panicked msg, w1) \<Rightarrow> (Some msg, w1)
      | (_, w1) \<Rightarrow> delete_images e imgs w1)"

datatype outcome = Responded response | HandlerPanic string

definition DeleteEvent :: "env \<Rightarrow> request \<Rightarrow> world \<Rightarrow> outcome \<times> world" where
  "DeleteEvent e req w =
     (if user_id req = [] then (Responded (error_response 401 ''unauthorized''), w)
      else
     (case ObjectIDFromHex (param_id req) of
        None \<Rightarrow> (Responded (error_response 400 ''invalid event id''), w)
      | Some oid \<Rightarrow>
     (case store_FindOne Events (matches [(''_id'', BOid oid)]) w of
        (found, w1) \<Rightarrow>
     (case Option.bind found decode_Event of
        None \<Rightarrow> (Responded (error_response 404 ''event not found''), w1)
      | Some existing \<Rightarrow>
     (if role req \<noteq> ''admin'' \<and> Hex (ev_UserID existing) \<noteq> user_id req
      then (Responded (error_response 403 ''access denied''), w1)
      else
     (case store_DeleteOne Events (matches [(''_id'', BOid oid)]) w1 of
        (None, w2) \<Rightarrow> (Responded (error_response 500 ''failed to delete event''), w2)
      | (Some deletedCount, w2) \<Rightarrow>
          if deletedCount = 0 then (Responded (error_response 404 ''event not found''), w2)
          else
            (case delete_images e (case ev_Images existing of None \<Rightarrow> [] | Some imgs \<Rightarrow> imgs) w2 of
               (Some msg, w3) \<Rightarrow> (HandlerPanic msg, w3)
             | (None, w3) \<Rightarrow>
                 (Responded (JSON 200 (MessageId ''event deleted successfully'' (Hex oid))), w3))))))))"

section \<open>Hubs\<close>

text \<open>
  The reviews of one hub in \<open>ListHubs\<close>: an error of \<open>Find\<close> or of \<open>All\<close> leaves the slice
  empty, and none of the two is reported.
\<close>

definition hub_reviews :: "oid \<Rightarrow> world \<Rightarrow> Review list \<times> world" where
  "hub_reviews hubID w =
     (case store_Find Reviews (matches [(''hub_id'', BOid hubID)]) w of
        (None, w1) \<Rightarrow> ([], w1)
      | (Some reviewCursor, w1) \<Rightarrow>
          (case cursor_All Reviews decode_Review reviewCursor w1 of
             (None, w2) \<Rightarrow> ([], w2)
           | (Some reviews, w2) \<Rightarrow> (reviews, w2)))"

fun review_responses :: "Review list \<Rightarrow> world \<Rightarrow> ReviewResponse list \<times> world" where
  "review_responses [] w = ([], w)"
| "review_responses (r # reviews) w =
     (case store_FindOne Users (matches [(''_id'', BOid (rev_UserID r))]) w of
        (found, w1) \<Rightarrow>
          (let username = (case Option.bind found decode_Name of
                             None \<Rightarrow> ''Unknown'' | Some name \<Rightarrow> name)
           in case review_responses reviews w1 of
                (reviewResponses, w2) \<Rightarrow>
                  (\<lparr>rr_ID = rev_ID r, rr_UserID = rev_UserID r, rr_UserName = username,
                    rr_HubID = rev_HubID r, rr_Rating = rev_Rating r,
                    rr_Comment = rev_Comment r, rr_CreatedAt = rev_CreatedAt r\<rparr>
                   # reviewResponses, w2)))"

fun enrich_hubs :: "oid \<Rightarrow> Hub list \<Rightarrow> world \<Rightarrow> EnrichedHub list \<times> world" where
  "enrich_hubs userID [] w = ([], w)"
| "enrich_hubs userID (hub # hubs) w =
     (case hub_reviews (hub_ID hub) w of
        (reviews, w1) \<Rightarrow>
     (case review_responses reviews w1 of
        (reviewResponses, w2) \<Rightarrow>
     (case store_FindOne Favorites
             (matches [(''user_id'', BOid userID), (''hub_id'', BOid (hub_ID hub))]) w2 of
        (fav, w3) \<Rightarrow>
     (case enrich_hubs userID hubs w3 of
        (rest, w4) \<Rightarrow>
          (\<lparr>eh_hub = hub, eh_Reviews = reviewResponses, eh_IsFavorite = (fav \<noteq> None)\<rparr>
           # rest, w4)))))"

definition hubs_filter :: "env \<Rightarrow> request \<Rightarrow> doc \<Rightarrow> bool" where
  "hubs_filter e req d =
     (if query req ''q'' \<noteq> [] then title_regex e (query req ''q'') d else True)"

definition ListHubs :: "env \<Rightarrow> request \<Rightarrow> world \<Rightarrow> response \<times> world" where
  "ListHubs e req w =
     (case ObjectIDFromHex (user_id req) of
        None \<Rightarrow> (error_response 401 ''invalid user id'', w)
      | Some userID \<Rightarrow>
     (case store_Find Hubs (hubs_filter e req) w of
        (None, w1) \<Rightarrow> (error_response 500 ''could not fetch hubs'', w1)
      | (Some cursor, w1) \<Rightarrow>
     (case cursor_All Hubs decode_Hub cursor w1 of
        (None, w2) \<Rightarrow> (error_response 500 ''could not decode hubs'', w2)
      | (Some hubs, w2) \<Rightarrow>
     (case enrich_hubs userID hubs w2 of
        (enriched, w3) \<Rightarrow> (JSON 200 (HubList enriched), w3)))))"

text \<open>
  The loop of \<open>GetHub\<close> over the cursor of reviews: a review that does not decode is
  skipped, a user that is not found or does not decode is named \<open>Unknown User\<close>. The
  cursor is read as the one batch that \<open>Find\<close> returned.
\<close>

fun get_hub_reviews :: "env \<Rightarrow> doc list \<Rightarrow> world \<Rightarrow> HubReview list \<times> world" where
  "get_hub_reviews e [] w = ([], w)"
| "get_hub_reviews e (d # cursor) w =
     (case decode_Review d of
        None \<Rightarrow> get_hub_reviews e cursor w
      | Some review \<Rightarrow>
          (case store_FindOne Users (matches [(''_id'', BOid (rev_UserID review))]) w of
             (found, w1) \<Rightarrow>
               (let name = (case Option.bind found (User_Name e) of
                              None \<Rightarrow> ''Unknown User'' | Some n \<Rightarrow> n)
                in case get_hub_reviews e cursor w1 of
                     (reviews, w2) \<Rightarrow>
                       (\<lparr>hr_ID = rev_ID review, hr_UserName = name,
                         hr_Comment = rev_Comment review, hr_Rating = rev_Rating review,
                         hr_CreatedAt = rev_CreatedAt review\<rparr> # reviews, w2))))"

definition is_favorite :: "oid option \<Rightarrow> oid \<Rightarrow> world \<Rightarrow> bool \<times> world" where
  "is_favorite user hubID w =
     (case user of
        None \<Rightarrow> (False, w)
      | Some userID \<Rightarrow>
          (case store_CountDocuments Favorites
                  (matches [(''hub_id'', BOid hubID), (''user_id'', BOid userID)]) w of
             (None, w1) \<Rightarrow> (False, w1)
           | (Some count, w1) \<Rightarrow> (0 < count, w1)))"

definition GetHub :: "env \<Rightarrow> request \<Rightarrow> world \<Rightarrow> response \<times> world" where
  "GetHub e req w =
     (let user = (if user_id req \<noteq> [] then ObjectIDFromHex (user_id req) else None) in
      case ObjectIDFromHex (param_id req) of
        None \<Rightarrow> (error_response 400 ''invalid hub id'', w)
      | Some hubID \<Rightarrow>
     (case store_FindOne Hubs (matches [(''_id'', BOid hubID)]) w of
        (found, w1) \<Rightarrow>
     (case Option.bind found decode_Hub of
        None \<Rightarrow> (error_response 404 ''hub not found'', w1)
      | Some hub \<Rightarrow>
     (case store_Find Reviews (matches [(''hub_id'', BOid hubID)]) w1 of
        (None, w2) \<Rightarrow> (error_response 500 ''failed to fetch reviews'', w2)
      | (Some cursor, w2) \<Rightarrow>
     (case get_hub_reviews e cursor w2 of
        (reviews, w3) \<Rightarrow>
     (case is_favorite user hubID w3 of
        (isFavorite, w4) \<Rightarrow>
          (let etag = GenerateETag e (hub_ID hub) (hub_UpdatedAt hub)
           in if if_none_match req \<noteq> [] \<and> if_none_match req = etag
              then (NotModified, w4)
              else (\<lparr>status = 200, headers = [(''ETag'', etag)],
                      body = Some (HubDetail hub reviews isFavorite)\<rparr>, w4))))))))"

text \<open>The form that \<open>UpdateHub\<close> binds; its \<open>Title\<close> is tagged \<open>binding:"required"\<close>.\<close>

record HubInput =
  hi_Title :: string
  hi_Description :: string
  hi_Lat :: "float64 option"
  hi_Lng :: "float64 option"
  hi_LocationName :: string
  hi_Rating :: float64
  hi_Images :: "string list option"

text \<open>The message of the validator for a required field that is empty.\<close>

definition required_error :: "string \<Rightarrow> string" where
  "required_error field =
     ''Key: '' @ [CHR 0x27] @ field @ [CHR 0x27] @ '' Error:Field validation for '' @
     [CHR 0x27] @ field @ [CHR 0x27] @ '' failed on the '' @
     [CHR 0x27] @ ''required'' @ [CHR 0x27] @ '' tag''"

definition coordinates_update :: "HubInput \<Rightarrow> doc" where
  "coordinates_update input =
     (let coordinatesUpdate = [];
          coordinatesUpdate = (case hi_Lat input of
                                 None \<Rightarrow> coordinatesUpdate
                               | Some lat \<Rightarrow> AList.update ''lat'' (BDouble lat) coordinatesUpdate);
          coordinatesUpdate = (case hi_Lng input of
                                 None \<Rightarrow> coordinatesUpdate
                               | Some lng \<Rightarrow> AList.update ''lng'' (BDouble lng) coordinatesUpdate)
      in coordinatesUpdate)"

definition hub_update :: "time \<Rightarrow> HubInput \<Rightarrow> doc" where
  "hub_update t input =
     (let update = [(''updated_at'', BTime t)];
          update = stage (hi_Title input \<noteq> []) ''title'' (BString (hi_Title input)) update;
          update = stage (hi_Description input \<noteq> []) ''description''
                     (BString (hi_Description input)) update;
          update = stage (hi_LocationName input \<noteq> []) ''location_name''
                     (BString (hi_LocationName input)) update;
          update = stage (gt_zero (hi_Rating input)) ''rating''
                     (BDouble (hi_Rating input)) update;
          update = stage (0 < length (coordinates_update input)) ''coordinates''
                     (BDoc (coordinates_update input)) update
      in update)"

definition UpdateHub ::
  "env \<Rightarrow> request \<Rightarrow> string + HubInput \<Rightarrow> upload list \<Rightarrow> world \<Rightarrow> response \<times> world" where
  "UpdateHub e req payload new_images w =
     (if user_id req = [] then (error_response 401 ''unauthorized'', w)
      else
     (case ObjectIDFromHex (param_id req) of
        None \<Rightarrow> (error_response 400 ''Invalid hub ID'', w)
      | Some objID \<Rightarrow>
     (case store_FindOne Hubs (matches [(''_id'', BOid objID)]) w of
        (found, w1) \<Rightarrow>
     (case Option.bind found decode_Hub of
        None \<Rightarrow> (error_response 404 ''Hub not found'', w1)
      | Some existing \<Rightarrow>
     (if role req \<noteq> ''admin'' \<and> Hex (hub_UserID existing) \<noteq> user_id req
      then (error_response 403 ''Access denied'', w1)
      else
     (case payload of
        Inl err \<Rightarrow> (error_response 400 err, w1)
      | Inr input \<Rightarrow>
     (if hi_Title input = [] then (error_response 400 (required_error ''Title''), w1)
      else
     (case upload_new_images new_images [] of
        Inl resp \<Rightarrow> (resp, w1)
      | Inr newImageURLs \<Rightarrow>
     (let update = stage (hi_Images input \<noteq> None \<or> newImageURLs \<noteq> []) ''images''
                     (merge_images (hi_Images input) newImageURLs)
                     (hub_update (now e) input)
      in if length update = 1 then (error_response 400 ''no fields to update'', w1)
         else
     (case store_UpdateOne Hubs (matches [(''_id'', BOid objID)]) update w1 of
        (None, w2) \<Rightarrow> (error_response 500 ''Could not update hub'', w2)
      | (Some matched, w2) \<Rightarrow>
     (case store_FindOne Hubs (matches [(''_id'', BOid objID)]) w2 of
        (refetched, w3) \<Rightarrow>
     (case Option.bind refetched decode_Hub of
        None \<Rightarrow> (error_response 500 ''Failed to retrieve updated hub'', w3)
      | Some updated \<Rightarrow>
          (JSON 200 (UpdatedHub ''Hub updated successfully'' updated), w3)))))))))))))"

definition DeleteHub :: "env \<Rightarrow> request \<Rightarrow> world \<Rightarrow> outcome \<times> world" where
  "DeleteHub e req w =
     (if user_id req = [] then (Responded (error_response 401 ''unauthorized''), w)
      else
     (case ObjectIDFromHex (param_id req) of
        None \<Rightarrow> (Responded (error_response 400 ''invalid hub id''), w)
      | Some oid \<Rightarrow>
     (case store_FindOne Hubs (matches [(''_id'', BOid oid)]) w of
        (found, w1) \<Rightarrow>
     (case Option.bind found decode_Hub of
        None \<Rightarrow> (Responded (error_response 404 ''Hub not found''), w1)
      | Some existing \<Rightarrow>
     (if role req \<noteq> ''admin'' \<and> Hex (hub_UserID existing) \<noteq> user_id req
      then (Responded (error_response 403 ''access denied''), w1)
      else
     (case store_DeleteOne Hubs (matches [(''_id'', BOid oid)]) w1 of
        (None, w2) \<Rightarrow> (Responded (error_response 500 ''failed to delete hub''), w2)
      | (Some deletedCount, w2) \<Rightarrow>
          if deletedCount = 0 then (Responded (error_response 404 ''Hub not found''), w2)
          else
            (case delete_images e (case hub_Images existing of None \<Rightarrow> [] | Some imgs \<Rightarrow> imgs) w2 of
               (Some msg, w3) \<Rightarrow> (HandlerPanic msg, w3)
             | (None, w3) \<Rightarrow>
                 (Responded (JSON 200 (MessageId ''Hub deleted successfully'' (Hex oid))), w3))))))))"

definition favorite_of :: "oid \<Rightarrow> oid \<Rightarrow> doc \<Rightarrow> bool" where
  "favorite_of userID hubID = matches [(''user_id'', BOid userID), (''hub_id'', BOid hubID)]"

definition ToggleFavorite :: "env \<Rightarrow> request \<Rightarrow> world \<Rightarrow> response \<times> world" where
  "ToggleFavorite e req w =
     (case ObjectIDFromHex (user_id req) of
        None \<Rightarrow> (error_response 401 ''invalid user id'', w)
      | Some userID \<Rightarrow>
     (case ObjectIDFromHex (param_id req) of
        None \<Rightarrow> (error_response 400 ''invalid hub id'', w)
      | Some hubID \<Rightarrow>
     (case store_FindOne Favorites (favorite_of userID hubID) w of
        (found, w1) \<Rightarrow>
     (case Option.bind found decode_Favorite of
        Some fav \<Rightarrow>
          (case store_DeleteOne Favorites (matches [(''_id'', BOid (fav_ID fav))]) w1 of
             (deleted, w2) \<Rightarrow> (JSON 200 (FavoriteToggled ''removed from favorites'' False), w2))
      | None \<Rightarrow>
          (let favorite = \<lparr>fav_ID = NewObjectID e, fav_UserID = userID, fav_HubID = hubID,
                           fav_CreatedAt = now e\<rparr>
           in case store_InsertOne Favorites (encode_Favorite favorite) w1 of
                (False, w2) \<Rightarrow> (error_response 500 ''could not mark as favorite'', w2)
              | (True, w2) \<Rightarrow>
                  (JSON 200 (FavoriteToggled ''added to favorites'' True), w2))))))"

section \<open>Sample data\<close>

text \<open>
  The path of a URL of the shape \<open>scheme://host/path?query#fragment\<close> without escapes,
  where \<open>url.Parse\<close> finds the text from the first slash after the host up to the query
  or fragment.
\<close>

definition plain_url_path :: "string \<Rightarrow> string + string" where
  "plain_url_path u =
     (case dropWhile (\<lambda>c. c \<noteq> CHR ''/'') u of
        a # b # rest \<Rightarrow>
          Inr (takeWhile (\<lambda>c. c \<noteq> CHR ''?'' \<and> c \<noteq> CHR ''#'')
                 (dropWhile (\<lambda>c. c \<noteq> CHR ''/'') rest))
      | _ \<Rightarrow> Inl ''missing protocol scheme'')"

definition sample_env :: env where
  "sample_env = \<lparr>now = 1700000000000, NewObjectID = ''6500000000000000000000ff'',
     GenerateETag = (\<lambda>i t. ''etag-'' @ i), TimeFormat = (\<lambda>t. ''Tue, 14 Nov 2023 22:13:20 GMT''),
     time_Parse = (\<lambda>layout s. None), regex_i = (\<lambda>q s. True),
     url_Parse_Path = plain_url_path, getCloudinaryInstance = True, Destroy = (\<lambda>publicID. True),
     User_Name = decode_Name\<rparr>"

definition empty_world :: world where
  "empty_world = \<lparr>db = (\<lambda>c. []), calls = [], faults = [], destroyed = []\<rparr>"

definition alice :: oid where
  "alice = ''650000000000000000000a11''"

definition bob :: oid where
  "bob = ''650000000000000000000b0b''"

definition hub1 :: oid where
  "hub1 = ''650000000000000000000001''"

definition event1 :: oid where
  "event1 = ''650000000000000000000002''"

definition sample_hub_doc :: doc where
  "sample_hub_doc = [(''_id'', BOid hub1), (''user_id'', BOid alice), (''title'', BString ''Hub''),
     (''coordinates'', BDoc [(''lat'', BDouble (Fin 1)), (''lng'', BDouble (Fin 2))]),
     (''images'', BArray [BString ''A'', BString ''B'']),
     (''created_at'', BTime 1000), (''updated_at'', BTime 1000)]"

definition sample_event_doc :: doc where
  "sample_event_doc = [(''_id'', BOid event1), (''user_id'', BOid alice),
     (''title'', BString ''Event''), (''status'', BString ''ACTIVE''),
     (''images'', BArray [BString ''A'', BString ''B'']),
     (''created_at'', BTime 1000), (''updated_at'', BTime 1000)]"

definition sample_world :: world where
  "sample_world = empty_world\<lparr>db := (\<lambda>c. [])(Hubs := [sample_hub_doc], Events := [sample_event_doc])\<rparr>"

definition no_contribution :: Contribution where
  "no_contribution = \<lparr>ctn_ID = NilObjectID, ctn_EventID = NilObjectID, ctn_ContributorName = [],
     ctn_ContributorContact = [], ctn_Amount = Fin 0, ctn_Currency = [], ctn_Method = [],
     ctn_PaymentRef = [], ctn_Status = [], ctn_ReceiptURL = [], ctn_CreatedAt = 0,
     ctn_UpdatedAt = 0\<rparr>"

definition no_event_input :: EventInput where
  "no_event_input = \<lparr>ei_Title = [], ei_Description = [], ei_Location = [],
     ei_TargetAmount = Fin 0, ei_Deadline = None, ei_Status = [], ei_Images = None\<rparr>"

definition no_hub_input :: HubInput where
  "no_hub_input = \<lparr>hi_Title = [], hi_Description = [], hi_Lat = None, hi_Lng = None,
     hi_LocationName = [], hi_Rating = Fin 0, hi_Images = None\<rparr>"

definition as_user :: "string \<Rightarrow> string \<Rightarrow> string \<Rightarrow> request" where
  "as_user uid r i = \<lparr>user_id = uid, role = r, param_id = i, query = (\<lambda>k. []), if_none_match = []\<rparr>"

definition example_url :: string where
  "example_url = ''https://res.cloudinary.com/demo/image/upload/v1234567890/events/abc123.jpg''"

definition contribution1 :: oid where
  "contribution1 = ''650000000000000000000c01''"

definition contribution2 :: oid where
  "contribution2 = ''650000000000000000000c02''"

definition contribution_doc :: "oid \<Rightarrow> time \<Rightarrow> doc" where
  "contribution_doc i t = [(''_id'', BOid i), (''event_id'', BOid event1),
     (''contributor_name'', BString ''Ann''), (''amount'', BDouble (Fin 100)),
     (''status'', BString ''PENDING''), (''created_at'', BTime 1000), (''updated_at'', BTime t)]"

definition contribution_rec :: "oid \<Rightarrow> time \<Rightarrow> Contribution" where
  "contribution_rec i t = \<lparr>ctn_ID = i, ctn_EventID = event1, ctn_ContributorName = ''Ann'',
     ctn_ContributorContact = [], ctn_Amount = Fin 100, ctn_Currency = [], ctn_Method = [],
     ctn_PaymentRef = [], ctn_Status = ''PENDING'', ctn_ReceiptURL = [], ctn_CreatedAt = 1000,
     ctn_UpdatedAt = t\<rparr>"

definition sample_event :: Event where
  "sample_event = \<lparr>ev_ID = event1, ev_UserID = alice, ev_Title = ''Event'',
     ev_Description = [], ev_Location = [], ev_TargetAmount = Fin 0, ev_Deadline = None,
     ev_Status = ''ACTIVE'', ev_Images = Some [''A'', ''B''], ev_CreatedAt = 1000,
     ev_UpdatedAt = 1000\<rparr>"

definition sample_hub :: Hub where
  "sample_hub = \<lparr>hub_ID = hub1, hub_UserID = alice, hub_Title = ''Hub'', hub_Description = [],
     hub_Coordinates = \<lparr>Lat = Fin 1, Lng = Fin 2\<rparr>, hub_LocationName = [], hub_Rating = Fin 0,
     hub_Images = Some [''A'', ''B''], hub_CreatedAt = 1000, hub_UpdatedAt = 1000\<rparr>"

definition contributions_world :: world where
  "contributions_world = empty_world\<lparr>db := (\<lambda>c. [])(Events := [sample_event_doc],
     Contributions := [contribution_doc contribution1 2000, contribution_doc contribution2 3000])\<rparr>"

section \<open>Payloads with nothing to update\<close>

text \<open>
  An update payload in which every updatable field is absent or has its default value:
  the empty string, the number zero, a nil pointer or slice; for a deadline also the
  empty string behind the pointer.
\<close>

definition contribution_fields_default :: "Contribution \<Rightarrow> bool" where
  "contribution_fields_default input =
     (ctn_ContributorName input = [] \<and> ctn_ContributorContact input = [] \<and>
      ctn_Amount input = Fin 0 \<and> ctn_Currency input = [] \<and> ctn_Method input = [] \<and>
      ctn_PaymentRef input = [] \<and> ctn_Status input = [] \<and> ctn_ReceiptURL input = [])"

definition event_fields_default :: "EventInput \<Rightarrow> bool" where
  "event_fields_default input =
     (ei_Title input = [] \<and> ei_Description input = [] \<and> ei_Location input = [] \<and>
      ei_TargetAmount input = Fin 0 \<and> (ei_Deadline input = None \<or> ei_Deadline input = Some []) \<and>
      ei_Status input = [] \<and> ei_Images input = None)"

definition hub_fields_default :: "HubInput \<Rightarrow> bool" where
  "hub_fields_default input =
     (hi_Title input = [] \<and> hi_Description input = [] \<and> hi_Lat input = None \<and>
      hi_Lng input = None \<and> hi_LocationName input = [] \<and> hi_Rating input = Fin 0 \<and>
      hi_Images input = None)"

text \<open>The stored document with a given identifier.\<close>

definition stored :: "world \<Rightarrow> collection_name \<Rightarrow> oid \<Rightarrow> doc option" where
  "stored w c i = find (matches [(''_id'', BOid i)]) (db w c)"

section \<open>The favorites collection\<close>

text \<open>Whether a Favorite record of the user for the hub exists.\<close>

definition favorited :: "world \<Rightarrow> oid \<Rightarrow> oid \<Rightarrow> bool" where
  "favorited w userID hubID = list_ex (favorite_of userID hubID) (db w Favorites)"

text \<open>
  The favorites collection as \<open>ToggleFavorite\<close>, its only writer, keeps it: every record
  decodes and carries an identifier, identifiers are unique (the store's index), and no
  two records have the same user and hub.
\<close>

definition has_oid :: "doc \<Rightarrow> bool" where
  "has_oid d = (case map_of d ''_id'' of Some (BOid i) \<Rightarrow> True | _ \<Rightarrow> False)"

definition favorites_wf :: "doc list \<Rightarrow> bool" where
  "favorites_wf favs =
     (list_all (\<lambda>d. decode_Favorite d \<noteq> None \<and> has_oid d) favs \<and>
      distinct (map (\<lambda>d. map_of d ''_id'') favs) \<and>
      distinct (map (\<lambda>d. (map_of d ''user_id'', map_of d ''hub_id'')) favs))"

text \<open>\<open>primitive.NewObjectID()\<close> returns an identifier that is not zero and not in use.\<close>

definition fresh_id :: "env \<Rightarrow> world \<Rightarrow> bool" where
  "fresh_id e w =
     (\<not> IsZero (NewObjectID e) \<and>
      \<not> list_ex (\<lambda>d. map_of d ''_id'' = Some (BOid (NewObjectID e))) (db w Favorites))"

section \<open>Author names of reviews\<close>

text \<open>
  The author name that the spec attaches to a review: the display name of the review's
  user when the user record resolves (it is found in \<open>users\<close> and decodes), and the
  sentinel when it does not.
\<close>

definition resolved_name :: "string \<Rightarrow> (doc \<Rightarrow> string option) \<Rightarrow> world \<Rightarrow> oid \<Rightarrow> string" where
  "resolved_name sentinel dec w userID =
     (case Option.bind (find (matches [(''_id'', BOid userID)]) (db w Users)) dec of
        None \<Rightarrow> sentinel
      | Some name \<Rightarrow> name)"

text \<open>
  The reviews that reference a hub, as \<open>ListHubs\<close> reads them with a store whose calls
  succeed: all of them, in the order of the collection, or none when one of them does
  not decode.
\<close>

definition stored_reviews :: "world \<Rightarrow> oid \<Rightarrow> Review list" where
  "stored_reviews w hubID =
     (case decode_all decode_Review (filter (matches [(''hub_id'', BOid hubID)]) (db w Reviews)) of
        None \<Rightarrow> []
      | Some reviews \<Rightarrow> reviews)"

text \<open>The review that \<open>ListHubs\<close> attaches for a stored review, under a given author name.\<close>

definition review_response :: "string \<Rightarrow> Review \<Rightarrow> ReviewResponse" where
  "review_response name r = \<lparr>rr_ID = rev_ID r, rr_UserID = rev_UserID r, rr_UserName = name,
     rr_HubID = rev_HubID r, rr_Rating = rev_Rating r, rr_Comment = rev_Comment r,
     rr_CreatedAt = rev_CreatedAt r\<rparr>"

text \<open>The review that \<open>GetHub\<close> returns for a stored review, under a given author name.\<close>

definition hub_review :: "string \<Rightarrow> Review \<Rightarrow> HubReview" where
  "hub_review name r = \<lparr>hr_ID = rev_ID r, hr_UserName = name, hr_Comment = rev_Comment r,
     hr_Rating = rev_Rating r, hr_CreatedAt = rev_CreatedAt r\<rparr>"

definition review1 :: oid where
  "review1 = ''650000000000000000000d01''"

definition review2 :: oid where
  "review2 = ''650000000000000000000d02''"

definition review_doc :: "oid \<Rightarrow> oid \<Rightarrow> doc" where
  "review_doc i u = [(''_id'', BOid i), (''user_id'', BOid u), (''hub_id'', BOid hub1),
     (''rating'', BInt 4), (''comment'', BString ''nice''), (''created_at'', BTime 1500),
     (''updated_at'', BTime 1500)]"

definition review_rec :: "oid \<Rightarrow> oid \<Rightarrow> Review" where
  "review_rec i u = \<lparr>rev_ID = i, rev_UserID = u, rev_HubID = hub1, rev_Rating = 4,
     rev_Comment = ''nice'', rev_CreatedAt = 1500, rev_UpdatedAt = 1500\<rparr>"

text \<open>A hub with two reviews, by Alice, who has a user record, and by Bob, who has none.\<close>

definition reviews_world :: world where
  "reviews_world = empty_world\<lparr>db := (\<lambda>c. [])(Hubs := [sample_hub_doc],
     Reviews := [review_doc review1 alice, review_doc review2 bob],
     Users := [[(''_id'', BOid alice), (''name'', BString ''Alice'')]])\<rparr>"

text \<open>A deadline that is supplied and not empty parses in one of the layouts.\<close>

definition deadline_parses :: "env \<Rightarrow> EventInput \<Rightarrow> bool" where
  "deadline_parses e input =
     (case ei_Deadline input of
        None \<Rightarrow> True
      | Some s \<Rightarrow> s = [] \<or> parse_deadline e s \<noteq> None)"

text \<open>The retained URLs that an update supplies: none for a nil slice.\<close>

definition retained :: "string list option \<Rightarrow> string list" where
  "retained images = (case images of None \<Rightarrow> [] | Some urls \<Rightarrow> urls)"


section \<open>Properties of the store\<close>

lemma map_of_stage:
  "map_of (stage b k v u) k' = (if b \<and> k' = k then Some v else map_of u k')"
  by (simp add: stage_def update_conv')

lemma stage_False [simp]: "stage False k v u = u"
  by (simp add: stage_def)

lemma call_frame:
  "call operation c w = (b, w') \<Longrightarrow>
     db w' = db w \<and> calls w' = calls w @ [(operation, c)] \<and> destroyed w' = destroyed w"
  by (auto simp: call_def Let_def split: list.splits)

lemma call_reliable:
  "reliable w \<Longrightarrow> call operation c w = (b, w') \<Longrightarrow> \<not> b \<and> reliable w'"
  by (auto simp: call_def reliable_def Let_def split: list.splits)

lemma FindOne_frame:
  "store_FindOne c flt w = (r, w') \<Longrightarrow>
     db w' = db w \<and> calls w' = calls w @ [(FindOne, c)] \<and> destroyed w' = destroyed w"
  by (auto simp: store_FindOne_def split: prod.splits bool.splits dest: call_frame)

lemma FindOne_result:
  "store_FindOne c flt w = (Some d, w') \<Longrightarrow> find flt (db w c) = Some d"
  by (auto simp: store_FindOne_def split: prod.splits bool.splits dest: call_frame)

lemma FindOne_reliable:
  "reliable w \<Longrightarrow> store_FindOne c flt w = (r, w') \<Longrightarrow> r = find flt (db w c) \<and> reliable w'"
  by (auto simp: store_FindOne_def split: prod.splits bool.splits dest: call_frame call_reliable)

lemma FindOne_absent:
  "\<not> list_ex flt (db w c) \<Longrightarrow> fst (store_FindOne c flt w) = None"
  by (auto simp: store_FindOne_def find_None_iff list_ex_iff
      split: prod.splits bool.splits dest: call_frame)

lemma decode_sample_event: "decode_Event sample_event_doc = Some sample_event"
  by (simp add: decode_Event_def sample_event_doc_def sample_event_def)

section \<open>Contributions: creation\<close>

text \<open>
  C6: creating a Contribution with an amount that is not positive against an existing
  Event answers 400 "amount must be greater than 0"; creating one against an Event
  identifier that no stored Event has answers 400 "event not found"; in both cases the
  only call to the store is the reading of the Event, and no collection changes.
\<close>

theorem create_contribution_validates_before_write:
  "(\<not> IsZero (ctn_EventID input) \<and>
    store_FindOne Events (matches [(''_id'', BOid (ctn_EventID input))]) w = (Some d, w1) \<and>
    decode_Event d = Some event \<and> le_zero (ctn_Amount input)
    \<longrightarrow> CreateContribution e (Inr input) w
          = (error_response 400 ''amount must be greater than 0'', w1)
        \<and> db w1 = db w \<and> calls w1 = calls w @ [(FindOne, Events)])
   \<and>
   (\<not> IsZero (ctn_EventID input) \<and>
    \<not> list_ex (matches [(''_id'', BOid (ctn_EventID input))]) (db w Events)
    \<longrightarrow> fst (CreateContribution e (Inr input) w) = error_response 400 ''event not found''
        \<and> db (snd (CreateContribution e (Inr input) w)) = db w
        \<and> calls (snd (CreateContribution e (Inr input) w)) = calls w @ [(FindOne, Events)])"
proof (intro conjI impI)
  assume a: "\<not> IsZero (ctn_EventID input) \<and>
    store_FindOne Events (matches [(''_id'', BOid (ctn_EventID input))]) w = (Some d, w1) \<and>
    decode_Event d = Some event \<and> le_zero (ctn_Amount input)"
  then show "CreateContribution e (Inr input) w
      = (error_response 400 ''amount must be greater than 0'', w1)"
    by (simp add: CreateContribution_def)
  from a show "db w1 = db w" by (auto dest: FindOne_frame)
  from a show "calls w1 = calls w @ [(FindOne, Events)]" by (auto dest: FindOne_frame)
next
  assume a: "\<not> IsZero (ctn_EventID input) \<and>
    \<not> list_ex (matches [(''_id'', BOid (ctn_EventID input))]) (db w Events)"
  obtain r w1 where
    f: "store_FindOne Events (matches [(''_id'', BOid (ctn_EventID input))]) w = (r, w1)"
    by (cases "store_FindOne Events (matches [(''_id'', BOid (ctn_EventID input))]) w")
  with a FindOne_absent[of "matches [(''_id'', BOid (ctn_EventID input))]" w Events]
  have r: "r = None" by simp
  from a f r show "fst (CreateContribution e (Inr input) w) = error_response 400 ''event not found''"
    by (simp add: CreateContribution_def)
  from a f r show "db (snd (CreateContribution e (Inr input) w)) = db w"
    by (auto simp: CreateContribution_def dest: FindOne_frame)
  from a f r show "calls (snd (CreateContribution e (Inr input) w)) = calls w @ [(FindOne, Events)]"
    by (auto simp: CreateContribution_def dest: FindOne_frame)
qed

theorem create_contribution_witness:
  "fst (CreateContribution sample_env
          (Inr (no_contribution\<lparr>ctn_EventID := event1, ctn_Amount := Fin (- 5)\<rparr>)) sample_world)
     = error_response 400 ''amount must be greater than 0''
   \<and> fst (CreateContribution sample_env
          (Inr (no_contribution\<lparr>ctn_EventID := hub1, ctn_Amount := Fin 100\<rparr>)) sample_world)
     = error_response 400 ''event not found''"
proof -
  let ?i1 = "no_contribution\<lparr>ctn_EventID := event1, ctn_Amount := Fin (- 5)\<rparr>"
  let ?i2 = "no_contribution\<lparr>ctn_EventID := hub1, ctn_Amount := Fin 100\<rparr>"
  let ?w1 = "sample_world\<lparr>calls := [(FindOne, Events)]\<rparr>"
  have h1: "\<not> IsZero (ctn_EventID ?i1) \<and>
      store_FindOne Events (matches [(''_id'', BOid (ctn_EventID ?i1))]) sample_world
        = (Some sample_event_doc, ?w1) \<and>
      decode_Event sample_event_doc = Some sample_event \<and> le_zero (ctn_Amount ?i1)"
    using decode_sample_event
    by (simp add: no_contribution_def IsZero_def NilObjectID_def event1_def store_FindOne_def
        call_def sample_world_def empty_world_def matches_def sample_event_doc_def)
  have h2: "\<not> IsZero (ctn_EventID ?i2) \<and>
      \<not> list_ex (matches [(''_id'', BOid (ctn_EventID ?i2))]) (db sample_world Events)"
    by (simp add: no_contribution_def IsZero_def NilObjectID_def hub1_def event1_def
        sample_world_def empty_world_def matches_def sample_event_doc_def)
  show ?thesis
    using create_contribution_validates_before_write
            [of ?i1 sample_world sample_event_doc ?w1 sample_event sample_env] h1
          create_contribution_validates_before_write
            [of ?i2 sample_world sample_event_doc ?w1 sample_event sample_env] h2
    by simp
qed

lemma pick_latest_mem: "pick_latest upd l xs \<in> insert l (set xs)"
  by (induction xs arbitrary: l) (auto split: if_splits)

lemma pick_latest_ge_init: "upd l \<le> upd (pick_latest upd l xs)"
proof (induction xs arbitrary: l)
  case Nil show ?case by simp
next
  case (Cons x xs)
  show ?case using Cons.IH[of x] Cons.IH[of l] by auto
qed

lemma pick_latest_max: "x \<in> set xs \<Longrightarrow> upd x \<le> upd (pick_latest upd l xs)"
proof (induction xs arbitrary: l)
  case Nil then show ?case by simp
next
  case (Cons y ys)
  show ?case
  proof (cases "x = y")
    case True
    have "upd y \<le> upd (if upd l < upd y then y else l)" by simp
    also have "\<dots> \<le> upd (pick_latest upd (if upd l < upd y then y else l) ys)"
      by (rule pick_latest_ge_init)
    finally show ?thesis using True by simp
  next
    case False
    with Cons.prems have "x \<in> set ys" by simp
    then show ?thesis using Cons.IH by simp
  qed
qed

lemma pick_latest_freshest:
  "pick_latest upd x (x # xs) \<in> set (x # xs) \<and>
     (\<forall>y \<in> set (x # xs). upd y \<le> upd (pick_latest upd x (x # xs)))"
  using pick_latest_mem[of upd x "x # xs"] pick_latest_max[of _ "x # xs" upd x]
  by auto

section \<open>Freshness of list responses\<close>

text \<open>
  C3: for a non-empty result of the Contribution or the Event list, the fingerprint and the
  date come from an element of the result whose \<open>updated_at\<close> is maximal; a non-empty
  \<open>If-None-Match\<close> equal to the fingerprint is answered 304 with no header and no body,
  and any other request 200 with the \<open>ETag\<close> and \<open>Last-Modified\<close> headers and the
  whole result as body.
\<close>

theorem list_freshness:
  "(store_Find Contributions (matches (contributions_filter req)) w = (Some cursor, w1) \<and>
    cursor_All Contributions decode_Contribution cursor w1 = (Some contributions, w2) \<and>
    contributions \<noteq> []
    \<longrightarrow> (\<exists>latest. latest \<in> set contributions \<and>
          (\<forall>c \<in> set contributions. ctn_UpdatedAt c \<le> ctn_UpdatedAt latest) \<and>
          ListContributions e req w =
            (if if_none_match req \<noteq> [] \<and>
                if_none_match req = GenerateETag e (ctn_ID latest) (ctn_UpdatedAt latest)
             then \<lparr>status = 304, headers = [], body = None\<rparr>
             else \<lparr>status = 200,
                    headers = [(''ETag'', GenerateETag e (ctn_ID latest) (ctn_UpdatedAt latest)),
                               (''Last-Modified'', TimeFormat e (ctn_UpdatedAt latest))],
                    body = Some (ContributionList contributions)\<rparr>, w2)))
   \<and>
   (ObjectIDFromHex (user_id req) = Some userID \<and>
    store_Find Events (events_filter e req userID) w = (Some cursor, w1) \<and>
    cursor_All Events decode_Event cursor w1 = (Some events, w2) \<and>
    events \<noteq> []
    \<longrightarrow> (\<exists>latest. latest \<in> set events \<and>
          (\<forall>ev \<in> set events. ev_UpdatedAt ev \<le> ev_UpdatedAt latest) \<and>
          ListEvents e req w =
            (if if_none_match req \<noteq> [] \<and>
                if_none_match req = GenerateETag e (ev_ID latest) (ev_UpdatedAt latest)
             then \<lparr>status = 304, headers = [], body = None\<rparr>
             else \<lparr>status = 200,
                    headers = [(''ETag'', GenerateETag e (ev_ID latest) (ev_UpdatedAt latest)),
                               (''Last-Modified'', TimeFormat e (ev_UpdatedAt latest))],
                    body = Some (EventList events)\<rparr>, w2)))"
proof (intro conjI impI)
  assume a: "store_Find Contributions (matches (contributions_filter req)) w = (Some cursor, w1) \<and>
    cursor_All Contributions decode_Contribution cursor w1 = (Some contributions, w2) \<and>
    contributions \<noteq> []"
  then obtain c cs where cs: "contributions = c # cs" by (cases contributions) auto
  let ?l = "pick_latest ctn_UpdatedAt c (c # cs)"
  have fr: "?l \<in> set contributions \<and>
     (\<forall>x \<in> set contributions. ctn_UpdatedAt x \<le> ctn_UpdatedAt ?l)"
    unfolding cs by (rule pick_latest_freshest)
  have "ListContributions e req w =
            (if if_none_match req \<noteq> [] \<and>
                if_none_match req = GenerateETag e (ctn_ID ?l) (ctn_UpdatedAt ?l)
             then \<lparr>status = 304, headers = [], body = None\<rparr>
             else \<lparr>status = 200,
                    headers = [(''ETag'', GenerateETag e (ctn_ID ?l) (ctn_UpdatedAt ?l)),
                               (''Last-Modified'', TimeFormat e (ctn_UpdatedAt ?l))],
                    body = Some (ContributionList contributions)\<rparr>, w2)"
    using a cs by (simp add: ListContributions_def NotModified_def Let_def)
  with fr show "\<exists>latest. latest \<in> set contributions \<and>
          (\<forall>c \<in> set contributions. ctn_UpdatedAt c \<le> ctn_UpdatedAt latest) \<and>
          ListContributions e req w =
            (if if_none_match req \<noteq> [] \<and>
                if_none_match req = GenerateETag e (ctn_ID latest) (ctn_UpdatedAt latest)
             then \<lparr>status = 304, headers = [], body = None\<rparr>
             else \<lparr>status = 200,
                    headers = [(''ETag'', GenerateETag e (ctn_ID latest) (ctn_UpdatedAt latest)),
                               (''Last-Modified'', TimeFormat e (ctn_UpdatedAt latest))],
                    body = Some (ContributionList contributions)\<rparr>, w2)"
    by blast
next
  assume a: "ObjectIDFromHex (user_id req) = Some userID \<and>
    store_Find Events (events_filter e req userID) w = (Some cursor, w1) \<and>
    cursor_All Events decode_Event cursor w1 = (Some events, w2) \<and>
    events \<noteq> []"
  then obtain c cs where cs: "events = c # cs" by (cases events) auto
  let ?l = "pick_latest ev_UpdatedAt c (c # cs)"
  have fr: "?l \<in> set events \<and> (\<forall>x \<in> set events. ev_UpdatedAt x \<le> ev_UpdatedAt ?l)"
    unfolding cs by (rule pick_latest_freshest)
  have "ListEvents e req w =
            (if if_none_match req \<noteq> [] \<and>
                if_none_match req = GenerateETag e (ev_ID ?l) (ev_UpdatedAt ?l)
             then \<lparr>status = 304, headers = [], body = None\<rparr>
             else \<lparr>status = 200,
                    headers = [(''ETag'', GenerateETag e (ev_ID ?l) (ev_UpdatedAt ?l)),
                               (''Last-Modified'', TimeFormat e (ev_UpdatedAt ?l))],
                    body = Some (EventList events)\<rparr>, w2)"
    using a cs by (simp add: ListEvents_def NotModified_def Let_def)
  with fr show "\<exists>latest. latest \<in> set events \<and>
          (\<forall>ev \<in> set events. ev_UpdatedAt ev \<le> ev_UpdatedAt latest) \<and>
          ListEvents e req w =
            (if if_none_match req \<noteq> [] \<and>
                if_none_match req = GenerateETag e (ev_ID latest) (ev_UpdatedAt latest)
             then \<lparr>status = 304, headers = [], body = None\<rparr>
             else \<lparr>status = 200,
                    headers = [(''ETag'', GenerateETag e (ev_ID latest) (ev_UpdatedAt latest)),
                               (''Last-Modified'', TimeFormat e (ev_UpdatedAt latest))],
                    body = Some (EventList events)\<rparr>, w2)"
    by blast
qed

lemma decode_contribution_doc:
  "decode_Contribution (contribution_doc i t) = Some (contribution_rec i t)"
  by (simp add: decode_Contribution_def contribution_doc_def contribution_rec_def)

lemma alice_hex: "ObjectIDFromHex alice = Some alice"
  by (simp add: ObjectIDFromHex_def alice_def is_hex_def lower_hex_def)

theorem list_freshness_witness:
  "fst (ListContributions sample_env (as_user alice ''user'' []) contributions_world) =
     \<lparr>status = 200,
      headers = [(''ETag'', ''etag-650000000000000000000c02''),
                 (''Last-Modified'', ''Tue, 14 Nov 2023 22:13:20 GMT'')],
      body = Some (ContributionList
                [contribution_rec contribution1 2000, contribution_rec contribution2 3000])\<rparr>
   \<and> fst (ListEvents sample_env (as_user alice ''user'' []) contributions_world) =
     \<lparr>status = 200,
      headers = [(''ETag'', ''etag-650000000000000000000002''),
                 (''Last-Modified'', ''Tue, 14 Nov 2023 22:13:20 GMT'')],
      body = Some (EventList [sample_event])\<rparr>"
proof -
  let ?req = "as_user alice ''user'' []"
  let ?cs = "[contribution_rec contribution1 2000, contribution_rec contribution2 3000]"
  let ?ds = "[contribution_doc contribution1 2000, contribution_doc contribution2 3000]"
  have flt: "contributions_filter ?req = []"
    by (simp add: contributions_filter_def as_user_def)
  have h1: "store_Find Contributions (matches (contributions_filter ?req)) contributions_world
       = (Some ?ds, contributions_world\<lparr>calls := [(Find, Contributions)]\<rparr>) \<and>
     cursor_All Contributions decode_Contribution ?ds
         (contributions_world\<lparr>calls := [(Find, Contributions)]\<rparr>)
       = (Some ?cs, contributions_world\<lparr>calls := [(Find, Contributions), (All, Contributions)]\<rparr>) \<and>
     ?cs \<noteq> []"
    by (simp add: flt store_Find_def cursor_All_def call_def contributions_world_def
        empty_world_def matches_def decode_contribution_doc)
  have m: "matches [(''user_id'', BOid alice)] sample_event_doc"
    by (simp add: matches_def sample_event_doc_def)
  have h2: "ObjectIDFromHex (user_id ?req) = Some alice \<and>
     store_Find Events (events_filter sample_env ?req alice) contributions_world
       = (Some [sample_event_doc], contributions_world\<lparr>calls := [(Find, Events)]\<rparr>) \<and>
     cursor_All Events decode_Event [sample_event_doc]
         (contributions_world\<lparr>calls := [(Find, Events)]\<rparr>)
       = (Some [sample_event], contributions_world\<lparr>calls := [(Find, Events), (All, Events)]\<rparr>) \<and>
     [sample_event] \<noteq> []"
    using m alice_hex
    by (simp add: store_Find_def cursor_All_def call_def contributions_world_def
        empty_world_def events_filter_def decode_sample_event as_user_def)
  from list_freshness[where req = ?req and e = sample_env
        and w = contributions_world and cursor = ?ds
        and ?w1.0 = "contributions_world\<lparr>calls := [(Find, Contributions)]\<rparr>"
        and contributions = ?cs
        and ?w2.0 = "contributions_world\<lparr>calls := [(Find, Contributions), (All, Contributions)]\<rparr>"] h1
  obtain l where l: "l \<in> set ?cs" "\<forall>c \<in> set ?cs. ctn_UpdatedAt c \<le> ctn_UpdatedAt l"
     and r: "ListContributions sample_env ?req contributions_world =
            (if if_none_match ?req \<noteq> [] \<and>
                if_none_match ?req = GenerateETag sample_env (ctn_ID l) (ctn_UpdatedAt l)
             then \<lparr>status = 304, headers = [], body = None\<rparr>
             else \<lparr>status = 200,
                    headers = [(''ETag'', GenerateETag sample_env (ctn_ID l) (ctn_UpdatedAt l)),
                               (''Last-Modified'', TimeFormat sample_env (ctn_UpdatedAt l))],
                    body = Some (ContributionList ?cs)\<rparr>,
             contributions_world\<lparr>calls := [(Find, Contributions), (All, Contributions)]\<rparr>)"
    by blast
  from l have "l = contribution_rec contribution2 3000"
    by (auto simp: contribution_rec_def)
  with r have c1: "fst (ListContributions sample_env ?req contributions_world) =
     \<lparr>status = 200,
      headers = [(''ETag'', ''etag-650000000000000000000c02''),
                 (''Last-Modified'', ''Tue, 14 Nov 2023 22:13:20 GMT'')],
      body = Some (ContributionList ?cs)\<rparr>"
    by (simp add: as_user_def sample_env_def contribution_rec_def contribution2_def)
  from list_freshness[where req = ?req and e = sample_env and userID = alice
        and w = contributions_world and cursor = "[sample_event_doc]"
        and ?w1.0 = "contributions_world\<lparr>calls := [(Find, Events)]\<rparr>"
        and events = "[sample_event]"
        and ?w2.0 = "contributions_world\<lparr>calls := [(Find, Events), (All, Events)]\<rparr>"] h2
  obtain l2 where l2: "l2 \<in> set [sample_event]"
     and r2: "ListEvents sample_env ?req contributions_world =
            (if if_none_match ?req \<noteq> [] \<and>
                if_none_match ?req = GenerateETag sample_env (ev_ID l2) (ev_UpdatedAt l2)
             then \<lparr>status = 304, headers = [], body = None\<rparr>
             else \<lparr>status = 200,
                    headers = [(''ETag'', GenerateETag sample_env (ev_ID l2) (ev_UpdatedAt l2)),
                               (''Last-Modified'', TimeFormat sample_env (ev_UpdatedAt l2))],
                    body = Some (EventList [sample_event])\<rparr>,
             contributions_world\<lparr>calls := [(Find, Events), (All, Events)]\<rparr>)"
    by blast
  from l2 r2 have c2: "fst (ListEvents sample_env ?req contributions_world) =
     \<lparr>status = 200,
      headers = [(''ETag'', ''etag-650000000000000000000002''),
                 (''Last-Modified'', ''Tue, 14 Nov 2023 22:13:20 GMT'')],
      body = Some (EventList [sample_event])\<rparr>"
    by (simp add: as_user_def sample_env_def sample_event_def event1_def)
  from c1 c2 show ?thesis by simp
qed

section \<open>Public IDs\<close>

text \<open>
  C7, at the URL of the source's own comment: where \<open>url.Parse\<close> finds the path
  \<open>/demo/image/upload/v1234567890/events/abc123.jpg\<close>, \<open>extractPublicID\<close> returns
  \<open>upload/v1234567890/events/abc123\<close>: the \<open>upload\<close> element and the version element are
  both kept.
\<close>

theorem extractPublicID_example:
  "url_Parse_Path e example_url = Inr ''/demo/image/upload/v1234567890/events/abc123.jpg''
   \<Longrightarrow> extractPublicID e example_url = Ok ''upload/v1234567890/events/abc123''"
  by (simp add: extractPublicID_def Let_def HasPrefix_def TrimSuffix_def Join_def Clean_def Ext_def)

theorem extractPublicID_example_witness:
  "url_Parse_Path sample_env example_url = Inr ''/demo/image/upload/v1234567890/events/abc123.jpg''
   \<and> extractPublicID sample_env example_url = Ok ''upload/v1234567890/events/abc123''"
proof -
  have h: "url_Parse_Path sample_env example_url = Inr ''/demo/image/upload/v1234567890/events/abc123.jpg''"
    by (simp add: sample_env_def plain_url_path_def example_url_def)
  from extractPublicID_example[OF h] h show ?thesis by simp
qed

section \<open>Ownership\<close>

lemma status_error_response [simp]: "status (error_response code msg) = code"
  by (simp add: error_response_def JSON_def)

lemma status_JSON [simp]: "status (JSON code b) = code"
  by (simp add: JSON_def)

lemma upload_new_images_error:
  "upload_new_images files acc = Inl resp \<Longrightarrow> status resp = 500"
  by (induction files acc rule: upload_new_images.induct) auto

lemma stage_deadline_error:
  "stage_deadline e input update = Inl resp \<Longrightarrow> status resp = 400"
  by (auto simp: stage_deadline_def split: option.splits if_splits)

lemma UpdateOne_frame:
  "store_UpdateOne c flt upd w = (r, w') \<Longrightarrow>
     calls w' = calls w @ [(UpdateOne, c)] \<and> destroyed w' = destroyed w \<and>
     (\<forall>c'. c' \<noteq> c \<longrightarrow> db w' c' = db w c')"
  by (auto simp: store_UpdateOne_def split: prod.splits bool.splits if_splits dest: call_frame)

lemma DeleteOne_frame:
  "store_DeleteOne c flt w = (r, w') \<Longrightarrow>
     calls w' = calls w @ [(DeleteOne, c)] \<and> destroyed w' = destroyed w \<and>
     (\<forall>c'. c' \<noteq> c \<longrightarrow> db w' c' = db w c')"
  by (auto simp: store_DeleteOne_def split: prod.splits bool.splits if_splits dest: call_frame)

lemma UpdateEvent_forbidden:
  "user_id req \<noteq> [] \<Longrightarrow> ObjectIDFromHex (param_id req) = Some oid \<Longrightarrow>
   store_FindOne Events (matches [(''_id'', BOid oid)]) w = (Some d, w1) \<Longrightarrow>
   decode_Event d = Some existing \<Longrightarrow>
   role req \<noteq> ''admin'' \<Longrightarrow> Hex (ev_UserID existing) \<noteq> user_id req \<Longrightarrow>
   UpdateEvent e req payload files w = (error_response 403 ''Access denied'', w1)"
  by (simp add: UpdateEvent_def)

lemma DeleteEvent_forbidden:
  "user_id req \<noteq> [] \<Longrightarrow> ObjectIDFromHex (param_id req) = Some oid \<Longrightarrow>
   store_FindOne Events (matches [(''_id'', BOid oid)]) w = (Some d, w1) \<Longrightarrow>
   decode_Event d = Some existing \<Longrightarrow>
   role req \<noteq> ''admin'' \<Longrightarrow> Hex (ev_UserID existing) \<noteq> user_id req \<Longrightarrow>
   DeleteEvent e req w = (Responded (error_response 403 ''access denied''), w1)"
  by (simp add: DeleteEvent_def)

lemma UpdateHub_forbidden:
  "user_id req \<noteq> [] \<Longrightarrow> ObjectIDFromHex (param_id req) = Some oid \<Longrightarrow>
   store_FindOne Hubs (matches [(''_id'', BOid oid)]) w = (Some d, w1) \<Longrightarrow>
   decode_Hub d = Some existing \<Longrightarrow>
   role req \<noteq> ''admin'' \<Longrightarrow> Hex (hub_UserID existing) \<noteq> user_id req \<Longrightarrow>
   UpdateHub e req payload files w = (error_response 403 ''Access denied'', w1)"
  by (simp add: UpdateHub_def)

lemma DeleteHub_forbidden:
  "user_id req \<noteq> [] \<Longrightarrow> ObjectIDFromHex (param_id req) = Some oid \<Longrightarrow>
   store_FindOne Hubs (matches [(''_id'', BOid oid)]) w = (Some d, w1) \<Longrightarrow>
   decode_Hub d = Some existing \<Longrightarrow>
   role req \<noteq> ''admin'' \<Longrightarrow> Hex (hub_UserID existing) \<noteq> user_id req \<Longrightarrow>
   DeleteHub e req w = (Responded (error_response 403 ''access denied''), w1)"
  by (simp add: DeleteHub_def)

lemma UpdateEvent_admin:
  "role req = ''admin'' \<Longrightarrow> status (fst (UpdateEvent e req payload files w)) \<noteq> 403"
  by (auto simp: UpdateEvent_def Let_def
      split: option.splits prod.splits sum.splits if_splits
      dest: upload_new_images_error stage_deadline_error)

lemma UpdateHub_admin:
  "role req = ''admin'' \<Longrightarrow> status (fst (UpdateHub e req payload files w)) \<noteq> 403"
  by (auto simp: UpdateHub_def Let_def
      split: option.splits prod.splits sum.splits if_splits
      dest: upload_new_images_error)

lemma DeleteEvent_admin:
  "role req = ''admin'' \<Longrightarrow> DeleteEvent e req w = (Responded resp, w') \<Longrightarrow> status resp \<noteq> 403"
  by (auto simp: DeleteEvent_def Let_def
      split: option.splits prod.splits sum.splits if_splits)

lemma DeleteHub_admin:
  "role req = ''admin'' \<Longrightarrow> DeleteHub e req w = (Responded resp, w') \<Longrightarrow> status resp \<noteq> 403"
  by (auto simp: DeleteHub_def Let_def
      split: option.splits prod.splits sum.splits if_splits)


text \<open>
  C5: on an existing Event or Hub, an update or a delete by an authenticated caller whose
  role is not admin and whose identity is not the owner's is answered 403 whatever the
  payload and the attached files are, and no collection changes; with the role admin no
  handler answers 403.
\<close>

theorem ownership_enforced:
  "(user_id req \<noteq> [] \<and> ObjectIDFromHex (param_id req) = Some oid \<and> role req \<noteq> ''admin'' \<longrightarrow>
      (store_FindOne Events (matches [(''_id'', BOid oid)]) w = (Some d, w1) \<and>
       decode_Event d = Some ev \<and> Hex (ev_UserID ev) \<noteq> user_id req \<longrightarrow>
         UpdateEvent e req payload files w = (error_response 403 ''Access denied'', w1) \<and>
         DeleteEvent e req w = (Responded (error_response 403 ''access denied''), w1) \<and>
         db w1 = db w) \<and>
      (store_FindOne Hubs (matches [(''_id'', BOid oid)]) w = (Some d, w1) \<and>
       decode_Hub d = Some hub \<and> Hex (hub_UserID hub) \<noteq> user_id req \<longrightarrow>
         UpdateHub e req hub_payload files w = (error_response 403 ''Access denied'', w1) \<and>
         DeleteHub e req w = (Responded (error_response 403 ''access denied''), w1) \<and>
         db w1 = db w))
   \<and>
   (role req = ''admin'' \<longrightarrow>
      status (fst (UpdateEvent e req payload files w)) \<noteq> 403 \<and>
      status (fst (UpdateHub e req hub_payload files w)) \<noteq> 403 \<and>
      (\<forall>resp. fst (DeleteEvent e req w) = Responded resp \<longrightarrow> status resp \<noteq> 403) \<and>
      (\<forall>resp. fst (DeleteHub e req w) = Responded resp \<longrightarrow> status resp \<noteq> 403))"
proof (intro conjI impI allI)
  assume a: "user_id req \<noteq> [] \<and> ObjectIDFromHex (param_id req) = Some oid \<and> role req \<noteq> ''admin''"
     and b: "store_FindOne Events (matches [(''_id'', BOid oid)]) w = (Some d, w1) \<and>
       decode_Event d = Some ev \<and> Hex (ev_UserID ev) \<noteq> user_id req"
  from a b show "UpdateEvent e req payload files w = (error_response 403 ''Access denied'', w1)"
    by (simp add: UpdateEvent_forbidden)
  from a b show "DeleteEvent e req w = (Responded (error_response 403 ''access denied''), w1)"
    by (simp add: DeleteEvent_forbidden)
  from b show "db w1 = db w" by (auto dest: FindOne_frame)
next
  assume a: "user_id req \<noteq> [] \<and> ObjectIDFromHex (param_id req) = Some oid \<and> role req \<noteq> ''admin''"
     and b: "store_FindOne Hubs (matches [(''_id'', BOid oid)]) w = (Some d, w1) \<and>
       decode_Hub d = Some hub \<and> Hex (hub_UserID hub) \<noteq> user_id req"
  from a b show "UpdateHub e req hub_payload files w = (error_response 403 ''Access denied'', w1)"
    by (simp add: UpdateHub_forbidden)
  from a b show "DeleteHub e req w = (Responded (error_response 403 ''access denied''), w1)"
    by (simp add: DeleteHub_forbidden)
  from b show "db w1 = db w" by (auto dest: FindOne_frame)
next
  assume "role req = ''admin''"
  then show "status (fst (UpdateEvent e req payload files w)) \<noteq> 403"
    by (rule UpdateEvent_admin)
next
  assume "role req = ''admin''"
  then show "status (fst (UpdateHub e req hub_payload files w)) \<noteq> 403"
    by (rule UpdateHub_admin)
next
  fix resp assume "role req = ''admin''" "fst (DeleteEvent e req w) = Responded resp"
  then show "status resp \<noteq> 403"
    using DeleteEvent_admin[of req e w resp "snd (DeleteEvent e req w)"]
    by (metis prod.collapse)
next
  fix resp assume "role req = ''admin''" "fst (DeleteHub e req w) = Responded resp"
  then show "status resp \<noteq> 403"
    using DeleteHub_admin[of req e w resp "snd (DeleteHub e req w)"]
    by (metis prod.collapse)
qed

lemma hub1_hex: "ObjectIDFromHex hub1 = Some hub1"
  by (simp add: ObjectIDFromHex_def hub1_def is_hex_def lower_hex_def)

lemma event1_hex: "ObjectIDFromHex event1 = Some event1"
  by (simp add: ObjectIDFromHex_def event1_def is_hex_def lower_hex_def)

lemma decode_sample_hub: "decode_Hub sample_hub_doc = Some sample_hub"
  by (simp add: decode_Hub_def sample_hub_doc_def sample_hub_def)

lemma find_sample_event:
  "store_FindOne Events (matches [(''_id'', BOid event1)]) sample_world
     = (Some sample_event_doc, sample_world\<lparr>calls := [(FindOne, Events)]\<rparr>)"
  by (simp add: store_FindOne_def call_def sample_world_def empty_world_def matches_def
      sample_event_doc_def)

lemma find_sample_hub:
  "store_FindOne Hubs (matches [(''_id'', BOid hub1)]) sample_world
     = (Some sample_hub_doc, sample_world\<lparr>calls := [(FindOne, Hubs)]\<rparr>)"
  by (simp add: store_FindOne_def call_def sample_world_def empty_world_def matches_def
      sample_hub_doc_def)

theorem ownership_enforced_witness:
  "fst (UpdateEvent sample_env (as_user bob ''user'' event1) (Inl ''bad form'') [OpenFails] sample_world)
     = error_response 403 ''Access denied''
   \<and> fst (DeleteEvent sample_env (as_user bob ''user'' event1) sample_world)
     = Responded (error_response 403 ''access denied'')
   \<and> fst (UpdateHub sample_env (as_user bob ''user'' hub1) (Inl ''bad form'') [OpenFails] sample_world)
     = error_response 403 ''Access denied''
   \<and> fst (DeleteHub sample_env (as_user bob ''user'' hub1) sample_world)
     = Responded (error_response 403 ''access denied'')
   \<and> status (fst (UpdateEvent sample_env (as_user bob ''admin'' event1)
                (Inr (no_event_input\<lparr>ei_Title := ''New''\<rparr>)) [] sample_world)) \<noteq> 403"
proof -
  have ids: "Hex alice \<noteq> bob" "bob \<noteq> []"
    by (simp_all add: Hex_def alice_def bob_def)
  have e: "user_id (as_user bob ''user'' event1) \<noteq> [] \<and>
      ObjectIDFromHex (param_id (as_user bob ''user'' event1)) = Some event1 \<and>
      role (as_user bob ''user'' event1) \<noteq> ''admin''"
    using ids event1_hex by (simp add: as_user_def)
  have e2: "store_FindOne Events (matches [(''_id'', BOid event1)]) sample_world
       = (Some sample_event_doc, sample_world\<lparr>calls := [(FindOne, Events)]\<rparr>) \<and>
     decode_Event sample_event_doc = Some sample_event \<and>
     Hex (ev_UserID sample_event) \<noteq> user_id (as_user bob ''user'' event1)"
    using ids find_sample_event decode_sample_event by (simp add: as_user_def sample_event_def)
  have h: "user_id (as_user bob ''user'' hub1) \<noteq> [] \<and>
      ObjectIDFromHex (param_id (as_user bob ''user'' hub1)) = Some hub1 \<and>
      role (as_user bob ''user'' hub1) \<noteq> ''admin''"
    using ids hub1_hex by (simp add: as_user_def)
  have h2: "store_FindOne Hubs (matches [(''_id'', BOid hub1)]) sample_world
       = (Some sample_hub_doc, sample_world\<lparr>calls := [(FindOne, Hubs)]\<rparr>) \<and>
     decode_Hub sample_hub_doc = Some sample_hub \<and>
     Hex (hub_UserID sample_hub) \<noteq> user_id (as_user bob ''user'' hub1)"
    using ids find_sample_hub decode_sample_hub by (simp add: as_user_def sample_hub_def)
  have a: "role (as_user bob ''admin'' event1) = ''admin''"
    by (simp add: as_user_def)
  from ownership_enforced[where req = "as_user bob ''user'' event1" and oid = event1
         and w = sample_world and d = sample_event_doc and ev = sample_event
         and ?w1.0 = "sample_world\<lparr>calls := [(FindOne, Events)]\<rparr>"
         and e = sample_env and payload = "Inl ''bad form''" and files = "[OpenFails]"] e e2
  have r1: "fst (UpdateEvent sample_env (as_user bob ''user'' event1) (Inl ''bad form'') [OpenFails] sample_world)
              = error_response 403 ''Access denied''
      \<and> fst (DeleteEvent sample_env (as_user bob ''user'' event1) sample_world)
              = Responded (error_response 403 ''access denied'')"
    by simp
  from ownership_enforced[where req = "as_user bob ''user'' hub1" and oid = hub1
         and w = sample_world and d = sample_hub_doc and hub = sample_hub
         and ?w1.0 = "sample_world\<lparr>calls := [(FindOne, Hubs)]\<rparr>"
         and e = sample_env and hub_payload = "Inl ''bad form''" and files = "[OpenFails]"] h h2
  have r2: "fst (UpdateHub sample_env (as_user bob ''user'' hub1) (Inl ''bad form'') [OpenFails] sample_world)
              = error_response 403 ''Access denied''
      \<and> fst (DeleteHub sample_env (as_user bob ''user'' hub1) sample_world)
              = Responded (error_response 403 ''access denied'')"
    by simp
  from ownership_enforced[where req = "as_user bob ''admin'' event1" and e = sample_env
         and payload = "Inr (no_event_input\<lparr>ei_Title := ''New''\<rparr>)" and files = "[]"
         and w = sample_world] a
  have r3: "status (fst (UpdateEvent sample_env (as_user bob ''admin'' event1)
                (Inr (no_event_input\<lparr>ei_Title := ''New''\<rparr>)) [] sample_world)) \<noteq> 403"
    by simp
  from r1 r2 r3 show ?thesis by simp
qed

section \<open>Updates with nothing to update\<close>

lemma contribution_update_default:
  "contribution_fields_default input \<Longrightarrow> contribution_update t input = [(''updated_at'', BTime t)]"
  by (simp add: contribution_fields_default_def contribution_update_def Let_def)

lemma event_update_default:
  "event_fields_default input \<Longrightarrow> event_update t input = [(''updated_at'', BTime t)]"
  by (simp add: event_fields_default_def event_update_def Let_def)

lemma stage_deadline_default:
  "event_fields_default input \<Longrightarrow> stage_deadline e input update = Inr update"
  by (auto simp: event_fields_default_def stage_deadline_def)

text \<open>
  C2, as the code has it. A payload whose updatable fields are all absent or default is
  rejected with status 400 before any write, and no collection changes.
  \<open>UpdateContribution\<close> answers "no fields to update" with no call to the store.
  \<open>UpdateEvent\<close> answers the same to a permitted caller, after the one read of the existing
  Event that the ownership check needs. \<open>UpdateHub\<close> rejects it after the same one read,
  with no other call to the store.
\<close>

theorem empty_update_rejected:
  "(contribution_fields_default cinput \<and> ObjectIDFromHex (param_id req) = Some oid \<longrightarrow>
      UpdateContribution e req (Inr cinput) w = (error_response 400 ''no fields to update'', w))
   \<and>
   (event_fields_default einput \<and> user_id req \<noteq> [] \<and>
    ObjectIDFromHex (param_id req) = Some oid \<and>
    store_FindOne Events (matches [(''_id'', BOid oid)]) w = (Some d, w1) \<and>
    decode_Event d = Some ev \<and> (role req = ''admin'' \<or> Hex (ev_UserID ev) = user_id req) \<longrightarrow>
      UpdateEvent e req (Inr einput) [] w = (error_response 400 ''no fields to update'', w1) \<and>
      db w1 = db w \<and> calls w1 = calls w @ [(FindOne, Events)])
   \<and>
   (hub_fields_default hinput \<and> user_id req \<noteq> [] \<and>
    ObjectIDFromHex (param_id req) = Some oid \<and>
    store_FindOne Hubs (matches [(''_id'', BOid oid)]) w = (Some d, w1) \<and>
    decode_Hub d = Some hub \<and> (role req = ''admin'' \<or> Hex (hub_UserID hub) = user_id req) \<longrightarrow>
      status (fst (UpdateHub e req (Inr hinput) [] w)) = 400 \<and>
      snd (UpdateHub e req (Inr hinput) [] w) = w1 \<and>
      db w1 = db w \<and> calls w1 = calls w @ [(FindOne, Hubs)])"
proof (intro conjI impI)
  assume "contribution_fields_default cinput \<and> ObjectIDFromHex (param_id req) = Some oid"
  then show "UpdateContribution e req (Inr cinput) w = (error_response 400 ''no fields to update'', w)"
    by (simp add: UpdateContribution_def contribution_update_default)
next
  assume a: "event_fields_default einput \<and> user_id req \<noteq> [] \<and>
    ObjectIDFromHex (param_id req) = Some oid \<and>
    store_FindOne Events (matches [(''_id'', BOid oid)]) w = (Some d, w1) \<and>
    decode_Event d = Some ev \<and> (role req = ''admin'' \<or> Hex (ev_UserID ev) = user_id req)"
  then have im: "ei_Images einput = None" by (simp add: event_fields_default_def)
  from a im show "UpdateEvent e req (Inr einput) [] w = (error_response 400 ''no fields to update'', w1)"
    by (auto simp: UpdateEvent_def event_update_default stage_deadline_default)
  from a show "db w1 = db w" by (auto dest: FindOne_frame)
  from a show "calls w1 = calls w @ [(FindOne, Events)]" by (auto dest: FindOne_frame)
next
  assume a: "hub_fields_default hinput \<and> user_id req \<noteq> [] \<and>
    ObjectIDFromHex (param_id req) = Some oid \<and>
    store_FindOne Hubs (matches [(''_id'', BOid oid)]) w = (Some d, w1) \<and>
    decode_Hub d = Some hub \<and> (role req = ''admin'' \<or> Hex (hub_UserID hub) = user_id req)"
  then have t: "hi_Title hinput = []" by (simp add: hub_fields_default_def)
  from a t show "status (fst (UpdateHub e req (Inr hinput) [] w)) = 400"
    by (auto simp: UpdateHub_def)
  from a t show "snd (UpdateHub e req (Inr hinput) [] w) = w1"
    by (auto simp: UpdateHub_def)
  from a show "db w1 = db w" by (auto dest: FindOne_frame)
  from a show "calls w1 = calls w @ [(FindOne, Hubs)]" by (auto dest: FindOne_frame)
qed

theorem empty_update_rejected_witness:
  "UpdateContribution sample_env (as_user alice ''user'' contribution1) (Inr no_contribution)
       sample_world = (error_response 400 ''no fields to update'', sample_world)
   \<and> UpdateEvent sample_env (as_user alice ''user'' event1) (Inr no_event_input) [] sample_world
       = (error_response 400 ''no fields to update'', sample_world\<lparr>calls := [(FindOne, Events)]\<rparr>)
   \<and> status (fst (UpdateHub sample_env (as_user alice ''user'' hub1) (Inr no_hub_input) []
                sample_world)) = 400
   \<and> snd (UpdateHub sample_env (as_user alice ''user'' hub1) (Inr no_hub_input) [] sample_world)
       = sample_world\<lparr>calls := [(FindOne, Hubs)]\<rparr>"
proof -
  have c: "contribution_fields_default no_contribution \<and>
      ObjectIDFromHex (param_id (as_user alice ''user'' contribution1)) = Some contribution1"
    by (simp add: contribution_fields_default_def no_contribution_def as_user_def
        ObjectIDFromHex_def contribution1_def is_hex_def lower_hex_def)
  have ne: "alice \<noteq> []" by (simp add: alice_def)
  have ev: "event_fields_default no_event_input \<and> user_id (as_user alice ''user'' event1) \<noteq> [] \<and>
      ObjectIDFromHex (param_id (as_user alice ''user'' event1)) = Some event1 \<and>
      store_FindOne Events (matches [(''_id'', BOid event1)]) sample_world
        = (Some sample_event_doc, sample_world\<lparr>calls := [(FindOne, Events)]\<rparr>) \<and>
      decode_Event sample_event_doc = Some sample_event \<and>
      (role (as_user alice ''user'' event1) = ''admin'' \<or>
       Hex (ev_UserID sample_event) = user_id (as_user alice ''user'' event1))"
    using ne event1_hex find_sample_event decode_sample_event
    by (simp add: event_fields_default_def no_event_input_def as_user_def sample_event_def Hex_def)
  have hb: "hub_fields_default no_hub_input \<and> user_id (as_user alice ''user'' hub1) \<noteq> [] \<and>
      ObjectIDFromHex (param_id (as_user alice ''user'' hub1)) = Some hub1 \<and>
      store_FindOne Hubs (matches [(''_id'', BOid hub1)]) sample_world
        = (Some sample_hub_doc, sample_world\<lparr>calls := [(FindOne, Hubs)]\<rparr>) \<and>
      decode_Hub sample_hub_doc = Some sample_hub \<and>
      (role (as_user alice ''user'' hub1) = ''admin'' \<or>
       Hex (hub_UserID sample_hub) = user_id (as_user alice ''user'' hub1))"
    using ne hub1_hex find_sample_hub decode_sample_hub
    by (simp add: hub_fields_default_def no_hub_input_def as_user_def sample_hub_def Hex_def)
  from empty_update_rejected[where cinput = no_contribution
         and req = "as_user alice ''user'' contribution1" and oid = contribution1
         and e = sample_env and w = sample_world] c
  have r1: "UpdateContribution sample_env (as_user alice ''user'' contribution1) (Inr no_contribution)
       sample_world = (error_response 400 ''no fields to update'', sample_world)"
    by simp
  from empty_update_rejected[where einput = no_event_input
         and req = "as_user alice ''user'' event1" and oid = event1 and d = sample_event_doc
         and ev = sample_event and ?w1.0 = "sample_world\<lparr>calls := [(FindOne, Events)]\<rparr>"
         and e = sample_env and w = sample_world] ev
  have r2: "UpdateEvent sample_env (as_user alice ''user'' event1) (Inr no_event_input) [] sample_world
       = (error_response 400 ''no fields to update'', sample_world\<lparr>calls := [(FindOne, Events)]\<rparr>)"
    by simp
  from empty_update_rejected[where hinput = no_hub_input
         and req = "as_user alice ''user'' hub1" and oid = hub1 and d = sample_hub_doc
         and hub = sample_hub and ?w1.0 = "sample_world\<lparr>calls := [(FindOne, Hubs)]\<rparr>"
         and e = sample_env and w = sample_world] hb
  have r3: "status (fst (UpdateHub sample_env (as_user alice ''user'' hub1) (Inr no_hub_input) []
                sample_world)) = 400
   \<and> snd (UpdateHub sample_env (as_user alice ''user'' hub1) (Inr no_hub_input) [] sample_world)
       = sample_world\<lparr>calls := [(FindOne, Hubs)]\<rparr>"
    by simp
  from r1 r2 r3 show ?thesis by simp
qed

text \<open>
  C2 as stated fails: the owner's update of an Event with every field absent is rejected
  only after a call to the store, the read of the existing Event.
\<close>

theorem empty_update_counterexample:
  "calls sample_world = []
   \<and> calls (snd (UpdateEvent sample_env (as_user alice ''user'' event1) (Inr no_event_input) []
              sample_world)) = [(FindOne, Events)]"
  by code_simp

section \<open>Images on update\<close>

lemma keys_stage [simp]:
  "k' \<in> fst ` set (stage b k v u) \<longleftrightarrow> (b \<and> k' = k) \<or> k' \<in> fst ` set u"
  by (simp add: stage_def dom_update)

lemma update_fresh: "k \<notin> fst ` set al \<Longrightarrow> AList.update k v al = al @ [(k, v)]"
  by (induction al) auto

lemma apply_set_other:
  "k \<notin> fst ` set upd \<Longrightarrow> map_of (apply_set upd d) k = map_of d k"
proof (induction upd arbitrary: d)
  case Nil then show ?case by (simp add: apply_set_def)
next
  case (Cons kv upd)
  obtain k' v' where kv: "kv = (k', v')" by (cases kv)
  have "apply_set (kv # upd) d = apply_set upd (AList.update k' v' d)"
    by (simp add: apply_set_def kv)
  moreover from Cons.prems kv have "k \<noteq> k'" "k \<notin> fst ` set upd" by auto
  ultimately show ?case using Cons.IH[of "AList.update k' v' d"]
    by (simp add: update_conv')
qed

lemma apply_set_last:
  "map_of (apply_set (upd @ [(k, v)]) d) k = Some v"
  by (simp add: apply_set_def update_conv')

lemma apply_set_staged:
  "k \<notin> fst ` set u \<Longrightarrow>
   map_of (apply_set (stage b k v u) d) k = (if b then Some v else map_of d k)"
  by (simp add: stage_def update_fresh apply_set_last apply_set_other)

lemma matches_id_apply_set:
  "''_id'' \<notin> fst ` set upd \<Longrightarrow>
   matches [(''_id'', x)] (apply_set upd d) = matches [(''_id'', x)] d"
  by (simp add: matches_def apply_set_other)

lemma find_update_first:
  "find flt ds = Some d \<Longrightarrow> flt (apply_set upd d) \<Longrightarrow>
   find flt (update_first flt upd ds) = Some (apply_set upd d)"
  by (induction ds) (auto split: if_splits)

lemma keys_update [simp]:
  "k' \<in> fst ` set (AList.update k v al) \<longleftrightarrow> k' = k \<or> k' \<in> fst ` set al"
  by (simp add: dom_update)

lemma keys_event_update:
  "k \<in> fst ` set (event_update t input) \<Longrightarrow>
   k \<in> {''updated_at'', ''title'', ''description'', ''location'', ''target_amount'', ''status''}"
  by (auto simp: event_update_def Let_def)

lemma keys_stage_deadline:
  assumes "stage_deadline e input u = Inr u'" "k \<in> fst ` set u'"
  shows "k = ''deadline'' \<or> k \<in> fst ` set u"
proof -
  from assms(1) have "u' = u \<or> (\<exists>t. u' = AList.update ''deadline'' (BTime t) u)"
    by (auto simp: stage_deadline_def split: option.splits if_splits)
  then show ?thesis
  proof
    assume "u' = u" with assms(2) show ?thesis by simp
  next
    assume "\<exists>t. u' = AList.update ''deadline'' (BTime t) u"
    then obtain t where "u' = AList.update ''deadline'' (BTime t) u" ..
    with assms(2) show ?thesis by simp
  qed
qed

lemma keys_hub_update:
  "k \<in> fst ` set (hub_update t input) \<Longrightarrow>
   k \<in> {''updated_at'', ''title'', ''description'', ''location_name'', ''rating'', ''coordinates''}"
  by (auto simp: hub_update_def Let_def)

lemma UpdateOne_reliable:
  assumes "reliable w" "store_UpdateOne c flt upd w = (r, w')"
  shows "reliable w' \<and>
     (if list_ex flt (db w c)
      then r = Some 1 \<and> db w' = (db w)(c := update_first flt upd (db w c))
      else r = Some 0 \<and> db w' = db w)"
proof -
  obtain b w1 where c: "call UpdateOne c w = (b, w1)" by (cases "call UpdateOne c w")
  with assms(1) have b: "\<not> b" "reliable w1" "db w1 = db w"
    by (auto dest: call_reliable call_frame)
  with assms(2) c show ?thesis
    by (auto simp: store_UpdateOne_def reliable_def split: if_splits)
qed

lemma stored_after_UpdateOne:
  assumes r: "reliable w" and s: "stored w c i = Some d"
      and k: "''_id'' \<notin> fst ` set upd"
      and u: "store_UpdateOne c (matches [(''_id'', BOid i)]) upd w = (r', w')"
  shows "r' = Some 1 \<and> reliable w' \<and> stored w' c i = Some (apply_set upd d)"
proof -
  from s have d: "find (matches [(''_id'', BOid i)]) (db w c) = Some d"
    by (simp add: stored_def)
  then have m: "matches [(''_id'', BOid i)] d" and ex: "list_ex (matches [(''_id'', BOid i)]) (db w c)"
    by (auto simp: find_Some_iff list_ex_iff)
  from UpdateOne_reliable[OF r u] ex
  have w': "r' = Some 1" "reliable w'"
    "db w' = (db w)(c := update_first (matches [(''_id'', BOid i)]) upd (db w c))"
    by simp_all
  have "find (matches [(''_id'', BOid i)])
       (update_first (matches [(''_id'', BOid i)]) upd (db w c)) = Some (apply_set upd d)"
    using d m k by (simp add: find_update_first matches_id_apply_set)
  with w' show ?thesis by (simp add: stored_def)
qed

lemma singleton_keys:
  "length u = 1 \<Longrightarrow> map_of u a \<noteq> None \<Longrightarrow> map_of u b \<noteq> None \<Longrightarrow> a = b"
  by (cases u) (auto split: if_splits)

lemma map_of_rev_distinct:
  "distinct (map fst xs) \<Longrightarrow> map_of (rev xs) = map_of xs"
proof (induction xs)
  case Nil then show ?case by simp
next
  case (Cons x xs)
  obtain k v where x: "x = (k, v)" by (cases x)
  from Cons.prems x have nk: "map_of xs k = None"
    by (simp add: map_of_eq_None_iff)
  from Cons x have "map_of (rev (x # xs)) = [k \<mapsto> v] ++ map_of xs" by simp
  also have "\<dots> = (map_of xs)(k \<mapsto> v)"
    using nk by (auto simp: map_add_def fun_eq_iff split: option.splits)
  finally show ?case using x by simp
qed

lemma map_of_apply_set_rev:
  "map_of (apply_set upd d) k =
     (case map_of (rev upd) k of None \<Rightarrow> map_of d k | Some v \<Rightarrow> Some v)"
proof (induction upd arbitrary: d)
  case Nil then show ?case by (simp add: apply_set_def)
next
  case (Cons kv upd)
  obtain k' v' where kv: "kv = (k', v')" by (cases kv)
  have "apply_set (kv # upd) d = apply_set upd (AList.update k' v' d)"
    by (simp add: apply_set_def kv)
  with Cons.IH[of "AList.update k' v' d"] kv show ?case
    by (auto simp: update_conv' map_add_def split: option.splits)
qed

lemma map_of_apply_set:
  "distinct (map fst upd) \<Longrightarrow>
   map_of (apply_set upd d) k = (case map_of upd k of None \<Rightarrow> map_of d k | Some v \<Rightarrow> Some v)"
  by (simp add: map_of_apply_set_rev map_of_rev_distinct)

lemma distinct_stage [simp]:
  "distinct (map fst u) \<Longrightarrow> distinct (map fst (stage b k v u))"
  by (simp add: stage_def distinct_update)

lemma as_strings_map: "as_strings (map BString xs) = Some xs"
  by (induction xs) auto

lemma as_slice_merge:
  "as_string_slice (Some (merge_images imgs urls)) = Some (Some (retained imgs @ urls))"
  using as_strings_map[of "retained imgs @ urls"]
  by (simp add: merge_images_def retained_def del: map_append)

lemma upload_all_uploaded:
  "upload_new_images (map Uploaded urls) acc = Inr (acc @ urls)"
  by (induction urls arbitrary: acc) auto

lemma stage_deadline_parses:
  "deadline_parses e input \<Longrightarrow>
   \<exists>u0. stage_deadline e input u = Inr u0 \<and>
        (u0 = u \<or> (\<exists>t. u0 = AList.update ''deadline'' (BTime t) u))"
  by (auto simp: deadline_parses_def stage_deadline_def split: option.splits)

lemma decode_Event_fields:
  "decode_Event d = Some ev \<Longrightarrow>
   as_oid (map_of d ''_id'') = Some (ev_ID ev) \<and>
   as_oid (map_of d ''user_id'') = Some (ev_UserID ev) \<and>
   as_string (map_of d ''title'') = Some (ev_Title ev) \<and>
   as_string (map_of d ''description'') = Some (ev_Description ev) \<and>
   as_string (map_of d ''location'') = Some (ev_Location ev) \<and>
   as_float (map_of d ''target_amount'') = Some (ev_TargetAmount ev) \<and>
   as_time_ptr (map_of d ''deadline'') = Some (ev_Deadline ev) \<and>
   as_string (map_of d ''status'') = Some (ev_Status ev) \<and>
   as_string_slice (map_of d ''images'') = Some (ev_Images ev) \<and>
   as_time (map_of d ''created_at'') = Some (ev_CreatedAt ev) \<and>
   as_time (map_of d ''updated_at'') = Some (ev_UpdatedAt ev)"
  by (auto simp: decode_Event_def bind_eq_Some_conv)

lemma distinct_event_update: "distinct (map fst (event_update t input))"
  by (simp add: event_update_def Let_def)

lemma map_of_event_update:
  "map_of (event_update t input) k =
     (if k = ''status'' \<and> ei_Status input \<noteq> [] then Some (BString (ei_Status input))
      else if k = ''target_amount'' \<and> gt_zero (ei_TargetAmount input)
        then Some (BDouble (ei_TargetAmount input))
      else if k = ''location'' \<and> ei_Location input \<noteq> [] then Some (BString (ei_Location input))
      else if k = ''description'' \<and> ei_Description input \<noteq> []
        then Some (BString (ei_Description input))
      else if k = ''title'' \<and> ei_Title input \<noteq> [] then Some (BString (ei_Title input))
      else if k = ''updated_at'' then Some (BTime t) else None)"
  by (simp add: event_update_def Let_def map_of_stage)

lemma decode_Event_after_update:
  assumes d: "decode_Event d = Some ev"
      and u0: "u0 = event_update t input \<or>
               (\<exists>t'. u0 = AList.update ''deadline'' (BTime t') (event_update t input))"
  shows "\<exists>updated.
      decode_Event (apply_set (stage b ''images'' (merge_images imgs urls) u0) d) = Some updated \<and>
      ev_Images updated = (if b then Some (retained imgs @ urls) else ev_Images ev)"
proof -
  let ?eu = "event_update t input"
  define upd where "upd = stage b ''images'' (merge_images imgs urls) u0"
  let ?d' = "apply_set upd d"
  have dist: "distinct (map fst upd)"
    unfolding upd_def using u0 distinct_event_update[of t input] by (auto simp: distinct_update)
  have m: "map_of ?d' k = (case map_of upd k of None \<Rightarrow> map_of d k | Some v \<Rightarrow> Some v)" for k
    using dist by (rule map_of_apply_set)
  have mu: "map_of upd k =
      (if b \<and> k = ''images'' then Some (merge_images imgs urls) else map_of ?eu k)"
    if "k \<noteq> ''deadline''" for k
    unfolding upd_def using u0 that by (auto simp: map_of_stage update_conv')
  have md: "map_of upd ''deadline'' = None \<or> (\<exists>t'. map_of upd ''deadline'' = Some (BTime t'))"
    unfolding upd_def using u0 by (auto simp: map_of_stage update_conv' map_of_event_update)
  note f = decode_Event_fields[OF d]
  have 1: "as_oid (map_of ?d' ''_id'') = Some (ev_ID ev)"
    using f by (simp add: m mu map_of_event_update)
  have 2: "as_oid (map_of ?d' ''user_id'') = Some (ev_UserID ev)"
    using f by (simp add: m mu map_of_event_update)
  have 3: "\<exists>x. as_string (map_of ?d' ''title'') = Some x"
    using f by (simp add: m mu map_of_event_update)
  have 4: "\<exists>x. as_string (map_of ?d' ''description'') = Some x"
    using f by (simp add: m mu map_of_event_update)
  have 5: "\<exists>x. as_string (map_of ?d' ''location'') = Some x"
    using f by (simp add: m mu map_of_event_update)
  have 6: "\<exists>x. as_float (map_of ?d' ''target_amount'') = Some x"
    using f by (simp add: m mu map_of_event_update)
  have 7: "\<exists>x. as_time_ptr (map_of ?d' ''deadline'') = Some x"
    using f md by (auto simp: m)
  have 8: "\<exists>x. as_string (map_of ?d' ''status'') = Some x"
    using f by (simp add: m mu map_of_event_update)
  have 9: "as_string_slice (map_of ?d' ''images'')
      = Some (if b then Some (retained imgs @ urls) else ev_Images ev)"
    using f by (simp add: m mu map_of_event_update as_slice_merge)
  have 10: "as_time (map_of ?d' ''created_at'') = Some (ev_CreatedAt ev)"
    using f by (simp add: m mu map_of_event_update)
  have 11: "as_time (map_of ?d' ''updated_at'') = Some t"
    using f by (simp add: m mu map_of_event_update)
  from 3 4 5 6 7 8 obtain x3 x4 x5 x6 x7 x8 where
    x: "as_string (map_of ?d' ''title'') = Some x3"
       "as_string (map_of ?d' ''description'') = Some x4"
       "as_string (map_of ?d' ''location'') = Some x5"
       "as_float (map_of ?d' ''target_amount'') = Some x6"
       "as_time_ptr (map_of ?d' ''deadline'') = Some x7"
       "as_string (map_of ?d' ''status'') = Some x8"
    by blast
  have "decode_Event ?d' = Some \<lparr>ev_ID = ev_ID ev, ev_UserID = ev_UserID ev, ev_Title = x3,
      ev_Description = x4, ev_Location = x5, ev_TargetAmount = x6, ev_Deadline = x7,
      ev_Status = x8, ev_Images = (if b then Some (retained imgs @ urls) else ev_Images ev),
      ev_CreatedAt = ev_CreatedAt ev, ev_UpdatedAt = t\<rparr>"
    unfolding decode_Event_def by (simp only: 1 2 x 9 10 11 Option.bind.simps)
  then show ?thesis unfolding upd_def by simp
qed

lemma decode_Hub_fields:
  "decode_Hub d = Some hub \<Longrightarrow>
   as_oid (map_of d ''_id'') = Some (hub_ID hub) \<and>
   as_oid (map_of d ''user_id'') = Some (hub_UserID hub) \<and>
   as_string (map_of d ''title'') = Some (hub_Title hub) \<and>
   as_string (map_of d ''description'') = Some (hub_Description hub) \<and>
   as_Coordinates (map_of d ''coordinates'') = Some (hub_Coordinates hub) \<and>
   as_string (map_of d ''location'') = Some (hub_LocationName hub) \<and>
   as_float (map_of d ''target_amount'') = Some (hub_Rating hub) \<and>
   as_string_slice (map_of d ''images'') = Some (hub_Images hub) \<and>
   as_time (map_of d ''created_at'') = Some (hub_CreatedAt hub) \<and>
   as_time (map_of d ''updated_at'') = Some (hub_UpdatedAt hub)"
  by (auto simp: decode_Hub_def bind_eq_Some_conv)

lemma distinct_hub_update: "distinct (map fst (hub_update t input))"
  by (simp add: hub_update_def Let_def)

lemma map_of_hub_update:
  "map_of (hub_update t input) k =
     (if k = ''coordinates'' \<and> 0 < length (coordinates_update input)
        then Some (BDoc (coordinates_update input))
      else if k = ''rating'' \<and> gt_zero (hi_Rating input) then Some (BDouble (hi_Rating input))
      else if k = ''location_name'' \<and> hi_LocationName input \<noteq> []
        then Some (BString (hi_LocationName input))
      else if k = ''description'' \<and> hi_Description input \<noteq> []
        then Some (BString (hi_Description input))
      else if k = ''title'' \<and> hi_Title input \<noteq> [] then Some (BString (hi_Title input))
      else if k = ''updated_at'' then Some (BTime t) else None)"
  by (simp add: hub_update_def Let_def map_of_stage)

lemma coordinates_update_decodes:
  "\<exists>c. as_Coordinates (Some (BDoc (coordinates_update input))) = Some c"
  by (cases "hi_Lat input"; cases "hi_Lng input")
     (simp_all add: coordinates_update_def update_conv')

lemma decode_Hub_after_update:
  assumes d: "decode_Hub d = Some hub"
  shows "\<exists>updated.
      decode_Hub (apply_set (stage b ''images'' (merge_images imgs urls) (hub_update t input)) d)
        = Some updated \<and>
      hub_Images updated = (if b then Some (retained imgs @ urls) else hub_Images hub)"
proof -
  let ?hu = "hub_update t input"
  define upd where "upd = stage b ''images'' (merge_images imgs urls) ?hu"
  let ?d' = "apply_set upd d"
  have dist: "distinct (map fst upd)"
    unfolding upd_def using distinct_hub_update[of t input] by simp
  have m: "map_of ?d' k = (case map_of upd k of None \<Rightarrow> map_of d k | Some v \<Rightarrow> Some v)" for k
    using dist by (rule map_of_apply_set)
  have mu: "map_of upd k =
      (if b \<and> k = ''images'' then Some (merge_images imgs urls) else map_of ?hu k)" for k
    unfolding upd_def by (auto simp: map_of_stage)
  note f = decode_Hub_fields[OF d]
  have 1: "as_oid (map_of ?d' ''_id'') = Some (hub_ID hub)"
    using f by (simp add: m mu map_of_hub_update)
  have 2: "as_oid (map_of ?d' ''user_id'') = Some (hub_UserID hub)"
    using f by (simp add: m mu map_of_hub_update)
  have 3: "\<exists>x. as_string (map_of ?d' ''title'') = Some x"
    using f by (simp add: m mu map_of_hub_update)
  have 4: "\<exists>x. as_string (map_of ?d' ''description'') = Some x"
    using f by (simp add: m mu map_of_hub_update)
  have 5: "\<exists>x. as_Coordinates (map_of ?d' ''coordinates'') = Some x"
    using f coordinates_update_decodes[of input] by (simp add: m mu map_of_hub_update)
  have 6: "as_string (map_of ?d' ''location'') = Some (hub_LocationName hub)"
    using f by (simp add: m mu map_of_hub_update)
  have 7: "as_float (map_of ?d' ''target_amount'') = Some (hub_Rating hub)"
    using f by (simp add: m mu map_of_hub_update)
  have 8: "as_string_slice (map_of ?d' ''images'')
      = Some (if b then Some (retained imgs @ urls) else hub_Images hub)"
    using f by (simp add: m mu map_of_hub_update as_slice_merge)
  have 9: "as_time (map_of ?d' ''created_at'') = Some (hub_CreatedAt hub)"
    using f by (simp add: m mu map_of_hub_update)
  have 10: "as_time (map_of ?d' ''updated_at'') = Some t"
    using f by (simp add: m mu map_of_hub_update)
  from 3 4 5 obtain x3 x4 x5 where
    x: "as_string (map_of ?d' ''title'') = Some x3"
       "as_string (map_of ?d' ''description'') = Some x4"
       "as_Coordinates (map_of ?d' ''coordinates'') = Some x5"
    by blast
  have "decode_Hub ?d' = Some \<lparr>hub_ID = hub_ID hub, hub_UserID = hub_UserID hub, hub_Title = x3,
      hub_Description = x4, hub_Coordinates = x5, hub_LocationName = hub_LocationName hub,
      hub_Rating = hub_Rating hub,
      hub_Images = (if b then Some (retained imgs @ urls) else hub_Images hub),
      hub_CreatedAt = hub_CreatedAt hub, hub_UpdatedAt = t\<rparr>"
    unfolding decode_Hub_def by (simp only: 1 2 x 6 7 8 9 10 Option.bind.simps)
  then show ?thesis unfolding upd_def by simp
qed

lemma FindOne_stored:
  assumes "reliable w" "stored w c i = Some d"
  shows "\<exists>w1. store_FindOne c (matches [(''_id'', BOid i)]) w = (Some d, w1) \<and>
              reliable w1 \<and> db w1 = db w"
proof -
  obtain r w1 where f: "store_FindOne c (matches [(''_id'', BOid i)]) w = (r, w1)"
    by (cases "store_FindOne c (matches [(''_id'', BOid i)]) w")
  from FindOne_reliable[OF assms(1) f] FindOne_frame[OF f] assms(2)
  have "r = Some d" "reliable w1" "db w1 = db w" by (simp_all add: stored_def)
  with f show ?thesis by simp
qed

lemma UpdateEvent_writes_images:
  assumes uid: "user_id req \<noteq> []" and id: "ObjectIDFromHex (param_id req) = Some oid"
      and r: "reliable w" and s: "stored w Events oid = Some d"
      and dec: "decode_Event d = Some ev"
      and perm: "role req = ''admin'' \<or> Hex (ev_UserID ev) = user_id req"
      and dl: "deadline_parses e input"
      and b: "ei_Images input \<noteq> None \<or> urls \<noteq> []"
  shows "(\<exists>updated. fst (UpdateEvent e req (Inr input) (map Uploaded urls) w)
            = JSON 200 (UpdatedEvent ''Event updated successfully'' updated) \<and>
          ev_Images updated = Some (retained (ei_Images input) @ urls)) \<and>
         Option.bind (stored (snd (UpdateEvent e req (Inr input) (map Uploaded urls) w)) Events oid)
            (\<lambda>d'. map_of d' ''images'')
           = Some (BArray (map BString (retained (ei_Images input) @ urls)))"
proof -
  let ?flt = "matches [(''_id'', BOid oid)]"
  let ?eu = "event_update (now e) input"
  from FindOne_stored[OF r s] obtain w1 where
    f1: "store_FindOne Events ?flt w = (Some d, w1)" "reliable w1" "db w1 = db w" by blast
  from stage_deadline_parses[OF dl, of ?eu] obtain u0 where
    sd: "stage_deadline e input ?eu = Inr u0"
    and u0: "u0 = ?eu \<or> (\<exists>t. u0 = AList.update ''deadline'' (BTime t) ?eu)" by blast
  define upd where "upd = stage (ei_Images input \<noteq> None \<or> urls \<noteq> []) ''images''
      (merge_images (ei_Images input) urls) u0"
  have k0: "''_id'' \<notin> fst ` set u0" "''images'' \<notin> fst ` set u0"
    using keys_stage_deadline[OF sd] keys_event_update[of _ "now e" input] by fastforce+
  then have k: "''_id'' \<notin> fst ` set upd" unfolding upd_def by simp
  have im: "map_of upd ''images'' = Some (merge_images (ei_Images input) urls)"
    unfolding upd_def using b by (simp add: map_of_stage)
  have ua: "map_of upd ''updated_at'' = Some (BTime (now e))"
    unfolding upd_def using u0 by (auto simp: map_of_stage update_conv' map_of_event_update)
  from im ua have len: "length upd \<noteq> 1"
    using singleton_keys[of upd "''images''" "''updated_at''"] by auto
  obtain r2 w2 where u: "store_UpdateOne Events ?flt upd w1 = (r2, w2)"
    by (cases "store_UpdateOne Events ?flt upd w1")
  from s f1(3) have s1: "stored w1 Events oid = Some d" by (simp add: stored_def)
  from stored_after_UpdateOne[OF f1(2) s1 k u]
  have w2: "r2 = Some 1" "reliable w2" "stored w2 Events oid = Some (apply_set upd d)"
    by simp_all
  from u w2(1) have u': "store_UpdateOne Events ?flt upd w1 = (Some 1, w2)" by simp
  from FindOne_stored[OF w2(2,3)] obtain w3 where
    f3: "store_FindOne Events ?flt w2 = (Some (apply_set upd d), w3)" "db w3 = db w2" by blast
  from decode_Event_after_update[OF dec u0, of "ei_Images input \<noteq> None \<or> urls \<noteq> []"
        "ei_Images input" urls] b
  obtain updated where
    up: "decode_Event (apply_set upd d) = Some updated"
        "ev_Images updated = Some (retained (ei_Images input) @ urls)"
    unfolding upd_def by auto
  have cond: "(role req \<noteq> ''admin'' \<and> Hex (ev_UserID ev) \<noteq> user_id req) = False"
    using perm by blast
  have res: "UpdateEvent e req (Inr input) (map Uploaded urls) w
      = (JSON 200 (UpdatedEvent ''Event updated successfully'' updated), w3)"
    unfolding UpdateEvent_def
    by (simp only: uid id f1(1) dec cond sd len u' f3(1) up(1) upload_all_uploaded
          upd_def[symmetric] Let_def if_False option.case prod.case sum.case
          Option.bind.simps append_Nil)
  from f3(2) w2(3) have "stored w3 Events oid = Some (apply_set upd d)"
    by (simp add: stored_def)
  moreover have "map_of (apply_set upd d) ''images'' = Some (merge_images (ei_Images input) urls)"
    unfolding upd_def using k0(2) b by (simp add: apply_set_staged)
  ultimately have B: "Option.bind
        (stored (snd (UpdateEvent e req (Inr input) (map Uploaded urls) w)) Events oid)
        (\<lambda>d'. map_of d' ''images'')
      = Some (BArray (map BString (retained (ei_Images input) @ urls)))"
    using res by (simp add: merge_images_def retained_def)
  have A: "\<exists>updated. fst (UpdateEvent e req (Inr input) (map Uploaded urls) w)
            = JSON 200 (UpdatedEvent ''Event updated successfully'' updated) \<and>
          ev_Images updated = Some (retained (ei_Images input) @ urls)"
    using res up(2) by (intro exI[of _ updated]) simp
  from A B show ?thesis by (rule conjI)
qed

lemma UpdateEvent_keeps_images:
  assumes uid: "user_id req \<noteq> []" and id: "ObjectIDFromHex (param_id req) = Some oid"
      and r: "reliable w" and s: "stored w Events oid = Some d"
      and dec: "decode_Event d = Some ev"
      and perm: "role req = ''admin'' \<or> Hex (ev_UserID ev) = user_id req"
      and dl: "deadline_parses e input"
      and b: "ei_Images input = None"
  shows "Option.bind (stored (snd (UpdateEvent e req (Inr input) [] w)) Events oid)
            (\<lambda>d'. map_of d' ''images'') = map_of d ''images''"
proof -
  let ?flt = "matches [(''_id'', BOid oid)]"
  let ?eu = "event_update (now e) input"
  from FindOne_stored[OF r s] obtain w1 where
    f1: "store_FindOne Events ?flt w = (Some d, w1)" "reliable w1" "db w1 = db w" by blast
  from stage_deadline_parses[OF dl, of ?eu] obtain u0 where
    sd: "stage_deadline e input ?eu = Inr u0"
    and u0: "u0 = ?eu \<or> (\<exists>t. u0 = AList.update ''deadline'' (BTime t) ?eu)" by blast
  have k0: "''_id'' \<notin> fst ` set u0" "''images'' \<notin> fst ` set u0"
    using keys_stage_deadline[OF sd] keys_event_update[of _ "now e" input] by fastforce+
  have cond: "(role req \<noteq> ''admin'' \<and> Hex (ev_UserID ev) \<noteq> user_id req) = False"
    using perm by blast
  have bc: "(ei_Images input \<noteq> None \<or> ([]::string list) \<noteq> []) = False"
    using b by simp
  have up0: "upload_new_images [] [] = Inr []" by simp
  from s f1(3) have s1: "stored w1 Events oid = Some d" by (simp add: stored_def)
  show ?thesis
  proof (cases "length u0 = 1")
    case True
    then have len: "(length u0 = 1) = True" by simp
    have "UpdateEvent e req (Inr input) [] w = (error_response 400 ''no fields to update'', w1)"
      unfolding UpdateEvent_def
      by (simp only: uid id f1(1) dec cond sd len bc up0 stage_False
            Let_def if_True if_False option.case prod.case sum.case Option.bind.simps)
    with s1 show ?thesis by simp
  next
    case False
    then have len: "(length u0 = 1) = False" by simp
    obtain r2 w2 where u: "store_UpdateOne Events ?flt u0 w1 = (r2, w2)"
      by (cases "store_UpdateOne Events ?flt u0 w1")
    from stored_after_UpdateOne[OF f1(2) s1 k0(1) u]
    have w2: "r2 = Some 1" "reliable w2" "stored w2 Events oid = Some (apply_set u0 d)"
      by simp_all
    from u w2(1) have u': "store_UpdateOne Events ?flt u0 w1 = (Some 1, w2)" by simp
    from FindOne_stored[OF w2(2,3)] obtain w3 where
      f3: "store_FindOne Events ?flt w2 = (Some (apply_set u0 d), w3)" "db w3 = db w2" by blast
    from decode_Event_after_update[OF dec u0, of False] obtain updated where
      up: "decode_Event (apply_set u0 d) = Some updated" by auto
    have "UpdateEvent e req (Inr input) [] w
        = (JSON 200 (UpdatedEvent ''Event updated successfully'' updated), w3)"
      unfolding UpdateEvent_def
      by (simp only: uid id f1(1) dec cond sd len bc up0 stage_False u' f3(1) up
            Let_def if_True if_False option.case prod.case sum.case Option.bind.simps)
    moreover from f3(2) w2(3) have "stored w3 Events oid = Some (apply_set u0 d)"
      by (simp add: stored_def)
    ultimately show ?thesis using apply_set_other[OF k0(2), of d] by simp
  qed
qed

lemma UpdateHub_writes_images:
  assumes uid: "user_id req \<noteq> []" and id: "ObjectIDFromHex (param_id req) = Some oid"
      and r: "reliable w" and s: "stored w Hubs oid = Some d"
      and dec: "decode_Hub d = Some hub"
      and perm: "role req = ''admin'' \<or> Hex (hub_UserID hub) = user_id req"
      and title: "hi_Title input \<noteq> []"
  shows "(\<exists>updated. fst (UpdateHub e req (Inr input) (map Uploaded urls) w)
            = JSON 200 (UpdatedHub ''Hub updated successfully'' updated) \<and>
          hub_Images updated =
            (if hi_Images input \<noteq> None \<or> urls \<noteq> [] then Some (retained (hi_Images input) @ urls)
             else hub_Images hub)) \<and>
         Option.bind (stored (snd (UpdateHub e req (Inr input) (map Uploaded urls) w)) Hubs oid)
            (\<lambda>d'. map_of d' ''images'')
           = (if hi_Images input \<noteq> None \<or> urls \<noteq> []
              then Some (BArray (map BString (retained (hi_Images input) @ urls)))
              else map_of d ''images'')"
proof -
  let ?flt = "matches [(''_id'', BOid oid)]"
  let ?hu = "hub_update (now e) input"
  let ?b = "hi_Images input \<noteq> None \<or> urls \<noteq> []"
  from FindOne_stored[OF r s] obtain w1 where
    f1: "store_FindOne Hubs ?flt w = (Some d, w1)" "reliable w1" "db w1 = db w" by blast
  define upd where "upd = stage ?b ''images'' (merge_images (hi_Images input) urls) ?hu"
  have k0: "''_id'' \<notin> fst ` set ?hu" "''images'' \<notin> fst ` set ?hu"
    using keys_hub_update[of _ "now e" input] by fastforce+
  then have k: "''_id'' \<notin> fst ` set upd" unfolding upd_def by simp
  have ti: "map_of upd ''title'' = Some (BString (hi_Title input))"
    unfolding upd_def using title by (simp add: map_of_stage map_of_hub_update)
  have ua: "map_of upd ''updated_at'' = Some (BTime (now e))"
    unfolding upd_def by (simp add: map_of_stage map_of_hub_update)
  from ti ua have len: "(length upd = 1) = False"
    using singleton_keys[of upd "''title''" "''updated_at''"] by auto
  have cond: "(role req \<noteq> ''admin'' \<and> Hex (hub_UserID hub) \<noteq> user_id req) = False"
    using perm by blast
  have tc: "(hi_Title input = []) = False" using title by simp
  obtain r2 w2 where u: "store_UpdateOne Hubs ?flt upd w1 = (r2, w2)"
    by (cases "store_UpdateOne Hubs ?flt upd w1")
  from s f1(3) have s1: "stored w1 Hubs oid = Some d" by (simp add: stored_def)
  from stored_after_UpdateOne[OF f1(2) s1 k u]
  have w2: "r2 = Some 1" "reliable w2" "stored w2 Hubs oid = Some (apply_set upd d)"
    by simp_all
  from u w2(1) have u': "store_UpdateOne Hubs ?flt upd w1 = (Some 1, w2)" by simp
  from FindOne_stored[OF w2(2,3)] obtain w3 where
    f3: "store_FindOne Hubs ?flt w2 = (Some (apply_set upd d), w3)" "db w3 = db w2" by blast
  from decode_Hub_after_update[OF dec, of ?b "hi_Images input" urls "now e" input]
  obtain updated where
    up: "decode_Hub (apply_set upd d) = Some updated"
        "hub_Images updated = (if ?b then Some (retained (hi_Images input) @ urls)
                               else hub_Images hub)"
    unfolding upd_def by blast
  have res: "UpdateHub e req (Inr input) (map Uploaded urls) w
      = (JSON 200 (UpdatedHub ''Hub updated successfully'' updated), w3)"
    unfolding UpdateHub_def
    by (simp only: uid id f1(1) dec cond tc len u' f3(1) up(1) upload_all_uploaded
          upd_def[symmetric] Let_def if_False option.case prod.case sum.case
          Option.bind.simps append_Nil)
  from f3(2) w2(3) have "stored w3 Hubs oid = Some (apply_set upd d)"
    by (simp add: stored_def)
  moreover have "map_of (apply_set upd d) ''images''
      = (if ?b then Some (merge_images (hi_Images input) urls) else map_of d ''images'')"
    unfolding upd_def using k0(2) by (rule apply_set_staged)
  ultimately have B: "Option.bind
        (stored (snd (UpdateHub e req (Inr input) (map Uploaded urls) w)) Hubs oid)
        (\<lambda>d'. map_of d' ''images'')
      = (if ?b then Some (BArray (map BString (retained (hi_Images input) @ urls)))
         else map_of d ''images'')"
    using res by (simp add: merge_images_def retained_def)
  have A: "\<exists>updated. fst (UpdateHub e req (Inr input) (map Uploaded urls) w)
            = JSON 200 (UpdatedHub ''Hub updated successfully'' updated) \<and>
          hub_Images updated = (if ?b then Some (retained (hi_Images input) @ urls)
                                else hub_Images hub)"
    using res up(2) by (intro exI[of _ updated]) simp
  from A B show ?thesis by (rule conjI)
qed


lemma stored_sample:
  "stored sample_world Events event1 = Some sample_event_doc"
  "stored sample_world Hubs hub1 = Some sample_hub_doc"
  by (simp_all add: stored_def sample_world_def empty_world_def matches_def
      sample_event_doc_def sample_hub_doc_def)



section \<open>Coordinates on update\<close>

text \<open>
  C1, at a Hub stored with the coordinates (1, 2): the owner's update with a title and
  the latitude 5 alone succeeds, and leaves the stored \<open>coordinates\<close> field with the
  latitude as its only sub-field; the hub read back has the longitude 0, not 2.
\<close>

theorem update_lat_only_drops_lng:
  "map_of sample_hub_doc ''coordinates''
     = Some (BDoc [(''lat'', BDouble (Fin 1)), (''lng'', BDouble (Fin 2))])
   \<and> fst (UpdateHub sample_env (as_user alice ''user'' hub1)
          (Inr (no_hub_input\<lparr>hi_Title := ''Hub'', hi_Lat := Some (Fin 5)\<rparr>)) [] sample_world)
     = JSON 200 (UpdatedHub ''Hub updated successfully''
         (sample_hub\<lparr>hub_Coordinates := \<lparr>Lat = Fin 5, Lng = Fin 0\<rparr>,
                     hub_UpdatedAt := 1700000000000\<rparr>))
   \<and> Option.bind (stored (snd (UpdateHub sample_env (as_user alice ''user'' hub1)
          (Inr (no_hub_input\<lparr>hi_Title := ''Hub'', hi_Lat := Some (Fin 5)\<rparr>)) [] sample_world))
        Hubs hub1) (\<lambda>d. map_of d ''coordinates'')
     = Some (BDoc [(''lat'', BDouble (Fin 5))])"
  by code_simp

theorem update_lat_only_drops_lng_witness:
  "Option.bind (stored (snd (UpdateHub sample_env (as_user alice ''user'' hub1)
          (Inr (no_hub_input\<lparr>hi_Title := ''Hub'', hi_Lat := Some (Fin 5)\<rparr>)) [] sample_world))
        Hubs hub1) (\<lambda>d. map_of d ''coordinates'')
     \<noteq> Some (BDoc [(''lat'', BDouble (Fin 5)), (''lng'', BDouble (Fin 2))])"
  using update_lat_only_drops_lng by simp

section \<open>Favorites\<close>

lemma InsertOne_reliable:
  "reliable w \<Longrightarrow> store_InsertOne c d w = (ok, w') \<Longrightarrow>
   reliable w' \<and>
   (if map_of d ''_id'' \<noteq> None \<and> list_ex (\<lambda>d'. map_of d' ''_id'' = map_of d ''_id'') (db w c)
    then \<not> ok \<and> db w' = db w
    else ok \<and> db w' = (db w)(c := db w c @ [d]))"
proof -
  assume r: "reliable w" and s: "store_InsertOne c d w = (ok, w')"
  obtain b w1 where c: "call InsertOne c w = (b, w1)" by (cases "call InsertOne c w")
  with r have b: "\<not> b" "reliable w1" "db w1 = db w"
    by (auto dest: call_reliable call_frame)
  with s c show ?thesis
    by (auto simp: store_InsertOne_def reliable_def split: if_splits)
qed

lemma DeleteOne_reliable:
  "reliable w \<Longrightarrow> store_DeleteOne c flt w = (r, w') \<Longrightarrow>
   reliable w' \<and>
   (if list_ex flt (db w c) then db w' = (db w)(c := delete_first flt (db w c)) else db w' = db w)"
proof -
  assume r: "reliable w" and s: "store_DeleteOne c flt w = (r, w')"
  obtain b w1 where c: "call DeleteOne c w = (b, w1)" by (cases "call DeleteOne c w")
  with r have b: "\<not> b" "reliable w1" "db w1 = db w"
    by (auto dest: call_reliable call_frame)
  with s c show ?thesis
    by (auto simp: store_DeleteOne_def reliable_def split: if_splits)
qed

lemma delete_first_unique:
  "distinct (map f xs) \<Longrightarrow> d \<in> set xs \<Longrightarrow>
   delete_first (\<lambda>x. f x = f d) xs = filter (\<lambda>x. x \<noteq> d) xs"
proof (induction xs)
  case Nil then show ?case by simp
next
  case (Cons x xs)
  show ?case
  proof (cases "f x = f d")
    case True
    with Cons.prems have xd: "x = d" by (auto simp: image_iff)
    with Cons.prems have "d \<notin> set xs" by (auto simp: image_iff)
    then have "filter (\<lambda>x. x \<noteq> d) xs = xs" by (auto simp: filter_id_conv)
    with True xd show ?thesis by simp
  next
    case False
    then have "x \<noteq> d" by auto
    with Cons False show ?thesis by auto
  qed
qed

lemma matches_id: "matches [(''_id'', v)] d \<longleftrightarrow> map_of d ''_id'' = Some v"
  by (simp add: matches_def)

lemma favorite_of_pair:
  "favorite_of u h d \<longleftrightarrow>
   (map_of d ''user_id'', map_of d ''hub_id'') = (Some (BOid u), Some (BOid h))"
  by (auto simp: favorite_of_def matches_def)

lemma decode_Favorite_id:
  "decode_Favorite d = Some fav \<Longrightarrow> has_oid d \<Longrightarrow> map_of d ''_id'' = Some (BOid (fav_ID fav))"
  by (auto simp: decode_Favorite_def has_oid_def bind_eq_Some_conv
      split: option.splits bson.splits)

lemma toggle_existing:
  assumes r: "reliable w" and wf: "favorites_wf (db w Favorites)"
      and u: "ObjectIDFromHex (user_id req) = Some userID"
      and h: "ObjectIDFromHex (param_id req) = Some hubID"
      and fv: "favorited w userID hubID"
      and t: "ToggleFavorite e req w = (resp, w')"
  shows "resp = JSON 200 (FavoriteToggled ''removed from favorites'' False) \<and>
         \<not> favorited w' userID hubID \<and> reliable w' \<and> favorites_wf (db w' Favorites)"
proof -
  let ?favs = "db w Favorites"
  from fv obtain d where d: "find (favorite_of userID hubID) ?favs = Some d"
    by (cases "find (favorite_of userID hubID) ?favs")
       (auto simp: favorited_def list_ex_iff find_None_iff)
  then have dm: "d \<in> set ?favs" "favorite_of userID hubID d"
    by (auto simp: find_Some_iff)
  with wf obtain fav where fav: "decode_Favorite d = Some fav" and ho: "has_oid d"
    by (auto simp: favorites_wf_def list_all_iff)
  then have id: "map_of d ''_id'' = Some (BOid (fav_ID fav))" by (rule decode_Favorite_id)
  obtain r1 w1 where f: "store_FindOne Favorites (favorite_of userID hubID) w = (r1, w1)"
    by (cases "store_FindOne Favorites (favorite_of userID hubID) w")
  with r d have r1: "r1 = Some d" "reliable w1" "db w1 = db w"
    by (auto dest: FindOne_reliable FindOne_frame)
  obtain r2 w2 where dl: "store_DeleteOne Favorites (matches [(''_id'', BOid (fav_ID fav))]) w1 = (r2, w2)"
    by (cases "store_DeleteOne Favorites (matches [(''_id'', BOid (fav_ID fav))]) w1")
  have ex: "list_ex (matches [(''_id'', BOid (fav_ID fav))]) ?favs"
    using dm id by (auto simp: list_ex_iff matches_id)
  have mf: "matches [(''_id'', BOid (fav_ID fav))] = (\<lambda>x. map_of x ''_id'' = map_of d ''_id'')"
    by (rule ext) (simp add: matches_id id)
  from wf dm have del: "delete_first (matches [(''_id'', BOid (fav_ID fav))]) ?favs
      = filter (\<lambda>x. x \<noteq> d) ?favs"
    unfolding mf by (intro delete_first_unique) (auto simp: favorites_wf_def)
  from DeleteOne_reliable[OF r1(2) dl] ex r1(3) del
  have w2: "reliable w2" "db w2 Favorites = filter (\<lambda>x. x \<noteq> d) ?favs"
    by auto
  from t u h f r1 fav dl have res: "resp = JSON 200 (FavoriteToggled ''removed from favorites'' False)" "w' = w2"
    by (auto simp: ToggleFavorite_def)
  have nf: "\<not> list_ex (favorite_of userID hubID) (filter (\<lambda>x. x \<noteq> d) ?favs)"
  proof
    assume "list_ex (favorite_of userID hubID) (filter (\<lambda>x. x \<noteq> d) ?favs)"
    then obtain x where x: "x \<in> set ?favs" "x \<noteq> d" "favorite_of userID hubID x"
      by (auto simp: list_ex_iff)
    with dm have "(map_of x ''user_id'', map_of x ''hub_id'') = (map_of d ''user_id'', map_of d ''hub_id'')"
      by (simp add: favorite_of_pair)
    moreover from wf have "inj_on (\<lambda>d. (map_of d ''user_id'', map_of d ''hub_id'')) (set ?favs)"
      by (simp add: favorites_wf_def distinct_map)
    ultimately have "x = d" using x(1) dm(1) by (auto dest: inj_onD)
    with x(2) show False by simp
  qed
  have wf2: "favorites_wf (filter (\<lambda>x. x \<noteq> d) ?favs)"
    using wf by (auto simp: favorites_wf_def list_all_iff distinct_map_filter)
  from res w2 nf wf2 show ?thesis by (simp add: favorited_def)
qed

lemma toggle_absent:
  assumes r: "reliable w" and wf: "favorites_wf (db w Favorites)"
      and fr: "fresh_id e w"
      and u: "ObjectIDFromHex (user_id req) = Some userID"
      and h: "ObjectIDFromHex (param_id req) = Some hubID"
      and fv: "\<not> favorited w userID hubID"
      and t: "ToggleFavorite e req w = (resp, w')"
  shows "resp = JSON 200 (FavoriteToggled ''added to favorites'' True) \<and>
         favorited w' userID hubID \<and> reliable w' \<and> favorites_wf (db w' Favorites)"
proof -
  let ?favs = "db w Favorites"
  let ?doc = "[(''_id'', BOid (NewObjectID e)), (''user_id'', BOid userID),
               (''hub_id'', BOid hubID), (''created_at'', BTime (now e))]"
  from fr have enc: "encode_Favorite \<lparr>fav_ID = NewObjectID e, fav_UserID = userID,
       fav_HubID = hubID, fav_CreatedAt = now e\<rparr> = ?doc"
    by (simp add: encode_Favorite_def fresh_id_def)
  from fv have nd: "find (favorite_of userID hubID) ?favs = None"
    by (auto simp: favorited_def list_ex_iff find_None_iff)
  obtain r1 w1 where f: "store_FindOne Favorites (favorite_of userID hubID) w = (r1, w1)"
    by (cases "store_FindOne Favorites (favorite_of userID hubID) w")
  with r nd have r1: "r1 = None" "reliable w1" "db w1 = db w"
    by (auto dest: FindOne_reliable FindOne_frame)
  obtain ok w2 where ins: "store_InsertOne Favorites ?doc w1 = (ok, w2)"
    by (cases "store_InsertOne Favorites ?doc w1")
  from fr r1(3) have nodup: "\<not> (map_of ?doc ''_id'' \<noteq> None \<and>
      list_ex (\<lambda>d'. map_of d' ''_id'' = map_of ?doc ''_id'') (db w1 Favorites))"
    by (simp add: fresh_id_def)
  from InsertOne_reliable[OF r1(2) ins] nodup r1(3)
  have w2: "ok" "reliable w2" "db w2 Favorites = ?favs @ [?doc]"
    by (auto split: if_splits)
  from t u h f r1 enc ins w2 have res: "resp = JSON 200 (FavoriteToggled ''added to favorites'' True)" "w' = w2"
    by (auto simp: ToggleFavorite_def Let_def)
  have fd: "favorite_of userID hubID ?doc"
    by (simp add: favorite_of_def matches_def)
  have dec: "decode_Favorite ?doc \<noteq> None" "has_oid ?doc"
    by (simp_all add: decode_Favorite_def has_oid_def)
  from fr have newid: "map_of ?doc ''_id'' \<notin> (\<lambda>d. map_of d ''_id'') ` set ?favs"
    by (auto simp: fresh_id_def list_ex_iff)
  from fv have newpair: "(map_of ?doc ''user_id'', map_of ?doc ''hub_id'')
      \<notin> (\<lambda>d. (map_of d ''user_id'', map_of d ''hub_id'')) ` set ?favs"
    by (auto simp: favorited_def list_ex_iff favorite_of_pair)
  from wf dec newid newpair have wf2: "favorites_wf (?favs @ [?doc])"
    unfolding favorites_wf_def by (simp only: list_all_append map_append distinct_append) auto
  from res w2 fd wf2 show ?thesis by (simp add: favorited_def)
qed

text \<open>
  C10: with a store whose calls succeed, on a favorites collection as \<open>ToggleFavorite\<close>
  keeps it, and for a fixed user and hub: if a Favorite record exists it is removed and
  the response reports \<open>favorite = false\<close>, otherwise one is inserted and the response
  reports \<open>favorite = true\<close>; the reported boolean is the existence of the record
  afterwards; the collection stays as \<open>ToggleFavorite\<close> keeps it; and a second toggle
  restores the favorited state there was before the first.
\<close>

theorem toggle_favorite_involution:
  "reliable w \<and> favorites_wf (db w Favorites) \<and> fresh_id e w \<and>
   ObjectIDFromHex (user_id req) = Some userID \<and> ObjectIDFromHex (param_id req) = Some hubID \<and>
   ToggleFavorite e req w = (resp, w') \<longrightarrow>
     resp = JSON 200 (FavoriteToggled
              (if favorited w userID hubID then ''removed from favorites''
               else ''added to favorites'')
              (\<not> favorited w userID hubID)) \<and>
     favorited w' userID hubID = (\<not> favorited w userID hubID) \<and>
     reliable w' \<and> favorites_wf (db w' Favorites) \<and>
     (fresh_id e' w' \<longrightarrow>
        favorited (snd (ToggleFavorite e' req w')) userID hubID = favorited w userID hubID)"
proof (intro impI)
  assume a: "reliable w \<and> favorites_wf (db w Favorites) \<and> fresh_id e w \<and>
   ObjectIDFromHex (user_id req) = Some userID \<and> ObjectIDFromHex (param_id req) = Some hubID \<and>
   ToggleFavorite e req w = (resp, w')"
  have first: "resp = JSON 200 (FavoriteToggled
              (if favorited w userID hubID then ''removed from favorites''
               else ''added to favorites'')
              (\<not> favorited w userID hubID)) \<and>
     favorited w' userID hubID = (\<not> favorited w userID hubID) \<and>
     reliable w' \<and> favorites_wf (db w' Favorites)"
  proof (cases "favorited w userID hubID")
    case True
    with a toggle_existing[of w req userID hubID e resp w'] show ?thesis by simp
  next
    case False
    with a toggle_absent[of w e req userID hubID resp w'] show ?thesis by simp
  qed
  have second: "fresh_id e' w' \<longrightarrow>
        favorited (snd (ToggleFavorite e' req w')) userID hubID = favorited w userID hubID"
  proof
    assume fr: "fresh_id e' w'"
    let ?r = "ToggleFavorite e' req w'"
    have t: "?r = (fst ?r, snd ?r)" by simp
    show "favorited (snd ?r) userID hubID = favorited w userID hubID"
    proof (cases "favorited w' userID hubID")
      case True
      with a first t toggle_existing[of w' req userID hubID e' "fst ?r" "snd ?r"]
      show ?thesis by simp
    next
      case False
      with a first fr t toggle_absent[of w' e' req userID hubID "fst ?r" "snd ?r"]
      show ?thesis by simp
    qed
  qed
  from first second show "resp = JSON 200 (FavoriteToggled
              (if favorited w userID hubID then ''removed from favorites''
               else ''added to favorites'')
              (\<not> favorited w userID hubID)) \<and>
     favorited w' userID hubID = (\<not> favorited w userID hubID) \<and>
     reliable w' \<and> favorites_wf (db w' Favorites) \<and>
     (fresh_id e' w' \<longrightarrow>
        favorited (snd (ToggleFavorite e' req w')) userID hubID = favorited w userID hubID)"
    by simp
qed

lemma bob_hex: "ObjectIDFromHex bob = Some bob"
  by (simp add: ObjectIDFromHex_def bob_def is_hex_def lower_hex_def)

lemma fresh_after_first_toggle:
  "fresh_id (sample_env\<lparr>NewObjectID := ''6500000000000000000000fe''\<rparr>)
     (snd (ToggleFavorite sample_env (as_user bob ''user'' hub1) sample_world))"
  by code_simp

theorem toggle_favorite_involution_witness:
  "fst (ToggleFavorite sample_env (as_user bob ''user'' hub1) sample_world)
     = JSON 200 (FavoriteToggled ''added to favorites'' True)
   \<and> favorited (snd (ToggleFavorite sample_env (as_user bob ''user'' hub1) sample_world)) bob hub1
   \<and> \<not> favorited (snd (ToggleFavorite (sample_env\<lparr>NewObjectID := ''6500000000000000000000fe''\<rparr>)
                      (as_user bob ''user'' hub1)
                      (snd (ToggleFavorite sample_env (as_user bob ''user'' hub1) sample_world))))
         bob hub1"
proof -
  let ?req = "as_user bob ''user'' hub1"
  let ?r = "ToggleFavorite sample_env ?req sample_world"
  have nf: "\<not> favorited sample_world bob hub1"
    by (simp add: favorited_def sample_world_def empty_world_def)
  have h: "reliable sample_world \<and> favorites_wf (db sample_world Favorites) \<and>
      fresh_id sample_env sample_world \<and>
      ObjectIDFromHex (user_id ?req) = Some bob \<and> ObjectIDFromHex (param_id ?req) = Some hub1 \<and>
      ?r = (fst ?r, snd ?r)"
    using bob_hex hub1_hex
    by (simp add: reliable_def favorites_wf_def fresh_id_def sample_world_def empty_world_def
        sample_env_def IsZero_def NilObjectID_def as_user_def)
  from toggle_favorite_involution[where w = sample_world and e = sample_env and req = ?req
         and userID = bob and hubID = hub1 and resp = "fst ?r" and w' = "snd ?r"
         and e' = "sample_env\<lparr>NewObjectID := ''6500000000000000000000fe''\<rparr>"]
       h nf fresh_after_first_toggle
  show ?thesis by simp
qed

section \<open>Hub reads\<close>

lemma Find_frame:
  "store_Find c flt w = (r, w') \<Longrightarrow> db w' = db w \<and> (reliable w \<longrightarrow> reliable w')"
  by (auto simp: store_Find_def split: prod.splits bool.splits dest: call_frame call_reliable)

lemma cursor_All_frame:
  "cursor_All c dec ds w = (r, w') \<Longrightarrow> db w' = db w \<and> (reliable w \<longrightarrow> reliable w')"
  by (auto simp: cursor_All_def split: prod.splits bool.splits dest: call_frame call_reliable)

lemma CountDocuments_frame:
  "store_CountDocuments c flt w = (r, w') \<Longrightarrow> db w' = db w \<and> (reliable w \<longrightarrow> reliable w')"
  by (auto simp: store_CountDocuments_def split: prod.splits bool.splits
      dest: call_frame call_reliable)

lemma FindOne_keeps:
  "store_FindOne c flt w = (r, w') \<Longrightarrow> db w' = db w \<and> (reliable w \<longrightarrow> reliable w')"
  by (auto dest: FindOne_frame FindOne_reliable)

lemma resolved_name_db:
  "db w' = db w \<Longrightarrow> resolved_name s dec w' = resolved_name s dec w"
  by (rule ext) (simp add: resolved_name_def)

lemma hub_reviews_frame:
  "hub_reviews hubID w = (rs, w') \<Longrightarrow> db w' = db w \<and> (reliable w \<longrightarrow> reliable w')"
  by (auto simp: hub_reviews_def split: prod.splits option.splits
      dest!: Find_frame cursor_All_frame)

lemma review_responses_frame:
  "review_responses rs w = (rrs, w') \<Longrightarrow> db w' = db w \<and> (reliable w \<longrightarrow> reliable w')"
proof (induction rs arbitrary: w rrs w')
  case Nil then show ?case by simp
next
  case (Cons r rs)
  obtain found w1 where f: "store_FindOne Users (matches [(''_id'', BOid (rev_UserID r))]) w = (found, w1)"
    by (cases "store_FindOne Users (matches [(''_id'', BOid (rev_UserID r))]) w")
  obtain rest w2 where rr: "review_responses rs w1 = (rest, w2)"
    by (cases "review_responses rs w1")
  from Cons.prems f rr have "w' = w2" by (simp add: Let_def)
  with FindOne_keeps[OF f] Cons.IH[OF rr] show ?case by simp
qed

lemma review_responses_names:
  "reliable w \<Longrightarrow> review_responses rs w = (rrs, w') \<Longrightarrow>
   \<forall>rr \<in> set rrs. rr_UserName rr = resolved_name ''Unknown'' decode_Name w (rr_UserID rr)"
proof (induction rs arbitrary: w rrs w')
  case Nil then show ?case by simp
next
  case (Cons r rs)
  obtain found w1 where f: "store_FindOne Users (matches [(''_id'', BOid (rev_UserID r))]) w = (found, w1)"
    by (cases "store_FindOne Users (matches [(''_id'', BOid (rev_UserID r))]) w")
  obtain rest w2 where rr: "review_responses rs w1 = (rest, w2)"
    by (cases "review_responses rs w1")
  from FindOne_reliable[OF Cons.prems(1) f] FindOne_frame[OF f]
  have fr: "found = find (matches [(''_id'', BOid (rev_UserID r))]) (db w Users)"
    "reliable w1" "db w1 = db w" by auto
  from Cons.IH[OF fr(2) rr] resolved_name_db[OF fr(3)]
  have ih: "\<forall>rr \<in> set rest. rr_UserName rr = resolved_name ''Unknown'' decode_Name w (rr_UserID rr)"
    by simp
  from Cons.prems(2) f rr fr(1) ih show ?case
    by (auto simp: Let_def resolved_name_def)
qed

lemma enrich_hubs_frame:
  "enrich_hubs userID hubs w = (enriched, w') \<Longrightarrow>
   map eh_hub enriched = hubs \<and> db w' = db w \<and> (reliable w \<longrightarrow> reliable w')"
proof (induction hubs arbitrary: w enriched w')
  case Nil then show ?case by simp
next
  case (Cons hub hubs)
  obtain reviews w1 where a: "hub_reviews (hub_ID hub) w = (reviews, w1)"
    by (cases "hub_reviews (hub_ID hub) w")
  obtain rrs w2 where b: "review_responses reviews w1 = (rrs, w2)"
    by (cases "review_responses reviews w1")
  obtain fav w3 where c: "store_FindOne Favorites
      (matches [(''user_id'', BOid userID), (''hub_id'', BOid (hub_ID hub))]) w2 = (fav, w3)"
    by (cases "store_FindOne Favorites
      (matches [(''user_id'', BOid userID), (''hub_id'', BOid (hub_ID hub))]) w2")
  obtain rest w4 where d: "enrich_hubs userID hubs w3 = (rest, w4)"
    by (cases "enrich_hubs userID hubs w3")
  from Cons.prems a b c d have e: "enriched = \<lparr>eh_hub = hub, eh_Reviews = rrs,
      eh_IsFavorite = (fav \<noteq> None)\<rparr> # rest" "w' = w4"
    by simp_all
  with hub_reviews_frame[OF a] review_responses_frame[OF b] FindOne_keeps[OF c] Cons.IH[OF d]
  show ?case by simp
qed

lemma enrich_hubs_names:
  "reliable w \<Longrightarrow> enrich_hubs userID hubs w = (enriched, w') \<Longrightarrow>
   \<forall>eh \<in> set enriched. \<forall>rr \<in> set (eh_Reviews eh).
      rr_UserName rr = resolved_name ''Unknown'' decode_Name w (rr_UserID rr)"
proof (induction hubs arbitrary: w enriched w')
  case Nil then show ?case by simp
next
  case (Cons hub hubs)
  obtain reviews w1 where a: "hub_reviews (hub_ID hub) w = (reviews, w1)"
    by (cases "hub_reviews (hub_ID hub) w")
  obtain rrs w2 where b: "review_responses reviews w1 = (rrs, w2)"
    by (cases "review_responses reviews w1")
  obtain fav w3 where c: "store_FindOne Favorites
      (matches [(''user_id'', BOid userID), (''hub_id'', BOid (hub_ID hub))]) w2 = (fav, w3)"
    by (cases "store_FindOne Favorites
      (matches [(''user_id'', BOid userID), (''hub_id'', BOid (hub_ID hub))]) w2")
  obtain rest w4 where d: "enrich_hubs userID hubs w3 = (rest, w4)"
    by (cases "enrich_hubs userID hubs w3")
  from Cons.prems a b c d have e: "enriched = \<lparr>eh_hub = hub, eh_Reviews = rrs,
      eh_IsFavorite = (fav \<noteq> None)\<rparr> # rest"
    by simp
  from hub_reviews_frame[OF a] Cons.prems(1) have w1: "reliable w1" "db w1 = db w" by auto
  from review_responses_frame[OF b] w1 have w2: "reliable w2" "db w2 = db w" by auto
  from FindOne_keeps[OF c] w2 have w3: "reliable w3" "db w3 = db w" by auto
  from review_responses_names[OF w1(1) b] resolved_name_db[OF w1(2)]
  have n1: "\<forall>rr \<in> set rrs. rr_UserName rr = resolved_name ''Unknown'' decode_Name w (rr_UserID rr)"
    by simp
  from Cons.IH[OF w3(1) d] resolved_name_db[OF w3(2)]
  have n2: "\<forall>eh \<in> set rest. \<forall>rr \<in> set (eh_Reviews eh).
      rr_UserName rr = resolved_name ''Unknown'' decode_Name w (rr_UserID rr)"
    by simp
  from e n1 n2 show ?case by simp
qed

lemma get_hub_reviews_frame:
  "get_hub_reviews e cursor w = (reviews, w') \<Longrightarrow> db w' = db w \<and> (reliable w \<longrightarrow> reliable w')"
proof (induction cursor arbitrary: w reviews w')
  case Nil then show ?case by simp
next
  case (Cons d cursor)
  show ?case
  proof (cases "decode_Review d")
    case None
    with Cons show ?thesis by simp
  next
    case (Some review)
    obtain found w1 where f: "store_FindOne Users (matches [(''_id'', BOid (rev_UserID review))]) w = (found, w1)"
      by (cases "store_FindOne Users (matches [(''_id'', BOid (rev_UserID review))]) w")
    obtain rest w2 where rr: "get_hub_reviews e cursor w1 = (rest, w2)"
      by (cases "get_hub_reviews e cursor w1")
    from Cons.prems Some f rr have "w' = w2" by (simp add: Let_def)
    with FindOne_keeps[OF f] Cons.IH[OF rr] show ?thesis by simp
  qed
qed

lemma get_hub_reviews_names:
  "reliable w \<Longrightarrow> get_hub_reviews e cursor w = (reviews, w') \<Longrightarrow>
   reviews = map (\<lambda>r. hub_review (resolved_name ''Unknown User'' (User_Name e) w (rev_UserID r)) r)
               (List.map_filter decode_Review cursor)"
proof (induction cursor arbitrary: w reviews w')
  case Nil then show ?case by (simp add: List.map_filter_simps)
next
  case (Cons d cursor)
  show ?case
  proof (cases "decode_Review d")
    case None
    with Cons show ?thesis by (simp add: List.map_filter_simps)
  next
    case (Some review)
    obtain found w1 where f: "store_FindOne Users (matches [(''_id'', BOid (rev_UserID review))]) w = (found, w1)"
      by (cases "store_FindOne Users (matches [(''_id'', BOid (rev_UserID review))]) w")
    obtain rest w2 where rr: "get_hub_reviews e cursor w1 = (rest, w2)"
      by (cases "get_hub_reviews e cursor w1")
    from FindOne_reliable[OF Cons.prems(1) f] FindOne_frame[OF f]
    have fr: "found = find (matches [(''_id'', BOid (rev_UserID review))]) (db w Users)"
      "reliable w1" "db w1 = db w" by auto
    from Cons.IH[OF fr(2) rr] resolved_name_db[OF fr(3)]
    have ih: "rest = map (\<lambda>r. hub_review (resolved_name ''Unknown User'' (User_Name e) w (rev_UserID r)) r)
               (List.map_filter decode_Review cursor)"
      by simp
    from Cons.prems(2) Some f rr fr(1) ih show ?thesis
      by (simp add: Let_def resolved_name_def hub_review_def List.map_filter_simps)
  qed
qed

lemma is_favorite_frame:
  "is_favorite user hubID w = (b, w') \<Longrightarrow> db w' = db w"
  by (auto simp: is_favorite_def split: option.splits prod.splits dest!: CountDocuments_frame)

lemma Find_reliable:
  "reliable w \<Longrightarrow> store_Find c flt w = (r, w') \<Longrightarrow>
   r = Some (filter flt (db w c)) \<and> reliable w' \<and> db w' = db w"
  by (auto simp: store_Find_def split: prod.splits bool.splits dest: call_frame call_reliable)

lemma cursor_All_reliable:
  "reliable w \<Longrightarrow> cursor_All c dec ds w = (r, w') \<Longrightarrow>
   r = decode_all dec ds \<and> reliable w' \<and> db w' = db w"
  by (auto simp: cursor_All_def split: prod.splits bool.splits dest: call_frame call_reliable)

lemma hub_reviews_exact:
  assumes "reliable w" "hub_reviews hubID w = (rs, w')"
  shows "rs = stored_reviews w hubID \<and> reliable w' \<and> db w' = db w"
proof -
  obtain r1 w1 where f: "store_Find Reviews (matches [(''hub_id'', BOid hubID)]) w = (r1, w1)"
    by (cases "store_Find Reviews (matches [(''hub_id'', BOid hubID)]) w")
  from Find_reliable[OF assms(1) f]
  have r1: "r1 = Some (filter (matches [(''hub_id'', BOid hubID)]) (db w Reviews))"
    "reliable w1" "db w1 = db w" by simp_all
  obtain r2 w2 where a: "cursor_All Reviews decode_Review
      (filter (matches [(''hub_id'', BOid hubID)]) (db w Reviews)) w1 = (r2, w2)"
    by (cases "cursor_All Reviews decode_Review
      (filter (matches [(''hub_id'', BOid hubID)]) (db w Reviews)) w1")
  from cursor_All_reliable[OF r1(2) a] r1(3)
  have r2: "r2 = decode_all decode_Review (filter (matches [(''hub_id'', BOid hubID)]) (db w Reviews))"
    "reliable w2" "db w2 = db w" by simp_all
  from assms(2) f r1(1) a r2 show ?thesis
    by (auto simp: hub_reviews_def stored_reviews_def split: option.splits)
qed

lemma review_responses_exact:
  "reliable w \<Longrightarrow> review_responses rs w = (rrs, w') \<Longrightarrow>
   rrs = map (\<lambda>r. review_response (resolved_name ''Unknown'' decode_Name w (rev_UserID r)) r) rs"
proof (induction rs arbitrary: w rrs w')
  case Nil then show ?case by simp
next
  case (Cons r rs)
  obtain found w1 where f: "store_FindOne Users (matches [(''_id'', BOid (rev_UserID r))]) w = (found, w1)"
    by (cases "store_FindOne Users (matches [(''_id'', BOid (rev_UserID r))]) w")
  obtain rest w2 where rr: "review_responses rs w1 = (rest, w2)"
    by (cases "review_responses rs w1")
  from FindOne_reliable[OF Cons.prems(1) f] FindOne_frame[OF f]
  have fr: "found = find (matches [(''_id'', BOid (rev_UserID r))]) (db w Users)"
    "reliable w1" "db w1 = db w" by auto
  from Cons.IH[OF fr(2) rr] resolved_name_db[OF fr(3)]
  have ih: "rest = map (\<lambda>r. review_response (resolved_name ''Unknown'' decode_Name w (rev_UserID r)) r) rs"
    by simp
  from Cons.prems(2) f rr fr(1) ih show ?case
    by (simp add: Let_def resolved_name_def review_response_def)
qed

lemma stored_reviews_db: "db w' = db w \<Longrightarrow> stored_reviews w' = stored_reviews w"
  by (rule ext) (simp add: stored_reviews_def)

lemma favorited_db: "db w' = db w \<Longrightarrow> favorited w' = favorited w"
  by (intro ext) (simp add: favorited_def)

lemma enrich_hubs_exact:
  "reliable w \<Longrightarrow> enrich_hubs userID hubs w = (enriched, w') \<Longrightarrow>
   enriched = map (\<lambda>hub. \<lparr>eh_hub = hub,
       eh_Reviews = map (\<lambda>r. review_response
                            (resolved_name ''Unknown'' decode_Name w (rev_UserID r)) r)
                      (stored_reviews w (hub_ID hub)),
       eh_IsFavorite = favorited w userID (hub_ID hub)\<rparr>) hubs"
proof (induction hubs arbitrary: w enriched w')
  case Nil then show ?case by simp
next
  case (Cons hub hubs)
  obtain reviews w1 where a: "hub_reviews (hub_ID hub) w = (reviews, w1)"
    by (cases "hub_reviews (hub_ID hub) w")
  obtain rrs w2 where b: "review_responses reviews w1 = (rrs, w2)"
    by (cases "review_responses reviews w1")
  obtain fav w3 where c: "store_FindOne Favorites
      (matches [(''user_id'', BOid userID), (''hub_id'', BOid (hub_ID hub))]) w2 = (fav, w3)"
    by (cases "store_FindOne Favorites
      (matches [(''user_id'', BOid userID), (''hub_id'', BOid (hub_ID hub))]) w2")
  obtain rest w4 where d: "enrich_hubs userID hubs w3 = (rest, w4)"
    by (cases "enrich_hubs userID hubs w3")
  from Cons.prems a b c d have e: "enriched = \<lparr>eh_hub = hub, eh_Reviews = rrs,
      eh_IsFavorite = (fav \<noteq> None)\<rparr> # rest"
    by simp
  from hub_reviews_exact[OF Cons.prems(1) a]
  have w1: "reviews = stored_reviews w (hub_ID hub)" "reliable w1" "db w1 = db w" by simp_all
  from review_responses_frame[OF b] w1 have w2: "reliable w2" "db w2 = db w" by auto
  from FindOne_reliable[OF w2(1) c] FindOne_frame[OF c] w2(2)
  have w3: "fav = find (matches [(''user_id'', BOid userID), (''hub_id'', BOid (hub_ID hub))])
                    (db w Favorites)" "reliable w3" "db w3 = db w"
    by auto
  from review_responses_exact[OF w1(2) b] resolved_name_db[OF w1(3)] w1(1)
  have n1: "rrs = map (\<lambda>r. review_response
                            (resolved_name ''Unknown'' decode_Name w (rev_UserID r)) r)
                      (stored_reviews w (hub_ID hub))"
    by simp
  from w3(1) have fv: "(fav \<noteq> None) = favorited w userID (hub_ID hub)"
    by (auto simp: favorited_def favorite_of_def list_ex_iff find_None_iff)
  from Cons.IH[OF w3(2) d] resolved_name_db[OF w3(3)] stored_reviews_db[OF w3(3)]
    favorited_db[OF w3(3)]
  have n2: "rest = map (\<lambda>hub. \<lparr>eh_hub = hub,
       eh_Reviews = map (\<lambda>r. review_response
                            (resolved_name ''Unknown'' decode_Name w (rev_UserID r)) r)
                      (stored_reviews w (hub_ID hub)),
       eh_IsFavorite = favorited w userID (hub_ID hub)\<rparr>) hubs"
    by simp
  from e n1 n2 fv show ?case by simp
qed

text \<open>
  C9: once the hubs have been read (\<open>ListHubs\<close>), or the hub and the cursor of its
  reviews (\<open>GetHub\<close>), no later failure changes the outcome of the request: \<open>ListHubs\<close>
  answers 200 with every hub read, and \<open>GetHub\<close> answers 200 with the hub, or 304 to a
  matching \<open>If-None-Match\<close>; no collection changes. Where the remaining calls to the
  store succeed, every hub carries all the reviews that reference it (in the single read,
  those that decode) and its favorite flag, and the author name of every review is the
  display name of its user when the user record resolves, and the sentinel, \<open>Unknown\<close>
  in the list and \<open>Unknown User\<close> in the single read, when it does not.
\<close>

theorem hub_reads_resolve_names:
  "(ObjectIDFromHex (user_id req) = Some userID \<and>
    store_Find Hubs (hubs_filter e req) w = (Some cursor, w1) \<and>
    cursor_All Hubs decode_Hub cursor w1 = (Some hubs, w2) \<longrightarrow>
      (\<exists>enriched w'. ListHubs e req w = (JSON 200 (HubList enriched), w') \<and>
          map eh_hub enriched = hubs \<and> db w' = db w \<and>
          (reliable w2 \<longrightarrow>
             enriched = map (\<lambda>hub. \<lparr>eh_hub = hub,
                 eh_Reviews = map (\<lambda>r. review_response
                                      (resolved_name ''Unknown'' decode_Name w (rev_UserID r)) r)
                                (stored_reviews w (hub_ID hub)),
                 eh_IsFavorite = favorited w userID (hub_ID hub)\<rparr>) hubs)))
   \<and>
   (ObjectIDFromHex (param_id req) = Some hubID \<and>
    store_FindOne Hubs (matches [(''_id'', BOid hubID)]) w = (Some d, w1) \<and>
    decode_Hub d = Some hub \<and>
    store_Find Reviews (matches [(''hub_id'', BOid hubID)]) w1 = (Some cursor, w2) \<longrightarrow>
      (\<exists>reviews isFavorite w'.
          GetHub e req w =
            (if if_none_match req \<noteq> [] \<and>
                if_none_match req = GenerateETag e (hub_ID hub) (hub_UpdatedAt hub)
             then \<lparr>status = 304, headers = [], body = None\<rparr>
             else \<lparr>status = 200,
                    headers = [(''ETag'', GenerateETag e (hub_ID hub) (hub_UpdatedAt hub))],
                    body = Some (HubDetail hub reviews isFavorite)\<rparr>, w') \<and>
          db w' = db w \<and>
          (reliable w2 \<longrightarrow>
             reviews = map (\<lambda>r. hub_review
                               (resolved_name ''Unknown User'' (User_Name e) w (rev_UserID r)) r)
                         (List.map_filter decode_Review cursor))))"
proof (intro conjI impI)
  assume a: "ObjectIDFromHex (user_id req) = Some userID \<and>
    store_Find Hubs (hubs_filter e req) w = (Some cursor, w1) \<and>
    cursor_All Hubs decode_Hub cursor w1 = (Some hubs, w2)"
  obtain enriched w3 where en: "enrich_hubs userID hubs w2 = (enriched, w3)"
    by (cases "enrich_hubs userID hubs w2")
  from a Find_frame[of Hubs "hubs_filter e req" w "Some cursor" w1]
    cursor_All_frame[of Hubs decode_Hub cursor w1 "Some hubs" w2]
  have d2: "db w2 = db w" by simp
  from a en have r: "ListHubs e req w = (JSON 200 (HubList enriched), w3)"
    by (simp add: ListHubs_def)
  from enrich_hubs_frame[OF en] d2 have f: "map eh_hub enriched = hubs" "db w3 = db w"
    by simp_all
  have n: "reliable w2 \<longrightarrow>
             enriched = map (\<lambda>hub. \<lparr>eh_hub = hub,
                 eh_Reviews = map (\<lambda>r. review_response
                                      (resolved_name ''Unknown'' decode_Name w (rev_UserID r)) r)
                                (stored_reviews w (hub_ID hub)),
                 eh_IsFavorite = favorited w userID (hub_ID hub)\<rparr>) hubs"
    using enrich_hubs_exact[OF _ en] resolved_name_db[OF d2] stored_reviews_db[OF d2]
      favorited_db[OF d2]
    by simp
  from r f n show "\<exists>enriched w'. ListHubs e req w = (JSON 200 (HubList enriched), w') \<and>
          map eh_hub enriched = hubs \<and> db w' = db w \<and>
          (reliable w2 \<longrightarrow>
             enriched = map (\<lambda>hub. \<lparr>eh_hub = hub,
                 eh_Reviews = map (\<lambda>r. review_response
                                      (resolved_name ''Unknown'' decode_Name w (rev_UserID r)) r)
                                (stored_reviews w (hub_ID hub)),
                 eh_IsFavorite = favorited w userID (hub_ID hub)\<rparr>) hubs)"
    by blast
next
  assume a: "ObjectIDFromHex (param_id req) = Some hubID \<and>
    store_FindOne Hubs (matches [(''_id'', BOid hubID)]) w = (Some d, w1) \<and>
    decode_Hub d = Some hub \<and>
    store_Find Reviews (matches [(''hub_id'', BOid hubID)]) w1 = (Some cursor, w2)"
  let ?user = "if user_id req \<noteq> [] then ObjectIDFromHex (user_id req) else None"
  obtain reviews w3 where g: "get_hub_reviews e cursor w2 = (reviews, w3)"
    by (cases "get_hub_reviews e cursor w2")
  obtain isFavorite w4 where fv: "is_favorite ?user hubID w3 = (isFavorite, w4)"
    by (cases "is_favorite ?user hubID w3")
  from a FindOne_frame[of Hubs "matches [(''_id'', BOid hubID)]" w "Some d" w1]
    Find_frame[of Reviews "matches [(''hub_id'', BOid hubID)]" w1 "Some cursor" w2]
  have d2: "db w2 = db w" by simp
  from get_hub_reviews_frame[OF g] is_favorite_frame[OF fv] d2 have d4: "db w4 = db w"
    by simp
  from a g fv have r: "GetHub e req w =
            (if if_none_match req \<noteq> [] \<and>
                if_none_match req = GenerateETag e (hub_ID hub) (hub_UpdatedAt hub)
             then \<lparr>status = 304, headers = [], body = None\<rparr>
             else \<lparr>status = 200,
                    headers = [(''ETag'', GenerateETag e (hub_ID hub) (hub_UpdatedAt hub))],
                    body = Some (HubDetail hub reviews isFavorite)\<rparr>, w4)"
    by (simp add: GetHub_def Let_def NotModified_def)
  have n: "reliable w2 \<longrightarrow>
             reviews = map (\<lambda>r. hub_review
                               (resolved_name ''Unknown User'' (User_Name e) w (rev_UserID r)) r)
                         (List.map_filter decode_Review cursor)"
    using get_hub_reviews_names[OF _ g] resolved_name_db[OF d2] by simp
  from r d4 n show "\<exists>reviews isFavorite w'.
          GetHub e req w =
            (if if_none_match req \<noteq> [] \<and>
                if_none_match req = GenerateETag e (hub_ID hub) (hub_UpdatedAt hub)
             then \<lparr>status = 304, headers = [], body = None\<rparr>
             else \<lparr>status = 200,
                    headers = [(''ETag'', GenerateETag e (hub_ID hub) (hub_UpdatedAt hub))],
                    body = Some (HubDetail hub reviews isFavorite)\<rparr>, w') \<and>
          db w' = db w \<and>
          (reliable w2 \<longrightarrow>
             reviews = map (\<lambda>r. hub_review
                               (resolved_name ''Unknown User'' (User_Name e) w (rev_UserID r)) r)
                         (List.map_filter decode_Review cursor))"
    by blast
qed

lemma decode_review_doc: "decode_Review (review_doc i u) = Some (review_rec i u)"
  by (simp add: decode_Review_def review_doc_def review_rec_def)

lemma names_in_reviews_world:
  "resolved_name s decode_Name reviews_world alice = ''Alice''"
  "resolved_name s decode_Name reviews_world bob = s"
  by (simp_all add: resolved_name_def reviews_world_def empty_world_def matches_def
      decode_Name_def alice_def bob_def)

lemma stored_reviews_sample:
  "stored_reviews reviews_world hub1 = [review_rec review1 alice, review_rec review2 bob]"
  by (simp add: stored_reviews_def reviews_world_def empty_world_def matches_def
      decode_review_doc) (simp add: review_doc_def)

theorem hub_reads_resolve_names_witness:
  "fst (ListHubs sample_env (as_user bob ''user'' hub1) reviews_world)
     = JSON 200 (HubList [\<lparr>eh_hub = sample_hub,
          eh_Reviews = [review_response ''Alice'' (review_rec review1 alice),
                        review_response ''Unknown'' (review_rec review2 bob)],
          eh_IsFavorite = False\<rparr>])
   \<and>
   fst (GetHub sample_env (as_user bob ''user'' hub1) reviews_world)
     = \<lparr>status = 200, headers = [(''ETag'', ''etag-650000000000000000000001'')],
        body = Some (HubDetail sample_hub
                 [hub_review ''Alice'' (review_rec review1 alice),
                  hub_review ''Unknown User'' (review_rec review2 bob)] False)\<rparr>"
proof -
  let ?req = "as_user bob ''user'' hub1"
  let ?w1 = "reviews_world\<lparr>calls := [(Find, Hubs)]\<rparr>"
  let ?w2 = "reviews_world\<lparr>calls := [(Find, Hubs), (All, Hubs)]\<rparr>"
  have h1: "ObjectIDFromHex (user_id ?req) = Some bob \<and>
      store_Find Hubs (hubs_filter sample_env ?req) reviews_world = (Some [sample_hub_doc], ?w1) \<and>
      cursor_All Hubs decode_Hub [sample_hub_doc] ?w1 = (Some [sample_hub], ?w2)"
    using bob_hex decode_sample_hub
    by (simp add: as_user_def store_Find_def cursor_All_def call_def hubs_filter_def
        reviews_world_def empty_world_def)
  have r2: "reliable ?w2" by (simp add: reliable_def reviews_world_def empty_world_def)
  from hub_reads_resolve_names[where req = ?req and userID = bob and e = sample_env
         and w = reviews_world and cursor = "[sample_hub_doc]" and ?w1.0 = ?w1
         and hubs = "[sample_hub]" and ?w2.0 = ?w2, THEN conjunct1, THEN mp, OF h1]
  obtain enriched w' where
    l0: "ListHubs sample_env ?req reviews_world = (JSON 200 (HubList enriched), w')"
       "reliable ?w2 \<longrightarrow>
             enriched = map (\<lambda>hub. \<lparr>eh_hub = hub,
                 eh_Reviews = map (\<lambda>r. review_response
                                      (resolved_name ''Unknown'' decode_Name reviews_world (rev_UserID r)) r)
                                (stored_reviews reviews_world (hub_ID hub)),
                 eh_IsFavorite = favorited reviews_world bob (hub_ID hub)\<rparr>) [sample_hub]"
    by (elim exE conjE)
  note l = l0(1) l0(2)[THEN mp, OF r2]
  have nf: "\<not> favorited reviews_world bob hub1"
    by (simp add: favorited_def reviews_world_def empty_world_def)
  from l(2) stored_reviews_sample nf names_in_reviews_world[of "''Unknown''"]
  have en: "enriched = [\<lparr>eh_hub = sample_hub,
          eh_Reviews = [review_response ''Alice'' (review_rec review1 alice),
                        review_response ''Unknown'' (review_rec review2 bob)],
          eh_IsFavorite = False\<rparr>]"
    by (simp add: sample_hub_def review_rec_def)
  from l(1) en have l1: "fst (ListHubs sample_env ?req reviews_world)
     = JSON 200 (HubList [\<lparr>eh_hub = sample_hub,
          eh_Reviews = [review_response ''Alice'' (review_rec review1 alice),
                        review_response ''Unknown'' (review_rec review2 bob)],
          eh_IsFavorite = False\<rparr>])"
    by simp
  let ?v1 = "reviews_world\<lparr>calls := [(FindOne, Hubs)]\<rparr>"
  let ?v2 = "reviews_world\<lparr>calls := [(FindOne, Hubs), (Find, Reviews)]\<rparr>"
  let ?cursor = "[review_doc review1 alice, review_doc review2 bob]"
  have h2: "ObjectIDFromHex (param_id ?req) = Some hub1 \<and>
      store_FindOne Hubs (matches [(''_id'', BOid hub1)]) reviews_world = (Some sample_hub_doc, ?v1) \<and>
      decode_Hub sample_hub_doc = Some sample_hub \<and>
      store_Find Reviews (matches [(''hub_id'', BOid hub1)]) ?v1 = (Some ?cursor, ?v2)"
    using hub1_hex decode_sample_hub
    by (simp add: as_user_def store_FindOne_def store_Find_def call_def matches_def
        reviews_world_def empty_world_def sample_hub_doc_def review_doc_def)
  have rv: "reliable ?v2" by (simp add: reliable_def reviews_world_def empty_world_def)
  have fav: "\<forall>reviews isFavorite. body (fst (GetHub sample_env ?req reviews_world))
       = Some (HubDetail sample_hub reviews isFavorite) \<longrightarrow> \<not> isFavorite"
  proof -
    have "(case body (fst (GetHub sample_env ?req reviews_world)) of
             Some (HubDetail x y isFavorite) \<Rightarrow> \<not> isFavorite | _ \<Rightarrow> True)"
      by code_simp
    then show ?thesis by auto
  qed
  from hub_reads_resolve_names[where req = ?req and hubID = hub1 and e = sample_env
         and w = reviews_world and d = sample_hub_doc and ?w1.0 = ?v1 and hub = sample_hub
         and cursor = ?cursor and ?w2.0 = ?v2, THEN conjunct2, THEN mp, OF h2]
  obtain reviews isFavorite w'' where
    g0: "GetHub sample_env ?req reviews_world =
            (if if_none_match ?req \<noteq> [] \<and>
                if_none_match ?req = GenerateETag sample_env (hub_ID sample_hub) (hub_UpdatedAt sample_hub)
             then \<lparr>status = 304, headers = [], body = None\<rparr>
             else \<lparr>status = 200,
                    headers = [(''ETag'', GenerateETag sample_env (hub_ID sample_hub) (hub_UpdatedAt sample_hub))],
                    body = Some (HubDetail sample_hub reviews isFavorite)\<rparr>, w'')"
       "reliable ?v2 \<longrightarrow> reviews = map (\<lambda>r. hub_review
                               (resolved_name ''Unknown User'' (User_Name sample_env) reviews_world (rev_UserID r)) r)
                         (List.map_filter decode_Review ?cursor)"
    by (elim exE conjE)
  note g = g0(1) g0(2)[THEN mp, OF rv]
  from g(2) names_in_reviews_world[of "''Unknown User''"]
  have rs: "reviews = [hub_review ''Alice'' (review_rec review1 alice),
                  hub_review ''Unknown User'' (review_rec review2 bob)]"
    by (simp add: List.map_filter_simps decode_review_doc sample_env_def review_rec_def)
  from g(1) have gb: "fst (GetHub sample_env ?req reviews_world) =
      \<lparr>status = 200, headers = [(''ETag'', ''etag-650000000000000000000001'')],
        body = Some (HubDetail sample_hub reviews isFavorite)\<rparr>"
    by (simp add: as_user_def sample_env_def sample_hub_def hub1_def)
  with fav have "\<not> isFavorite" by simp
  with gb rs have g': "fst (GetHub sample_env ?req reviews_world)
     = \<lparr>status = 200, headers = [(''ETag'', ''etag-650000000000000000000001'')],
        body = Some (HubDetail sample_hub
                 [hub_review ''Alice'' (review_rec review1 alice),
                  hub_review ''Unknown User'' (review_rec review2 bob)] False)\<rparr>"
    by simp
  show ?thesis
    by (intro conjI) (rule l1 g')+
qed

section \<open>Contributions: amounts\<close>

lemma keys_contribution_update:
  "k \<in> fst ` set (contribution_update t input) \<Longrightarrow>
   k \<in> {''updated_at'', ''contributor_name'', ''contributor_contact'', ''amount'', ''currency'',
        ''method'', ''payment_reference'', ''status'', ''receipt_url''}"
  by (auto simp: contribution_update_def Let_def)

lemma updated_at_staged:
  "map_of (contribution_update t input) ''updated_at'' = Some (BTime t)"
  by (simp add: contribution_update_def Let_def map_of_stage)


lemma distinct_contribution_update: "distinct (map fst (contribution_update t input))"
  by (simp add: contribution_update_def Let_def)

text \<open>
  C8, as the code has it: an update of an existing Contribution stages the supplied amount
  exactly when it is strictly positive, and then writes it, with no other validation;
  a zero or negative amount is treated as absent: it is not staged, and the stored
  amount stays as it was.
\<close>

theorem contribution_amount_written_iff_positive:
  "ObjectIDFromHex (param_id req) = Some oid \<and> reliable w \<and>
   stored w Contributions oid = Some d \<longrightarrow>
     map_of (contribution_update (now e) input) ''amount'' =
       (if gt_zero (ctn_Amount input) then Some (BDouble (ctn_Amount input)) else None) \<and>
     (gt_zero (ctn_Amount input) \<longrightarrow>
        fst (UpdateContribution e req (Inr input) w)
          = JSON 200 (MessageId ''contribution updated'' (Hex oid)) \<and>
        Option.bind (stored (snd (UpdateContribution e req (Inr input) w)) Contributions oid)
          (\<lambda>d'. map_of d' ''amount'') = Some (BDouble (ctn_Amount input))) \<and>
     (\<not> gt_zero (ctn_Amount input) \<longrightarrow>
        Option.bind (stored (snd (UpdateContribution e req (Inr input) w)) Contributions oid)
          (\<lambda>d'. map_of d' ''amount'') = map_of d ''amount'')"
proof (intro impI)
  assume a: "ObjectIDFromHex (param_id req) = Some oid \<and> reliable w \<and>
   stored w Contributions oid = Some d"
  let ?u = "contribution_update (now e) input"
  let ?r = "UpdateContribution e req (Inr input) w"
  have st: "map_of ?u ''amount'' =
       (if gt_zero (ctn_Amount input) then Some (BDouble (ctn_Amount input)) else None)"
    by (simp add: contribution_update_def Let_def map_of_stage)
  have k: "''_id'' \<notin> fst ` set ?u"
    using keys_contribution_update[of "''_id''" "now e" input] by auto
  obtain r' w' where u: "store_UpdateOne Contributions (matches [(''_id'', BOid oid)]) ?u w = (r', w')"
    by (cases "store_UpdateOne Contributions (matches [(''_id'', BOid oid)]) ?u w")
  from a have rw: "reliable w" and sd: "stored w Contributions oid = Some d"
    and id: "ObjectIDFromHex (param_id req) = Some oid" by simp_all
  from stored_after_UpdateOne[OF rw sd k u]
  have w': "r' = Some 1" "stored w' Contributions oid = Some (apply_set ?u d)" by simp_all
  have amt: "map_of (apply_set ?u d) ''amount'' =
      (if gt_zero (ctn_Amount input) then Some (BDouble (ctn_Amount input)) else map_of d ''amount'')"
    by (simp add: map_of_apply_set distinct_contribution_update st)
  have pos: "fst ?r = JSON 200 (MessageId ''contribution updated'' (Hex oid)) \<and>
        Option.bind (stored (snd ?r) Contributions oid) (\<lambda>d'. map_of d' ''amount'')
          = Some (BDouble (ctn_Amount input))"
    if g: "gt_zero (ctn_Amount input)"
  proof -
    from g st have "map_of ?u ''amount'' \<noteq> None" by simp
    with updated_at_staged[of "now e" input] have "length ?u \<noteq> 1"
      using singleton_keys[of ?u "''amount''" "''updated_at''"] by auto
    with id u w' have "?r = (JSON 200 (MessageId ''contribution updated'' (Hex oid)), w')"
      by (simp add: UpdateContribution_def)
    with w'(2) amt g show ?thesis by simp
  qed
  have neg: "Option.bind (stored (snd ?r) Contributions oid) (\<lambda>d'. map_of d' ''amount'')
      = map_of d ''amount''"
    if g: "\<not> gt_zero (ctn_Amount input)"
  proof (cases "length ?u = 1")
    case True
    with id have "snd ?r = w" by (simp add: UpdateContribution_def)
    with sd show ?thesis by simp
  next
    case False
    with id u w' have "snd ?r = w'" by (simp add: UpdateContribution_def)
    with w'(2) amt g show ?thesis by simp
  qed
  from st pos neg show "map_of ?u ''amount'' =
       (if gt_zero (ctn_Amount input) then Some (BDouble (ctn_Amount input)) else None) \<and>
     (gt_zero (ctn_Amount input) \<longrightarrow>
        fst ?r = JSON 200 (MessageId ''contribution updated'' (Hex oid)) \<and>
        Option.bind (stored (snd ?r) Contributions oid)
          (\<lambda>d'. map_of d' ''amount'') = Some (BDouble (ctn_Amount input))) \<and>
     (\<not> gt_zero (ctn_Amount input) \<longrightarrow>
        Option.bind (stored (snd ?r) Contributions oid)
          (\<lambda>d'. map_of d' ''amount'') = map_of d ''amount'')"
    by blast
qed

lemma contribution1_hex: "ObjectIDFromHex contribution1 = Some contribution1"
  by (simp add: ObjectIDFromHex_def contribution1_def is_hex_def lower_hex_def)

lemma stored_contribution1:
  "stored contributions_world Contributions contribution1 = Some (contribution_doc contribution1 2000)"
  by (simp add: stored_def contributions_world_def empty_world_def matches_def contribution_doc_def)

theorem contribution_amount_written_witness:
  "fst (UpdateContribution sample_env (as_user alice ''user'' contribution1)
          (Inr (no_contribution\<lparr>ctn_Amount := Fin 250\<rparr>)) contributions_world)
     = JSON 200 (MessageId ''contribution updated'' contribution1)
   \<and> map_of (contribution_doc contribution1 2000) ''amount'' = Some (BDouble (Fin 100))
   \<and> Option.bind (stored (snd (UpdateContribution sample_env (as_user alice ''user'' contribution1)
          (Inr (no_contribution\<lparr>ctn_Amount := Fin 250\<rparr>)) contributions_world))
        Contributions contribution1) (\<lambda>d'. map_of d' ''amount'') = Some (BDouble (Fin 250))
   \<and> Option.bind (stored (snd (UpdateContribution sample_env (as_user alice ''user'' contribution1)
          (Inr (no_contribution\<lparr>ctn_ContributorName := ''Ann'', ctn_Amount := Fin 0\<rparr>))
          contributions_world))
        Contributions contribution1) (\<lambda>d'. map_of d' ''amount'') = Some (BDouble (Fin 100))"
proof -
  let ?req = "as_user alice ''user'' contribution1"
  have h: "ObjectIDFromHex (param_id ?req) = Some contribution1 \<and> reliable contributions_world \<and>
     stored contributions_world Contributions contribution1 = Some (contribution_doc contribution1 2000)"
    using contribution1_hex stored_contribution1
    by (simp add: as_user_def reliable_def contributions_world_def empty_world_def)
  have m: "map_of (contribution_doc contribution1 2000) ''amount'' = Some (BDouble (Fin 100))"
    by (simp add: contribution_doc_def)
  from contribution_amount_written_iff_positive[where req = ?req and oid = contribution1
         and w = contributions_world and d = "contribution_doc contribution1 2000"
         and e = sample_env and input = "no_contribution\<lparr>ctn_Amount := Fin 250\<rparr>"] h
       contribution_amount_written_iff_positive[where req = ?req and oid = contribution1
         and w = contributions_world and d = "contribution_doc contribution1 2000"
         and e = sample_env
         and input = "no_contribution\<lparr>ctn_ContributorName := ''Ann'', ctn_Amount := Fin 0\<rparr>"] h
       m
  show ?thesis by (simp add: no_contribution_def Hex_def)
qed

text \<open>
  C8 as stated fails: an update carrying the name Ann and the amount -5 does not stage
  the amount, and the stored amount is not -5 afterwards.
\<close>

theorem negative_amount_not_staged:
  "map_of (contribution_update (now sample_env)
      (no_contribution\<lparr>ctn_ContributorName := ''Ann'', ctn_Amount := Fin (- 5)\<rparr>)) ''amount''
     \<noteq> Some (BDouble (Fin (- 5)))
   \<and> Option.bind (stored (snd (UpdateContribution sample_env (as_user alice ''user'' contribution1)
          (Inr (no_contribution\<lparr>ctn_ContributorName := ''Ann'', ctn_Amount := Fin (- 5)\<rparr>))
          contributions_world))
        Contributions contribution1) (\<lambda>d'. map_of d' ''amount'') \<noteq> Some (BDouble (Fin (- 5)))"
  by code_simp

end
